theory Spec2Isabelle
  imports Main
begin

section \<open>JavaScript values\<close>

text \<open>
  The adapter of \<^verbatim>\<open>src/src/EntityREST.js\<close> moves JSON-like data between a
  request, an Entity collaborator and a response. Values are modelled as a datatype;
  an object is an association list read by first match (\<open>obj_get\<close>), an absent
  property reads as \<open>JUndefined\<close>, as in JavaScript.

  Numbers are mathematical integers plus \<open>JNaN\<close>: fractions, infinities, the
  negative zero and the rounding of integers beyond \<open>2^53\<close> are not modelled.
  Strings are lists of code units below 256, so the only line terminators a string
  can hold are line feed and carriage return. Objects are plain data objects: they
  carry no methods and no accessors of their own.
\<close>

datatype jsval =
    JUndefined
  | JNull
  | JBool bool
  | JNum int
  | JNaN
  | JStr string
  | JArr "jsval list"
  | JObj "(string \<times> jsval) list"
  | JRegExp string string

type_synonym props = "(string \<times> jsval) list"

text \<open>Truthiness, as \<^verbatim>\<open>if (x)\<close>, \<^verbatim>\<open>x && y\<close> and \<^verbatim>\<open>x || y\<close> test it.\<close>

fun js_truthy :: "jsval \<Rightarrow> bool" where
  "js_truthy JUndefined = False"
| "js_truthy JNull = False"
| "js_truthy (JBool b) = b"
| "js_truthy (JNum n) = (n \<noteq> 0)"
| "js_truthy JNaN = False"
| "js_truthy (JStr s) = (s \<noteq> [])"
| "js_truthy (JArr xs) = True"
| "js_truthy (JObj kvs) = True"
| "js_truthy (JRegExp p f) = True"

definition js_or :: "jsval \<Rightarrow> jsval \<Rightarrow> jsval" where
  "js_or a b = (if js_truthy a then a else b)"

text \<open>\<^verbatim>\<open>Array.isArray(x)\<close>.\<close>

fun isArray :: "jsval \<Rightarrow> bool" where
  "isArray (JArr xs) = True"
| "isArray v = False"

text \<open>\<^verbatim>\<open>typeof x === 'object'\<close>: true of objects, arrays, regular expressions and null.\<close>

fun typeof_object :: "jsval \<Rightarrow> bool" where
  "typeof_object JNull = True"
| "typeof_object (JArr xs) = True"
| "typeof_object (JObj kvs) = True"
| "typeof_object (JRegExp p f) = True"
| "typeof_object v = False"

subsection \<open>Objects\<close>

definition obj_get :: "props \<Rightarrow> string \<Rightarrow> jsval" where
  "obj_get kvs k = (case map_of kvs k of None \<Rightarrow> JUndefined | Some v \<Rightarrow> v)"

text \<open>
  \<^verbatim>\<open>o[k] = v\<close> on an object under construction: an existing key keeps its place,
  a new key is appended.
\<close>

primrec obj_set :: "string \<Rightarrow> jsval \<Rightarrow> props \<Rightarrow> props" where
  "obj_set k v [] = [(k, v)]"
| "obj_set k v (p # ps) = (if fst p = k then (k, v) # ps else p # obj_set k v ps)"

definition obj_keys :: "props \<Rightarrow> string list" where
  "obj_keys kvs = remdups (map fst kvs)"

fun nat_string :: "nat \<Rightarrow> string" where
  "nat_string n =
     (if n < 10 then [''0123456789'' ! n]
      else nat_string (n div 10) @ [''0123456789'' ! (n mod 10)])"

declare nat_string.simps [simp del]

definition int_string :: "int \<Rightarrow> string" where
  "int_string i = (if i < 0 then CHR ''-'' # nat_string (nat (- i)) else nat_string (nat i))"

text \<open>
  The own enumerable properties of a value, as object spread and lodash's
  \<^verbatim>\<open>omitBy\<close> enumerate them: the entries of an object, the indexed elements of
  an array, the indexed characters of a string, nothing for any other value.
\<close>

fun own_props :: "jsval \<Rightarrow> props" where
  "own_props (JObj kvs) = kvs"
| "own_props (JArr xs) = zip (map nat_string [0..<length xs]) xs"
| "own_props (JStr s) = zip (map nat_string [0..<length s]) (map (\<lambda>c. JStr [c]) s)"
| "own_props v = []"

text \<open>
  \<^verbatim>\<open>{...acc, ...v}\<close>: every own key of \<open>v\<close> is read from \<open>v\<close> and set on
  the object under construction, in order.
\<close>

definition spread :: "props \<Rightarrow> jsval \<Rightarrow> props" where
  "spread acc v = fold (\<lambda>k a. obj_set k (obj_get (own_props v) k) a) (map fst (own_props v)) acc"

text \<open>
  \<^verbatim>\<open>_.omitBy(_.isUndefined, v)\<close> of lodash/fp: a new plain object holding the
  properties of \<open>v\<close> whose value is not \<^verbatim>\<open>undefined\<close>. lodash builds the
  object with its \<^verbatim>\<open>baseSet\<close>, which (as of release 4.17.21) sets no property
  named \<^verbatim>\<open>__proto__\<close>, \<^verbatim>\<open>constructor\<close> or \<^verbatim>\<open>prototype\<close>: such a key of
  \<open>v\<close> is dropped too.
\<close>

definition unsafe_key :: "string \<Rightarrow> bool" where
  "unsafe_key k \<longleftrightarrow> k = ''__proto__'' \<or> k = ''constructor'' \<or> k = ''prototype''"

definition omitBy_isUndefined :: "jsval \<Rightarrow> props" where
  "omitBy_isUndefined v =
     filter (\<lambda>kv. obj_get (own_props v) (fst kv) \<noteq> JUndefined \<and> \<not> unsafe_key (fst kv))
       (own_props v)"

text \<open>
  Reading a data property \<^verbatim>\<open>v.k\<close>. It throws on \<^verbatim>\<open>undefined\<close> and
  \<^verbatim>\<open>null\<close> (\<open>None\<close> here); inherited methods are not modelled.
\<close>

fun js_get :: "jsval \<Rightarrow> string \<Rightarrow> jsval option" where
  "js_get JUndefined k = None"
| "js_get JNull k = None"
| "js_get (JArr xs) k =
     Some (if k = ''length'' then JNum (int (length xs)) else obj_get (own_props (JArr xs)) k)"
| "js_get (JStr s) k =
     Some (if k = ''length'' then JNum (int (length s)) else obj_get (own_props (JStr s)) k)"
| "js_get v k = Some (obj_get (own_props v) k)"

subsection \<open>Conversions\<close>

fun to_string :: "jsval \<Rightarrow> string" and join_elements :: "jsval list \<Rightarrow> string" where
  "to_string JUndefined = ''undefined''"
| "to_string JNull = ''null''"
| "to_string (JBool b) = (if b then ''true'' else ''false'')"
| "to_string (JNum n) = int_string n"
| "to_string JNaN = ''NaN''"
| "to_string (JStr s) = s"
| "to_string (JArr xs) = join_elements xs"
| "to_string (JObj kvs) = ''[object Object]''"
| "to_string (JRegExp p f) = ''/'' @ p @ ''/'' @ f"
| "join_elements [] = ''''"
| "join_elements [x] =
     (case x of JUndefined \<Rightarrow> '''' | JNull \<Rightarrow> '''' | _ \<Rightarrow> to_string x)"
| "join_elements (x # y # ys) =
     (case x of JUndefined \<Rightarrow> '''' | JNull \<Rightarrow> '''' | _ \<Rightarrow> to_string x)
       @ '','' @ join_elements (y # ys)"

definition is_space :: "char \<Rightarrow> bool" where
  "is_space c = (c \<in> set [CHR 0x09, CHR 0x0A, CHR 0x0B, CHR 0x0C, CHR 0x0D, CHR 0x20, CHR 0xA0])"

definition digit_table :: "(char \<times> nat) list" where
  "digit_table =
     [(CHR ''0'', 0), (CHR ''1'', 1), (CHR ''2'', 2), (CHR ''3'', 3), (CHR ''4'', 4),
      (CHR ''5'', 5), (CHR ''6'', 6), (CHR ''7'', 7), (CHR ''8'', 8), (CHR ''9'', 9),
      (CHR ''a'', 10), (CHR ''b'', 11), (CHR ''c'', 12), (CHR ''d'', 13), (CHR ''e'', 14),
      (CHR ''f'', 15), (CHR ''A'', 10), (CHR ''B'', 11), (CHR ''C'', 12), (CHR ''D'', 13),
      (CHR ''E'', 14), (CHR ''F'', 15)]"

definition digit_val :: "nat \<Rightarrow> char \<Rightarrow> nat option" where
  "digit_val radix c =
     (case map_of digit_table c of
        None \<Rightarrow> None
      | Some d \<Rightarrow> if d < radix then Some d else None)"

definition is_digit :: "nat \<Rightarrow> char \<Rightarrow> bool" where
  "is_digit radix c = (digit_val radix c \<noteq> None)"

definition digits_value :: "nat \<Rightarrow> string \<Rightarrow> nat" where
  "digits_value radix ds = fold (\<lambda>c n. n * radix + the (digit_val radix c)) ds 0"

text \<open>
  \<^verbatim>\<open>parseInt(s)\<close> on a string: leading white space is dropped, a sign is read,
  \<^verbatim>\<open>0x\<close> selects radix 16, and the longest run of digits is the value; with no
  digit the result is NaN.
\<close>

definition parseInt_string :: "string \<Rightarrow> jsval" where
  "parseInt_string s =
     (let s1 = dropWhile is_space s;
          neg = (take 1 s1 = ''-'');
          s2 = (if take 1 s1 = ''-'' \<or> take 1 s1 = ''+'' then drop 1 s1 else s1);
          hex = (take 2 s2 = ''0x'' \<or> take 2 s2 = ''0X'');
          radix = (if hex then 16 else 10);
          s3 = (if hex then drop 2 s2 else s2);
          ds = takeWhile (is_digit radix) s3
      in if ds = [] then JNaN
         else JNum ((if neg then - 1 else 1) * int (digits_value radix ds)))"

definition parseInt :: "jsval \<Rightarrow> jsval" where
  "parseInt v = parseInt_string (to_string v)"

text \<open>\<^verbatim>\<open>Math.min(a, b)\<close> on numbers: NaN if either is NaN.\<close>

fun Math_min :: "jsval \<Rightarrow> jsval \<Rightarrow> jsval" where
  "Math_min (JNum a) (JNum b) = JNum (min a b)"
| "Math_min a b = JNaN"

text \<open>
  \<^verbatim>\<open>x > 0\<close>: the operand is converted to a number and compared; NaN compares
  false. A string, an array and an object convert through their string form, read as
  a numeric literal with the white space around it trimmed: \<^verbatim>\<open>0x\<close>, \<^verbatim>\<open>0b\<close> or
  \<^verbatim>\<open>0o\<close> and digits of that radix, with no sign; or an optional sign and
  \<^verbatim>\<open>Infinity\<close> or a decimal literal (digits, a fraction, an exponent). Only the
  comparison is needed, so the number itself is not built: a literal with mantissa
  \<open>m\<close> and decimal exponent \<open>e\<close> is greater than zero when \<open>m\<close> is positive and
  \<open>m * 10^e\<close> does not round to zero as a double, that is, exceeds \<open>2^-1075\<close>.
\<close>

definition trim :: "string \<Rightarrow> string" where
  "trim s = rev (dropWhile is_space (rev (dropWhile is_space s)))"

definition radix_literal :: "nat \<Rightarrow> string \<Rightarrow> string \<Rightarrow> string \<Rightarrow> bool" where
  "radix_literal radix lower upper t \<longleftrightarrow>
     (take 2 t = lower \<or> take 2 t = upper) \<and> drop 2 t \<noteq> []
       \<and> list_all (is_digit radix) (drop 2 t)"

definition decimal_gt_zero :: "string \<Rightarrow> bool" where
  "decimal_gt_zero u =
     (let ip = takeWhile (is_digit 10) u;
          r1 = dropWhile (is_digit 10) u;
          fp = (if take 1 r1 = ''.'' then takeWhile (is_digit 10) (drop 1 r1) else []);
          r2 = (if take 1 r1 = ''.'' then dropWhile (is_digit 10) (drop 1 r1) else r1);
          r3 = drop 1 r2;
          ed = (if take 1 r3 = ''-'' \<or> take 1 r3 = ''+'' then drop 1 r3 else r3)
      in if (ip = [] \<and> fp = [])
            \<or> (r2 \<noteq> [] \<and> take 1 r2 \<noteq> ''e'' \<and> take 1 r2 \<noteq> ''E'')
            \<or> (r2 \<noteq> [] \<and> (ed = [] \<or> list_ex (\<lambda>c. digit_val 10 c = None) ed))
         then False
         else if r2 = [] \<or> take 1 r3 \<noteq> ''-''
           then 0 < digits_value 10 (ip @ fp)
                \<and> (length fp \<le> digits_value 10 ed
                     \<or> 10 ^ (length fp - digits_value 10 ed)
                          < int (digits_value 10 (ip @ fp)) * 2 ^ 1075)
           else 0 < digits_value 10 (ip @ fp)
                \<and> 10 ^ (length fp + digits_value 10 ed)
                     < int (digits_value 10 (ip @ fp)) * 2 ^ 1075)"

definition string_gt_zero :: "string \<Rightarrow> bool" where
  "string_gt_zero s =
     (if radix_literal 16 ''0x'' ''0X'' (trim s) then 0 < digits_value 16 (drop 2 (trim s))
      else if radix_literal 2 ''0b'' ''0B'' (trim s) then 0 < digits_value 2 (drop 2 (trim s))
      else if radix_literal 8 ''0o'' ''0O'' (trim s) then 0 < digits_value 8 (drop 2 (trim s))
      else if take 1 (trim s) = ''-'' then False
      else if take 1 (trim s) = ''+''
        then drop 1 (trim s) = ''Infinity'' \<or> decimal_gt_zero (drop 1 (trim s))
      else trim s = ''Infinity'' \<or> decimal_gt_zero (trim s))"

fun js_gt_zero :: "jsval \<Rightarrow> bool" where
  "js_gt_zero JUndefined = False"
| "js_gt_zero JNull = False"
| "js_gt_zero (JBool b) = b"
| "js_gt_zero (JNum n) = (0 < n)"
| "js_gt_zero JNaN = False"
| "js_gt_zero v = string_gt_zero (to_string v)"

section \<open>Errors, collaborators and traces\<close>

text \<open>
  A thrown value is an error object: its \<^verbatim>\<open>name\<close> and \<^verbatim>\<open>message\<close>, and the
  \<^verbatim>\<open>status\<close> and \<^verbatim>\<open>details\<close> properties the adapter reads and writes
  (\<open>JUndefined\<close> when the property is not set).
\<close>

record js_error =
  name :: string
  message :: string
  status :: jsval
  details :: jsval

definition Error :: "string \<Rightarrow> js_error" where
  "Error msg = \<lparr>name = ''Error'', message = msg, status = JUndefined, details = JUndefined\<rparr>"

text \<open>
  A \<^verbatim>\<open>TypeError\<close> raised by the engine (a method call on a value that has no
  such method, a property read on \<^verbatim>\<open>null\<close>). The engine's wording of the message
  is not modelled; the text says which expression failed.
\<close>

definition TypeError :: "string \<Rightarrow> js_error" where
  "TypeError msg = \<lparr>name = ''TypeError'', message = msg, status = JUndefined, details = JUndefined\<rparr>"

record request =
  urlParams :: props
  query :: props
  body :: jsval
  user :: jsval

text \<open>
  The Entity collaborator. A method is a function from its arguments to what the call
  yields at the point where the adapter continues: \<open>Inl\<close> an error (thrown, or a
  rejected promise that the adapter awaits), \<open>Inr\<close> the value. An optional hook is
  \<open>None\<close> when the property is absent. \<^verbatim>\<open>resetReadOnly\<close>, \<^verbatim>\<open>assertValid\<close>,
  the \<^verbatim>\<open>prepare*\<close> hooks and the \<^verbatim>\<open>did*\<close> hooks are called and not awaited, so
  for them \<open>Inl\<close> is a synchronous throw only. A method is taken not to change the
  objects it is given.
\<close>

record entity =
  findById :: "jsval \<Rightarrow> js_error + jsval"
  find' :: "jsval \<Rightarrow> jsval \<Rightarrow> js_error + jsval"
  createOne :: "jsval \<Rightarrow> js_error + jsval"
  updateOne :: "jsval \<Rightarrow> js_error + jsval"
  replaceOne :: "jsval \<Rightarrow> js_error + jsval"
  deleteOne :: "jsval \<Rightarrow> js_error + jsval"
  exportOne :: "(jsval \<Rightarrow> js_error + jsval) option"
  exportMany :: "(jsval \<Rightarrow> js_error + jsval) option"
  prepareCreate :: "(jsval \<Rightarrow> js_error + jsval) option"
  prepareUpdate :: "(jsval \<Rightarrow> js_error + jsval) option"
  shouldCreate :: "(jsval \<Rightarrow> request \<Rightarrow> js_error + jsval) option"
  shouldUpdate :: "(jsval \<Rightarrow> request \<Rightarrow> js_error + jsval) option"
  shouldDelete :: "(jsval \<Rightarrow> request \<Rightarrow> js_error + jsval) option"
  didCreate :: "(jsval \<Rightarrow> js_error + jsval) option"
  didUpdate :: "(jsval \<Rightarrow> js_error + jsval) option"
  didDelete :: "(jsval \<Rightarrow> js_error + jsval) option"
  resetReadOnly :: "jsval \<Rightarrow> jsval \<Rightarrow> js_error + jsval"
  assertValid :: "jsval \<Rightarrow> jsval \<Rightarrow> js_error + jsval"

text \<open>
  The endpoint specification; \<open>'a\<close> is the type of the additional arguments that
  the middleware hands to \<^verbatim>\<open>authenticate\<close> and \<^verbatim>\<open>validate\<close>. Both are called
  and not awaited: \<open>Inl\<close> is a synchronous throw.
\<close>

record 'a endpoint_spec =
  authenticate :: "(request \<Rightarrow> 'a \<Rightarrow> js_error + jsval) option"
  validate :: "(request \<Rightarrow> 'a \<Rightarrow> js_error + jsval) option"
  query' :: "(request \<Rightarrow> js_error + jsval) option"
  set' :: "(request \<Rightarrow> js_error + jsval) option"

text \<open>
  What the adapter takes from its environment: \<^verbatim>\<open>JSON.parse\<close>, the pattern
  grammar of \<^verbatim>\<open>new RegExp\<close> (the error it throws for a pattern and flags, if
  any), and the two functions of the fast-json-patch package. \<^verbatim>\<open>applyPatch\<close>
  yields the new document and the document it was given as the call leaves it (the
  package patches in place unless told otherwise).
\<close>

record runtime =
  JSON_parse :: "jsval \<Rightarrow> js_error + jsval"
  RegExp_error :: "string \<Rightarrow> string \<Rightarrow> js_error option"
  jsonPatch_validate :: "jsval \<Rightarrow> jsval \<Rightarrow> js_error + jsval"
  jsonPatch_applyPatch :: "jsval \<Rightarrow> jsval \<Rightarrow> js_error + (jsval \<times> jsval)"

text \<open>
  The calls an operation makes on its collaborators, with their arguments, and the
  calls of \<^verbatim>\<open>respond\<close> (\<open>JUndefined\<close> for a body that is not passed).
\<close>

datatype event =
    FindById jsval
  | Find jsval jsval
  | SpecQuery
  | SpecSet
  | ResetReadOnly jsval jsval
  | PrepareCreate jsval
  | PrepareUpdate jsval
  | AssertValid jsval jsval
  | ShouldCreate jsval
  | ShouldUpdate jsval
  | ShouldDelete jsval
  | CreateOne jsval
  | ReplaceOne jsval
  | UpdateOne jsval
  | DeleteOne jsval
  | ExportOne jsval
  | ExportMany jsval
  | Respond nat jsval
  | DidCreate jsval
  | DidUpdate jsval
  | DidDelete jsval

text \<open>
  A computation: the calls made, in order, and how it ended. \<open>and_then\<close> is
  sequencing; an error skips everything after it.
\<close>

type_synonym 'a comp = "event list \<times> (js_error + 'a)"

definition ret :: "'a \<Rightarrow> 'a comp" where
  "ret x = ([], Inr x)"

definition lift :: "js_error + 'a \<Rightarrow> 'a comp" where
  "lift r = ([], r)"

definition call :: "event \<Rightarrow> js_error + 'a \<Rightarrow> 'a comp" where
  "call ev r = ([ev], r)"

definition and_then :: "'a comp \<Rightarrow> ('a \<Rightarrow> 'b comp) \<Rightarrow> 'b comp" where
  "and_then m f =
     (case snd m of
        Inl e \<Rightarrow> (fst m, Inl e)
      | Inr x \<Rightarrow> (fst m @ fst (f x), snd (f x)))"

definition failure :: "'a comp \<Rightarrow> js_error option" where
  "failure m = (case snd m of Inl e \<Rightarrow> Some e | Inr x \<Rightarrow> None)"

text \<open>
  The assertions \<^verbatim>\<open>Sert.string\<close> and \<^verbatim>\<open>Sert.object\<close> of the sert-schema
  package, taken by their contract: the value passes when it is a string (an object
  that is neither \<^verbatim>\<open>null\<close> nor an array), and otherwise an error with the given
  status and message is thrown.
\<close>

definition sert_error :: "nat \<Rightarrow> string \<Rightarrow> js_error" where
  "sert_error st msg = \<lparr>name = ''Error'', message = msg, status = JNum (int st), details = JUndefined\<rparr>"

fun Sert_string :: "jsval \<Rightarrow> nat \<Rightarrow> string \<Rightarrow> js_error + unit" where
  "Sert_string (JStr s) st msg = Inr ()"
| "Sert_string v st msg = Inl (sert_error st msg)"

fun Sert_object :: "jsval \<Rightarrow> nat \<Rightarrow> string \<Rightarrow> js_error + unit" where
  "Sert_object (JObj kvs) st msg = Inr ()"
| "Sert_object (JRegExp p f) st msg = Inr ()"
| "Sert_object v st msg = Inl (sert_error st msg)"

section \<open>The filter translator\<close>

definition line_terminator :: "char \<Rightarrow> bool" where
  "line_terminator c = (c = CHR 0x0A \<or> c = CHR 0x0D)"

definition is_flag :: "char \<Rightarrow> bool" where
  "is_flag c = (c \<in> set ''gimuy'')"

text \<open>
  \<^verbatim>\<open>s.match(/^\/(.*)\/(g|i|m|u|y)*$/)\<close>, as the two groups of a match. The
  string opens with a slash; the flags are the longest run of flag letters at its
  end, and a slash stands before them; what lies between the two slashes has no
  line terminator. The second group is inside the repetition, so it holds the last
  flag matched (and is undefined when there is none).
\<close>

definition regexpSyntax :: "string \<Rightarrow> (string \<times> char option) option" where
  "regexpSyntax s =
     (case s of
        [] \<Rightarrow> None
      | c # r \<Rightarrow>
          if c = CHR ''/'' then
               (case dropWhile is_flag (rev r) of
                  [] \<Rightarrow> None
                | d # p \<Rightarrow>
                    if d = CHR ''/'' \<and> list_all (\<lambda>x. \<not> line_terminator x) p
                    then Some (rev p,
                           case takeWhile is_flag (rev r) of [] \<Rightarrow> None | f # fs \<Rightarrow> Some f)
                    else None)
          else None)"

text \<open>\<^verbatim>\<open>new RegExp(pattern, flags)\<close>; an undefined second group gives no flags.\<close>

definition new_RegExp :: "runtime \<Rightarrow> string \<Rightarrow> char option \<Rightarrow> js_error + jsval" where
  "new_RegExp rt p f =
     (let flags = (case f of None \<Rightarrow> [] | Some c \<Rightarrow> [c])
      in case RegExp_error rt p flags of
           None \<Rightarrow> Inr (JRegExp p flags)
         | Some e \<Rightarrow> Inl e)"

definition reserved :: "string \<Rightarrow> bool" where
  "reserved prop = (prop = ''limit'' \<or> prop = ''offset'' \<or> prop = ''sort'' \<or> prop = ''q'')"

text \<open>The callback of the \<^verbatim>\<open>reduce\<close> in \<^verbatim>\<open>filterConditions\<close>.\<close>

definition condition_step :: "runtime \<Rightarrow> props \<Rightarrow> string \<Rightarrow> js_error + props \<Rightarrow> js_error + props" where
  "condition_step rt q prop acc =
     (case acc of
        Inl e \<Rightarrow> Inl e
      | Inr conditions \<Rightarrow>
          if reserved prop then Inr conditions
          else if obj_get q prop \<noteq> JUndefined then
            (if obj_get q prop = JStr ''undefined''
               then Inr (obj_set prop (JObj [(''$exists'', JBool False)]) conditions)
             else if obj_get q prop = JStr ''true''
               then Inr (obj_set prop (JBool True) conditions)
             else if obj_get q prop = JStr ''false''
               then Inr (obj_set prop (JBool False) conditions)
             else (case obj_get q prop of
                     JStr s \<Rightarrow>
                       (case regexpSyntax s of
                          Some (p, f) \<Rightarrow>
                            (case new_RegExp rt p f of
                               Inl e \<Rightarrow> Inl e
                             | Inr r \<Rightarrow> Inr (obj_set prop (JObj [(''$in'', JArr [r])]) conditions))
                        | None \<Rightarrow> Inr (obj_set prop (JStr s) conditions))
                   | _ \<Rightarrow> Inl (TypeError ''query[prop].match is not a function'')))
          else Inr conditions)"

definition filterConditions :: "runtime \<Rightarrow> props \<Rightarrow> js_error + jsval" where
  "filterConditions rt q =
     (if js_truthy (obj_get q ''q'') then JSON_parse rt (obj_get q ''q'')
      else (case fold (condition_step rt q) (obj_keys q) (Inr []) of
              Inl e \<Rightarrow> Inl e
            | Inr conditions \<Rightarrow> Inr (JObj conditions)))"

text \<open>
  The condition that one defined value of a query key translates to: the branches of
  the \<^verbatim>\<open>reduce\<close> callback after its test \<^verbatim>\<open>query[prop] !== undefined\<close>, without
  the key. It serves to state what \<open>condition_step\<close> stores at a key.
\<close>

definition condition_of :: "runtime \<Rightarrow> jsval \<Rightarrow> js_error + jsval" where
  "condition_of rt v =
     (if v = JStr ''undefined'' then Inr (JObj [(''$exists'', JBool False)])
      else if v = JStr ''true'' then Inr (JBool True)
      else if v = JStr ''false'' then Inr (JBool False)
      else (case v of
              JStr s \<Rightarrow>
                (case regexpSyntax s of
                   Some (p, f) \<Rightarrow>
                     (case new_RegExp rt p f of
                        Inl e \<Rightarrow> Inl e
                      | Inr r \<Rightarrow> Inr (JObj [(''$in'', JArr [r])]))
                 | None \<Rightarrow> Inr (JStr s))
            | _ \<Rightarrow> Inl (TypeError ''query[prop].match is not a function'')))"

section \<open>The operations\<close>

text \<open>\<^verbatim>\<open>(f || _.identity)(x)\<close> and \<^verbatim>\<open>(f || _.stubObject)(request)\<close>.\<close>

definition or_identity :: "(jsval \<Rightarrow> event) \<Rightarrow> (jsval \<Rightarrow> js_error + jsval) option \<Rightarrow> jsval \<Rightarrow> jsval comp" where
  "or_identity ev f x = (case f of None \<Rightarrow> ret x | Some g \<Rightarrow> call (ev x) (g x))"

definition or_stubObject :: "event \<Rightarrow> (request \<Rightarrow> js_error + jsval) option \<Rightarrow> request \<Rightarrow> jsval comp" where
  "or_stubObject ev f rq = (case f of None \<Rightarrow> ret (JObj []) | Some g \<Rightarrow> call ev (g rq))"

text \<open>\<^verbatim>\<open>hook && await hook(x, request)\<close> for the guards.\<close>

definition guard :: "(jsval \<Rightarrow> event) \<Rightarrow> (jsval \<Rightarrow> request \<Rightarrow> js_error + jsval) option \<Rightarrow> jsval \<Rightarrow> request \<Rightarrow> jsval comp" where
  "guard ev f x rq = (case f of None \<Rightarrow> ret JUndefined | Some g \<Rightarrow> call (ev x) (g x rq))"

text \<open>
  \<^verbatim>\<open>hook && hook(x)\<close> for the notifications, which are not awaited. It is the
  last statement of an operation: what the hook returns is dropped, and the operation
  resolves to \<^verbatim>\<open>undefined\<close>.
\<close>

definition notify :: "(jsval \<Rightarrow> event) \<Rightarrow> (jsval \<Rightarrow> js_error + jsval) option \<Rightarrow> jsval \<Rightarrow> jsval comp" where
  "notify ev f x =
     (case f of
        None \<Rightarrow> ret JUndefined
      | Some g \<Rightarrow> and_then (call (ev x) (g x)) (\<lambda>_. ret JUndefined))"

definition respond :: "nat \<Rightarrow> jsval \<Rightarrow> jsval comp" where
  "respond st data = call (Respond st data) (Inr JUndefined)"

definition invalid_props :: jsval where
  "invalid_props = JObj [(''status'', JNum 400), (''message'', JStr ''Invalid entity properties.'')]"

subsection \<open>getOne\<close>

definition EntityREST_getOne :: "request \<Rightarrow> 'a endpoint_spec \<Rightarrow> entity \<Rightarrow> jsval comp" where
  "EntityREST_getOne rq spec Entity =
     and_then (lift (Sert_string (obj_get (urlParams rq) ''entityId'') 400 ''Entity id is required.'')) (\<lambda>_.
     and_then (call (FindById (obj_get (urlParams rq) ''entityId''))
                 (findById Entity (obj_get (urlParams rq) ''entityId''))) (\<lambda>entity.
     and_then (or_identity ExportOne (exportOne Entity) entity) (\<lambda>exportEntity.
     respond 200 exportEntity)))"

subsection \<open>getMany\<close>

text \<open>\<^verbatim>\<open>s.match(/^(-?)(.*)$/)\<close>, as the two groups of a match.\<close>

definition sort_match :: "string \<Rightarrow> (string \<times> string) option" where
  "sort_match s =
     (if list_all (\<lambda>x. \<not> line_terminator x) s
      then (if take 1 s = ''-'' then Some (''-'', drop 1 s) else Some ([], s))
      else None)"

definition getMany_limit :: "props \<Rightarrow> jsval" where
  "getMany_limit q = Math_min (parseInt (js_or (obj_get q ''limit'') (JNum 25))) (JNum 500)"

definition getMany_sort :: "props \<Rightarrow> js_error + jsval" where
  "getMany_sort q =
     (if \<not> js_truthy (obj_get q ''sort'') then Inr (JObj [(''_id'', JNum 1)])
      else (case obj_get q ''sort'' of
              JStr s \<Rightarrow>
                (case sort_match s of
                   None \<Rightarrow> Inr (JObj [(''_id'', JNum 1)])
                 | Some (g1, g2) \<Rightarrow> Inr (JObj [(g2, JNum (if g1 = ''-'' then - 1 else 1))]))
            | _ \<Rightarrow> Inl (TypeError ''request.query.sort.match is not a function'')))"

definition getMany_skip :: "props \<Rightarrow> jsval" where
  "getMany_skip q = js_or (parseInt (obj_get q ''offset'')) (JNum 0)"

text \<open>
  \<^verbatim>\<open>Promise.all(entities.map(async entity => await exportOne(entity)))\<close>: the
  exporter is called on every element in order, whether or not an earlier call
  failed; the result is the array of exports or, here, the error of the first
  element that failed.
\<close>

fun export_each :: "(jsval \<Rightarrow> js_error + jsval) \<Rightarrow> jsval list \<Rightarrow> jsval list comp" where
  "export_each g [] = ([], Inr [])"
| "export_each g (x # xs) =
     (ExportOne x # fst (export_each g xs),
      case g x of
        Inl e \<Rightarrow> Inl e
      | Inr v \<Rightarrow> (case snd (export_each g xs) of Inl e \<Rightarrow> Inl e | Inr vs \<Rightarrow> Inr (v # vs)))"

definition export_all :: "entity \<Rightarrow> jsval \<Rightarrow> jsval comp" where
  "export_all Entity entities =
     (case exportMany Entity of
        Some g \<Rightarrow> call (ExportMany entities) (g entities)
      | None \<Rightarrow>
          (case entities of
             JArr xs \<Rightarrow>
               (case exportOne Entity of
                  None \<Rightarrow> ret (JArr xs)
                | Some g \<Rightarrow> and_then (export_each g xs) (\<lambda>vs. ret (JArr vs)))
           | _ \<Rightarrow> lift (Inl (TypeError ''entities.map is not a function''))))"

definition EntityREST_getMany :: "runtime \<Rightarrow> request \<Rightarrow> 'a endpoint_spec \<Rightarrow> entity \<Rightarrow> jsval comp" where
  "EntityREST_getMany rt rq spec Entity =
     and_then (lift (getMany_sort (query rq))) (\<lambda>sort.
     and_then (lift (filterConditions rt (query rq))) (\<lambda>conditions.
     and_then (or_stubObject SpecQuery (query' spec) rq) (\<lambda>extra.
     and_then (call (Find (JObj (spread (spread [] conditions) extra))
                       (JObj [(''limit'', getMany_limit (query rq)),
                              (''skip'', getMany_skip (query rq)),
                              (''sort'', sort)]))
                 (find' Entity (JObj (spread (spread [] conditions) extra))
                       (JObj [(''limit'', getMany_limit (query rq)),
                              (''skip'', getMany_skip (query rq)),
                              (''sort'', sort)]))) (\<lambda>entities.
     and_then (export_all Entity entities) (\<lambda>exportEntities.
     respond 200 exportEntities)))))"

subsection \<open>postOne\<close>

definition EntityREST_postOne :: "request \<Rightarrow> 'a endpoint_spec \<Rightarrow> entity \<Rightarrow> jsval comp" where
  "EntityREST_postOne rq spec Entity =
     and_then (or_stubObject SpecSet (set' spec) rq) (\<lambda>setProps.
     and_then (or_identity PrepareCreate (prepareCreate Entity)
                 (JObj (obj_set ''_links'' JUndefined (obj_set ''_embedded'' JUndefined
                          (spread (spread [] (body rq)) setProps))))) (\<lambda>prepared.
     and_then (call (AssertValid
                       (JObj (spread [(''id'', JStr ''123456789012345678901234'')]
                                (JObj (omitBy_isUndefined prepared))))
                       invalid_props)
                 (assertValid Entity
                       (JObj (spread [(''id'', JStr ''123456789012345678901234'')]
                                (JObj (omitBy_isUndefined prepared))))
                       invalid_props)) (\<lambda>_.
     and_then (guard ShouldCreate (shouldCreate Entity) (JObj (omitBy_isUndefined prepared)) rq) (\<lambda>_.
     and_then (call (CreateOne (JObj (omitBy_isUndefined prepared)))
                 (createOne Entity (JObj (omitBy_isUndefined prepared)))) (\<lambda>entity.
     and_then (or_identity ExportOne (exportOne Entity) entity) (\<lambda>exportEntity.
     and_then (respond 201 exportEntity) (\<lambda>_.
     notify DidCreate (didCreate Entity) entity)))))))"

subsection \<open>putOne\<close>

text \<open>
  The object literal of the three update operations:
  \<^verbatim>\<open>{...reset, ...setProps, id: idv, _embedded: undefined, _links: undefined}\<close>.
\<close>

definition update_literal :: "jsval \<Rightarrow> jsval \<Rightarrow> jsval \<Rightarrow> props" where
  "update_literal reset setProps idv =
     obj_set ''_links'' JUndefined (obj_set ''_embedded'' JUndefined
       (obj_set ''id'' idv (spread (spread [] reset) setProps)))"

definition EntityREST_putOne :: "request \<Rightarrow> 'a endpoint_spec \<Rightarrow> entity \<Rightarrow> jsval comp" where
  "EntityREST_putOne rq spec Entity =
     and_then (call (FindById (obj_get (urlParams rq) ''entityId''))
                 (findById Entity (obj_get (urlParams rq) ''entityId''))) (\<lambda>existingEntity.
     and_then (lift (Sert_object existingEntity 404 ''Resource not found.'')) (\<lambda>_.
     and_then (or_stubObject SpecSet (set' spec) rq) (\<lambda>setProps.
     and_then (call (ResetReadOnly (body rq) existingEntity)
                 (resetReadOnly Entity (body rq) existingEntity)) (\<lambda>reset.
     and_then (or_identity PrepareUpdate (prepareUpdate Entity)
                 (JObj (update_literal reset setProps (obj_get (urlParams rq) ''entityId'')))) (\<lambda>prepared.
     and_then (call (AssertValid (JObj (omitBy_isUndefined prepared)) invalid_props)
                 (assertValid Entity (JObj (omitBy_isUndefined prepared)) invalid_props)) (\<lambda>_.
     and_then (guard ShouldUpdate (shouldUpdate Entity) (JObj (omitBy_isUndefined prepared)) rq) (\<lambda>_.
     and_then (call (ReplaceOne (JObj (omitBy_isUndefined prepared)))
                 (replaceOne Entity (JObj (omitBy_isUndefined prepared)))) (\<lambda>entity.
     and_then (or_identity ExportOne (exportOne Entity) entity) (\<lambda>exportEntity.
     and_then (respond 200 exportEntity) (\<lambda>_.
     notify DidUpdate (didUpdate Entity) exportEntity))))))))))"

subsection \<open>patchOne\<close>

text \<open>
  The JSON-Patch branch: \<^verbatim>\<open>patchErrors && patchErrors > 0\<close> decides whether
  \<^verbatim>\<open>Invalid patch\<close> is thrown; then the patch is applied to the existing record,
  and \<^verbatim>\<open>resetReadOnly\<close> receives the new document and the existing record as
  \<^verbatim>\<open>applyPatch\<close> left it.
\<close>

definition patched_document :: "runtime \<Rightarrow> jsval \<Rightarrow> jsval \<Rightarrow> js_error + (jsval \<times> jsval)" where
  "patched_document rt patch existingEntity =
     (case jsonPatch_validate rt patch existingEntity of
        Inl e \<Rightarrow> Inl e
      | Inr patchErrors \<Rightarrow>
          if js_truthy patchErrors \<and> js_gt_zero patchErrors then Inl (Error ''Invalid patch'')
          else jsonPatch_applyPatch rt existingEntity patch)"

definition EntityREST_patchOne :: "runtime \<Rightarrow> request \<Rightarrow> 'a endpoint_spec \<Rightarrow> entity \<Rightarrow> jsval comp" where
  "EntityREST_patchOne rt rq spec Entity =
     and_then (call (FindById (obj_get (urlParams rq) ''entityId''))
                 (findById Entity (obj_get (urlParams rq) ''entityId''))) (\<lambda>existingEntity.
     and_then (lift (Sert_object existingEntity 404 ''Resource not found.'')) (\<lambda>_.
     (if isArray (body rq) then
          and_then (lift (patched_document rt (body rq) existingEntity)) (\<lambda>patched.
          and_then (or_stubObject SpecSet (set' spec) rq) (\<lambda>setProps.
          and_then (call (ResetReadOnly (fst patched) (snd patched))
                      (resetReadOnly Entity (fst patched) (snd patched))) (\<lambda>reset.
          and_then (or_identity PrepareUpdate (prepareUpdate Entity)
                      (JObj (update_literal reset setProps (obj_get (urlParams rq) ''entityId'')))) (\<lambda>prepared.
          and_then (call (AssertValid (JObj (omitBy_isUndefined prepared)) invalid_props)
                      (assertValid Entity (JObj (omitBy_isUndefined prepared)) invalid_props)) (\<lambda>_.
          and_then (guard ShouldUpdate (shouldUpdate Entity) (JObj (omitBy_isUndefined prepared)) rq) (\<lambda>_.
          and_then (call (UpdateOne (JObj (omitBy_isUndefined prepared)))
                      (updateOne Entity (JObj (omitBy_isUndefined prepared)))) (\<lambda>entity.
          and_then (or_identity ExportOne (exportOne Entity) entity) (\<lambda>exportEntity.
          and_then (respond 200 exportEntity) (\<lambda>_.
          notify DidUpdate (didUpdate Entity) exportEntity)))))))))
      else
          and_then (or_stubObject SpecSet (set' spec) rq) (\<lambda>setProps.
          and_then (call (ResetReadOnly (body rq) existingEntity)
                      (resetReadOnly Entity (body rq) existingEntity)) (\<lambda>reset.
          and_then (or_identity PrepareUpdate (prepareUpdate Entity)
                      (JObj (update_literal reset setProps (obj_get (urlParams rq) ''entityId'')))) (\<lambda>prepared.
          and_then (call (AssertValid (JObj (omitBy_isUndefined prepared)) invalid_props)
                      (assertValid Entity (JObj (omitBy_isUndefined prepared)) invalid_props)) (\<lambda>_.
          and_then (guard ShouldUpdate (shouldUpdate Entity) (JObj (omitBy_isUndefined prepared)) rq) (\<lambda>_.
          and_then (call (UpdateOne (JObj (omitBy_isUndefined prepared)))
                      (updateOne Entity (JObj (omitBy_isUndefined prepared)))) (\<lambda>entity.
          and_then (or_identity ExportOne (exportOne Entity) entity) (\<lambda>exportEntity.
          and_then (respond 200 exportEntity) (\<lambda>_.
          notify DidUpdate (didUpdate Entity) exportEntity)))))))))))"

subsection \<open>patchMany\<close>

text \<open>
  The callback that \<^verbatim>\<open>patchMany\<close> maps over the records found: the patch
  pipeline of one record, up to its export.
\<close>

definition patchMany_record :: "request \<Rightarrow> entity \<Rightarrow> jsval \<Rightarrow> jsval \<Rightarrow> jsval comp" where
  "patchMany_record rq Entity setProps existingEntity =
     and_then (call (ResetReadOnly (body rq) existingEntity)
                 (resetReadOnly Entity (body rq) existingEntity)) (\<lambda>reset.
     and_then (lift (case js_get existingEntity ''id'' of
                       None \<Rightarrow> Inl (TypeError ''cannot read property id of existingEntity'')
                     | Some idv \<Rightarrow> Inr idv)) (\<lambda>idv.
     and_then (or_identity PrepareUpdate (prepareUpdate Entity)
                 (JObj (update_literal reset setProps idv))) (\<lambda>prepared.
     and_then (call (AssertValid (JObj (omitBy_isUndefined prepared)) invalid_props)
                 (assertValid Entity (JObj (omitBy_isUndefined prepared)) invalid_props)) (\<lambda>_.
     and_then (guard ShouldUpdate (shouldUpdate Entity) (JObj (omitBy_isUndefined prepared)) rq) (\<lambda>_.
     and_then (call (UpdateOne (JObj (omitBy_isUndefined prepared)))
                 (updateOne Entity (JObj (omitBy_isUndefined prepared)))) (\<lambda>entity.
     or_identity ExportOne (exportOne Entity) entity))))))"

text \<open>
  The outcome of \<^verbatim>\<open>patchMany\<close>. The pipelines of the records run interleaved, in
  an order that depends on when the collaborators' promises settle, so the calls of
  each record are kept apart, one computation per record, between the calls made
  before the fan-out and those made after it. \<^verbatim>\<open>Promise.all\<close> rejects with the
  rejection that settles first; the model reports that of the first record in the
  array that failed.
\<close>

record batch =
  before :: "event list"
  records :: "jsval comp list"
  after :: "event list"
  thrown :: "js_error option"

fun first_error :: "'a comp list \<Rightarrow> js_error option" where
  "first_error [] = None"
| "first_error (m # ms) = (case snd m of Inl e \<Rightarrow> Some e | Inr x \<Rightarrow> first_error ms)"

fun results :: "jsval comp list \<Rightarrow> jsval list" where
  "results [] = []"
| "results (m # ms) = (case snd m of Inl e \<Rightarrow> results ms | Inr x \<Rightarrow> x # results ms)"

text \<open>\<^verbatim>\<open>exportEntities.map(Entity.didUpdate)\<close>: the calls stop at the first throw.\<close>

fun notify_each :: "(jsval \<Rightarrow> js_error + jsval) \<Rightarrow> jsval list \<Rightarrow> jsval comp" where
  "notify_each g [] = ([], Inr JUndefined)"
| "notify_each g (x # xs) =
     (case g x of
        Inl e \<Rightarrow> ([DidUpdate x], Inl e)
      | Inr v \<Rightarrow> (DidUpdate x # fst (notify_each g xs), snd (notify_each g xs)))"

definition patchMany_find :: "runtime \<Rightarrow> request \<Rightarrow> 'a endpoint_spec \<Rightarrow> entity \<Rightarrow> jsval comp" where
  "patchMany_find rt rq spec Entity =
     and_then (lift (filterConditions rt (query rq))) (\<lambda>conditions.
     and_then (or_stubObject SpecQuery (query' spec) rq) (\<lambda>extra.
     call (Find (JObj (spread (spread [] conditions) extra)) JUndefined)
       (find' Entity (JObj (spread (spread [] conditions) extra)) JUndefined)))"

definition patchMany_finish :: "entity \<Rightarrow> jsval list \<Rightarrow> jsval comp" where
  "patchMany_finish Entity exportEntities =
     and_then (respond 200 (JArr exportEntities)) (\<lambda>_.
     (case didUpdate Entity of
        None \<Rightarrow> ret JUndefined
      | Some g \<Rightarrow> notify_each g exportEntities))"

definition EntityREST_patchMany :: "runtime \<Rightarrow> request \<Rightarrow> 'a endpoint_spec \<Rightarrow> entity \<Rightarrow> batch" where
  "EntityREST_patchMany rt rq spec Entity =
     (case snd (patchMany_find rt rq spec Entity) of
        Inl e \<Rightarrow>
          \<lparr>before = fst (patchMany_find rt rq spec Entity), records = [], after = [], thrown = Some e\<rparr>
      | Inr existingEntities \<Rightarrow>
          if \<not> js_truthy existingEntities then
            \<lparr>before = fst (patchMany_find rt rq spec Entity) @ [Respond 200 JUndefined],
             records = [], after = [], thrown = None\<rparr>
          else
            (case snd (or_stubObject SpecSet (set' spec) rq) of
               Inl e \<Rightarrow>
                 \<lparr>before = fst (patchMany_find rt rq spec Entity) @ fst (or_stubObject SpecSet (set' spec) rq),
                  records = [], after = [], thrown = Some e\<rparr>
             | Inr setProps \<Rightarrow>
                 (case existingEntities of
                    JArr xs \<Rightarrow>
                      (case first_error (map (patchMany_record rq Entity setProps) xs) of
                         Some e \<Rightarrow>
                           \<lparr>before = fst (patchMany_find rt rq spec Entity)
                                      @ fst (or_stubObject SpecSet (set' spec) rq),
                            records = map (patchMany_record rq Entity setProps) xs,
                            after = [], thrown = Some e\<rparr>
                       | None \<Rightarrow>
                           \<lparr>before = fst (patchMany_find rt rq spec Entity)
                                      @ fst (or_stubObject SpecSet (set' spec) rq),
                            records = map (patchMany_record rq Entity setProps) xs,
                            after = fst (patchMany_finish Entity
                                      (results (map (patchMany_record rq Entity setProps) xs))),
                            thrown = failure (patchMany_finish Entity
                                      (results (map (patchMany_record rq Entity setProps) xs)))\<rparr>)
                  | _ \<Rightarrow>
                      \<lparr>before = fst (patchMany_find rt rq spec Entity)
                                 @ fst (or_stubObject SpecSet (set' spec) rq),
                       records = [], after = [],
                       thrown = Some (TypeError ''existingEntities.map is not a function'')\<rparr>)))"

text \<open>Every call of a \<^verbatim>\<open>patchMany\<close> run, the records' calls in array order.\<close>

definition batch_calls :: "batch \<Rightarrow> event list" where
  "batch_calls b = before b @ concat (map fst (records b)) @ after b"

subsection \<open>deleteOne\<close>

definition EntityREST_deleteOne :: "request \<Rightarrow> 'a endpoint_spec \<Rightarrow> entity \<Rightarrow> jsval comp" where
  "EntityREST_deleteOne rq spec Entity =
     and_then (call (FindById (obj_get (urlParams rq) ''entityId''))
                 (findById Entity (obj_get (urlParams rq) ''entityId''))) (\<lambda>entity.
     and_then (lift (Sert_object entity 404 ''Resource not found.'')) (\<lambda>_.
     and_then (guard ShouldDelete (shouldDelete Entity) entity rq) (\<lambda>_.
     and_then (call (DeleteOne entity) (deleteOne Entity entity)) (\<lambda>_.
     and_then (respond 200 (JObj [])) (\<lambda>_.
     notify DidDelete (didDelete Entity) entity)))))"

section \<open>The middleware adapter\<close>

text \<open>
  The transport request: \<^verbatim>\<open>req.params\<close> and \<^verbatim>\<open>req.query\<close> are objects or
  absent, \<^verbatim>\<open>req.body\<close> and \<^verbatim>\<open>req.user\<close> are any value.
\<close>

record req =
  req_params :: "props option"
  req_query :: "props option"
  req_body :: jsval
  req_user :: jsval

datatype response =
    HalJson nat jsval
  | Raw nat jsval

text \<open>
  What the middleware does, in order: the two checks of the endpoint specification,
  the calls of the endpoint function, the responses written and the final call of
  \<^verbatim>\<open>next\<close> with its argument.
\<close>

datatype middleware_event =
    Authenticate
  | Validate
  | Endpoint event
  | Send response
  | Next "js_error option"

text \<open>
  The \<^verbatim>\<open>respond\<close> helper the middleware hands to the endpoint function; a body
  that is not passed defaults to the empty object.
\<close>

definition express_respond :: "nat \<Rightarrow> jsval \<Rightarrow> response" where
  "express_respond st d =
     (if typeof_object (if d = JUndefined then JObj [] else d)
      then HalJson st (if d = JUndefined then JObj [] else d)
      else Raw st (js_or d (JStr [])))"

fun transport :: "event \<Rightarrow> middleware_event" where
  "transport (Respond st d) = Send (express_respond st d)"
| "transport ev = Endpoint ev"

text \<open>
  The \<^verbatim>\<open>catch\<close> block around each check: an error with a truthy status is
  thrown again; otherwise a new error is made from the message, the details are
  copied, and the status is set.
\<close>

definition rethrow :: "int \<Rightarrow> js_error \<Rightarrow> js_error" where
  "rethrow st e =
     (if js_truthy (status e) then e
      else \<lparr>name = ''Error'', message = message e, status = JNum st, details = details e\<rparr>)"

definition make_request :: "req \<Rightarrow> request" where
  "make_request r =
     \<lparr>urlParams = (case req_params r of None \<Rightarrow> [] | Some p \<Rightarrow> p),
      query = (case req_query r of None \<Rightarrow> [] | Some q \<Rightarrow> q),
      body = js_or (req_body r) (JObj []),
      user = req_user r\<rparr>"

definition EntityREST_express ::
  "(request \<Rightarrow> 'a endpoint_spec \<Rightarrow> 'a \<Rightarrow> 'b comp) \<Rightarrow> 'a endpoint_spec \<Rightarrow> 'a \<Rightarrow> req \<Rightarrow> middleware_event list" where
  "EntityREST_express endpointFunction spec args r =
     (case (case authenticate spec of
              None \<Rightarrow> ([], None)
            | Some f \<Rightarrow>
                ([Authenticate],
                 case f (make_request r) args of Inl e \<Rightarrow> Some (rethrow 401 e) | Inr v \<Rightarrow> None)) of
        (auth, Some e) \<Rightarrow> auth @ [Next (Some e)]
      | (auth, None) \<Rightarrow>
          (case (case validate spec of
                   None \<Rightarrow> ([], None)
                 | Some f \<Rightarrow>
                     ([Validate],
                      case f (make_request r) args of Inl e \<Rightarrow> Some (rethrow 400 e) | Inr v \<Rightarrow> None)) of
             (val, Some e) \<Rightarrow> auth @ val @ [Next (Some e)]
           | (val, None) \<Rightarrow>
               auth @ val @ map transport (fst (endpointFunction (make_request r) spec args))
                 @ [Next (failure (endpointFunction (make_request r) spec args))]))"

section \<open>The candidate, in the words of the specification\<close>

text \<open>
  The candidate of an update, key by key, in two readings. \<open>spec_candidate\<close> follows
  the specification: the reconciled record, overridden by the keys of the
  \<^verbatim>\<open>set()\<close> result that have a defined value, overridden by the forced id, with
  \<^verbatim>\<open>_embedded\<close> and \<^verbatim>\<open>_links\<close> removed. \<open>merge_candidate\<close> differs in two
  places: every own key of the \<^verbatim>\<open>set()\<close> result overrides the reconciled record,
  also one whose value is \<^verbatim>\<open>undefined\<close>, and the keys \<^verbatim>\<open>__proto__\<close>,
  \<^verbatim>\<open>constructor\<close> and \<^verbatim>\<open>prototype\<close> are removed as well.

  \<open>object_of f c\<close> says that \<open>c\<close> is the object that reads \<open>f k\<close> at every key
  \<open>k\<close>, with every undefined-valued key removed: it holds exactly the keys at which
  \<open>f\<close> is defined.
\<close>

definition spec_candidate :: "jsval \<Rightarrow> jsval \<Rightarrow> jsval \<Rightarrow> string \<Rightarrow> jsval" where
  "spec_candidate reset setProps idv k =
     (if k = ''_embedded'' \<or> k = ''_links'' then JUndefined
      else if k = ''id'' then idv
      else if obj_get (own_props setProps) k = JUndefined then obj_get (own_props reset) k
      else obj_get (own_props setProps) k)"

definition merge_candidate :: "jsval \<Rightarrow> jsval \<Rightarrow> jsval \<Rightarrow> string \<Rightarrow> jsval" where
  "merge_candidate reset setProps idv k =
     (if k = ''_embedded'' \<or> k = ''_links'' \<or> unsafe_key k then JUndefined
      else if k = ''id'' then idv
      else if k \<in> fst ` set (own_props setProps) then obj_get (own_props setProps) k
      else obj_get (own_props reset) k)"

definition object_of :: "(string \<Rightarrow> jsval) \<Rightarrow> jsval \<Rightarrow> bool" where
  "object_of f c \<longleftrightarrow>
     (\<exists>kvs. c = JObj kvs
        \<and> (\<forall>k. obj_get kvs k = f k)
        \<and> (\<forall>k. (k \<in> fst ` set kvs) = (f k \<noteq> JUndefined)))"

section \<open>Example collaborators\<close>

text \<open>
  A small Entity over one stored record, whose \<^verbatim>\<open>locked\<close> field is read-only, an
  endpoint specification with no hook, and a runtime. They are the concrete inputs at
  which the theorems below are instantiated.
\<close>

definition widget :: jsval where
  "widget = JObj [(''id'', JStr ''42''), (''name'', JStr ''a''), (''locked'', JBool True)]"

definition store :: entity where
  "store =
     \<lparr>findById = (\<lambda>i. if i = JStr ''42'' then Inr widget else Inr JNull),
      find' = (\<lambda>f opts. Inr (JArr [widget])),
      createOne = (\<lambda>p. Inr (JObj (obj_set ''id'' (JStr ''43'') (own_props p)))),
      updateOne = Inr,
      replaceOne = Inr,
      deleteOne = (\<lambda>r. Inr JUndefined),
      exportOne = None, exportMany = None, prepareCreate = None, prepareUpdate = None,
      shouldCreate = None, shouldUpdate = None, shouldDelete = None,
      didCreate = None, didUpdate = None, didDelete = None,
      resetReadOnly = (\<lambda>incoming existing.
         Inr (JObj (obj_set ''locked'' (obj_get (own_props existing) ''locked'') (own_props incoming)))),
      assertValid = (\<lambda>p sp. Inr JUndefined)\<rparr>"

definition no_spec :: "entity endpoint_spec" where
  "no_spec = \<lparr>authenticate = None, validate = None, query' = None, set' = None\<rparr>"

definition request_of :: "jsval \<Rightarrow> props \<Rightarrow> jsval \<Rightarrow> request" where
  "request_of i q b = \<lparr>urlParams = [(''entityId'', i)], query = q, body = b, user = JUndefined\<rparr>"

definition forbidden :: js_error where
  "forbidden = \<lparr>name = ''Error'', message = ''Forbidden'', status = JNum 403, details = JUndefined\<rparr>"

definition guarded_store :: entity where
  "guarded_store =
     store\<lparr>shouldCreate := Some (\<lambda>p r. Inl forbidden),
            shouldUpdate := Some (\<lambda>p r. Inl forbidden),
            shouldDelete := Some (\<lambda>p r. Inl forbidden)\<rparr>"

definition replace_nope :: jsval where
  "replace_nope = JObj [(''op'', JStr ''replace''), (''path'', JStr ''/nope''), (''value'', JNum 1)]"

definition path_unresolvable :: jsval where
  "path_unresolvable =
     JObj [(''name'', JStr ''OPERATION_PATH_UNRESOLVABLE''),
           (''message'', JStr ''Cannot perform the operation at a path that does not exist''),
           (''index'', JNum 0)]"

definition example_runtime :: runtime where
  "example_runtime =
     \<lparr>JSON_parse = (\<lambda>v. if to_string v = ''{}'' then Inr (JObj [])
                          else Inl \<lparr>name = ''SyntaxError'', message = ''Unexpected token'',
                                     status = JUndefined, details = JUndefined\<rparr>),
      RegExp_error = (\<lambda>p f. if p = ''('' then Some \<lparr>name = ''SyntaxError'',
                                     message = ''Invalid regular expression'',
                                     status = JUndefined, details = JUndefined\<rparr>
                              else None),
      jsonPatch_validate = (\<lambda>patch doc.
         Inr (if patch = JArr [replace_nope] then path_unresolvable else JUndefined)),
      jsonPatch_applyPatch = (\<lambda>doc patch.
         if patch = JArr [replace_nope]
         then Inr (JObj (obj_set ''nope'' (JNum 1) (own_props doc)),
                   JObj (obj_set ''nope'' (JNum 1) (own_props doc)))
         else Inr (doc, doc))\<rparr>"

definition rename_request :: request where
  "rename_request =
     request_of (JStr ''42'') [] (JObj [(''name'', JStr ''b''), (''locked'', JBool False)])"

definition preparing_store :: entity where
  "preparing_store = store\<lparr>prepareUpdate := Some (\<lambda>p. Inr p)\<rparr>"

definition forcing_spec :: "entity endpoint_spec" where
  "forcing_spec =
     no_spec\<lparr>set' := Some (\<lambda>r. Inr (JObj [(''id'', JStr ''9''), (''locked'', JBool False),
                                           (''name'', JUndefined)]))\<rparr>"

definition override_request :: request where
  "override_request =
     request_of (JStr ''42'') []
       (JObj [(''id'', JStr ''7''), (''name'', JStr ''b''), (''size'', JNum 3), (''_links'', JObj [])])"

definition unlock :: jsval where
  "unlock = JObj [(''op'', JStr ''replace''), (''path'', JStr ''/locked''), (''value'', JBool False)]"

text \<open>
  A runtime whose \<^verbatim>\<open>applyPatch\<close> patches the document it is given in place and
  returns it, as fast-json-patch does by default.
\<close>

definition in_place_runtime :: runtime where
  "in_place_runtime =
     example_runtime\<lparr>jsonPatch_applyPatch := (\<lambda>doc patch.
        if patch = JArr [unlock]
        then Inr (JObj (obj_set ''locked'' (JBool False) (own_props doc)),
                  JObj (obj_set ''locked'' (JBool False) (own_props doc)))
        else Inr (doc, doc))\<rparr>"

definition empty_store :: entity where
  "empty_store = store\<lparr>find' := (\<lambda>f opts. Inr (JArr []))\<rparr>"

definition null_store :: entity where
  "null_store = store\<lparr>find' := (\<lambda>f opts. Inr JNull)\<rparr>"

definition lenient_runtime :: runtime where
  "lenient_runtime = example_runtime\<lparr>RegExp_error := (\<lambda>p f. None)\<rparr>"

definition escape_query :: props where
  "escape_query = [(''q'', JStr ''{}''), (''city'', JStr ''Oslo'')]"

definition field_query :: props where
  "field_query =
     [(''limit'', JStr ''5''), (''gone'', JStr ''undefined''), (''active'', JStr ''true''),
      (''name'', JStr ''/^a/i''), (''city'', JStr ''Oslo''), (''skipped'', JUndefined)]"

definition unauthenticated :: js_error where
  "unauthenticated =
     \<lparr>name = ''AuthError'', message = ''Token expired'', status = JUndefined,
      details = JObj [(''realm'', JStr ''api'')]\<rparr>"

definition zero_status :: js_error where
  "zero_status =
     \<lparr>name = ''AuthError'', message = ''Token expired'', status = JNum 0,
      details = JObj [(''realm'', JStr ''api'')]\<rparr>"

definition bare_req :: req where
  "bare_req =
     \<lparr>req_params = Some [(''entityId'', JStr ''42'')], req_query = None,
      req_body = JUndefined, req_user = JUndefined\<rparr>"

definition failing_auth :: "js_error \<Rightarrow> entity endpoint_spec" where
  "failing_auth e = no_spec\<lparr>authenticate := Some (\<lambda>rq args. Inl e)\<rparr>"

definition failing_validation :: "js_error \<Rightarrow> entity endpoint_spec" where
  "failing_validation e =
     no_spec\<lparr>authenticate := Some (\<lambda>rq args. Inr JUndefined), validate := Some (\<lambda>rq args. Inl e)\<rparr>"

section \<open>Basic facts\<close>

lemma obj_get_obj_set: "obj_get (obj_set k v kvs) k' = (if k' = k then v else obj_get kvs k')"
  by (induction kvs) (auto simp: obj_get_def)

lemma fst_and_then:
  "fst (and_then m f) = fst m @ (case snd m of Inl e \<Rightarrow> [] | Inr x \<Rightarrow> fst (f x))"
  by (simp add: and_then_def split: sum.splits)

lemma snd_and_then:
  "snd (and_then m f) = (case snd m of Inl e \<Rightarrow> Inl e | Inr x \<Rightarrow> snd (f x))"
  by (simp add: and_then_def split: sum.splits)

lemma mem_and_then:
  "ev \<in> set (fst (and_then m f)) \<longleftrightarrow>
     ev \<in> set (fst m) \<or> (\<exists>x. snd m = Inr x \<and> ev \<in> set (fst (f x)))"
  by (auto simp: and_then_def split: sum.splits)

lemma comp_simps:
  "fst (call ev r) = [ev]" "snd (call ev r) = r"
  "fst (lift r) = []" "snd (lift r) = r"
  "fst (ret x) = []" "snd (ret x) = Inr x"
  "fst (respond st d) = [Respond st d]" "snd (respond st d) = Inr JUndefined"
  by (simp_all add: call_def lift_def ret_def respond_def)

lemma mem_hooks:
  "e \<in> set (fst (or_identity ev f x)) \<longleftrightarrow> f \<noteq> None \<and> e = ev x"
  "e \<in> set (fst (or_stubObject ev' h rq)) \<longleftrightarrow> h \<noteq> None \<and> e = ev'"
  "e \<in> set (fst (guard ev k x rq)) \<longleftrightarrow> k \<noteq> None \<and> e = ev x"
  "e \<in> set (fst (notify ev f x)) \<longleftrightarrow> f \<noteq> None \<and> e = ev x"
  by (auto simp: or_identity_def or_stubObject_def guard_def notify_def comp_simps
      mem_and_then split: option.splits)

lemma guard_Some:
  "fst (guard ev (Some g) x rq) = [ev x]" "snd (guard ev (Some g) x rq) = g x rq"
  by (simp_all add: guard_def comp_simps)

lemma or_identity_None:
  "fst (or_identity ev None x) = []" "snd (or_identity ev None x) = Inr x"
  by (simp_all add: or_identity_def comp_simps)

lemma obj_get_fold_set:
  "obj_get (fold (\<lambda>k a. obj_set k (f k) a) ks acc) k
     = (if k \<in> set ks then f k else obj_get acc k)"
  by (induction ks arbitrary: acc) (auto simp: obj_get_obj_set)

lemma obj_get_spread:
  "obj_get (spread acc v) k
     = (if k \<in> fst ` set (own_props v) then obj_get (own_props v) k else obj_get acc k)"
  by (simp add: spread_def obj_get_fold_set)

lemma keys_obj_set: "fst ` set (obj_set k v kvs) = insert k (fst ` set kvs)"
  by (induction kvs) auto

lemma map_of_filter_keys:
  "map_of (filter (\<lambda>kv. P (fst kv)) kvs) k = (if P k then map_of kvs k else None)"
  by (induction kvs) auto

lemma obj_get_absent: "k \<notin> fst ` set kvs \<Longrightarrow> obj_get kvs k = JUndefined"
  by (simp add: obj_get_def map_of_eq_None_iff [THEN iffD2])

lemma obj_get_omitBy:
  "obj_get (omitBy_isUndefined v) k
     = (if unsafe_key k then JUndefined else obj_get (own_props v) k)"
proof -
  have "map_of (omitBy_isUndefined v) k
      = (if obj_get (own_props v) k \<noteq> JUndefined \<and> \<not> unsafe_key k
         then map_of (own_props v) k else None)"
    unfolding omitBy_isUndefined_def
    by (rule map_of_filter_keys
          [where P = "\<lambda>k. obj_get (own_props v) k \<noteq> JUndefined \<and> \<not> unsafe_key k"])
  then show ?thesis
    by (auto simp: obj_get_def split: option.splits)
qed

lemma keys_omitBy:
  "k \<in> fst ` set (omitBy_isUndefined v) \<longleftrightarrow>
     obj_get (own_props v) k \<noteq> JUndefined \<and> \<not> unsafe_key k"
proof
  assume "k \<in> fst ` set (omitBy_isUndefined v)"
  then show "obj_get (own_props v) k \<noteq> JUndefined \<and> \<not> unsafe_key k"
    by (auto simp: omitBy_isUndefined_def)
next
  assume d: "obj_get (own_props v) k \<noteq> JUndefined \<and> \<not> unsafe_key k"
  then obtain x where "map_of (own_props v) k = Some x"
    by (auto simp: obj_get_def split: option.splits)
  then have "(k, x) \<in> set (own_props v)" by (rule map_of_SomeD)
  with d show "k \<in> fst ` set (omitBy_isUndefined v)"
    by (force simp: omitBy_isUndefined_def)
qed

lemma or_stubObject_result:
  "snd (or_stubObject ev h rq) = Inr s \<longleftrightarrow> (case h of None \<Rightarrow> s = JObj [] | Some f \<Rightarrow> f rq = Inr s)"
  by (auto simp: or_stubObject_def comp_simps split: option.splits)

lemma obj_get_nil: "obj_get [] k = JUndefined"
  by (simp add: obj_get_def)

lemma obj_get_update_literal:
  "obj_get (update_literal rs s idv) k =
     (if k = ''_embedded'' \<or> k = ''_links'' then JUndefined
      else if k = ''id'' then idv
      else if k \<in> fst ` set (own_props s) then obj_get (own_props s) k
      else obj_get (own_props rs) k)"
  by (simp add: update_literal_def obj_get_obj_set obj_get_spread obj_get_nil obj_get_absent)

section \<open>get-one\<close>

text \<open>
  C9. A get-one request whose \<^verbatim>\<open>urlParams.entityId\<close> is not a string fails with
  an error of status 400 before any call is made, so \<^verbatim>\<open>findById\<close> is never called.
  When the id is a string and \<^verbatim>\<open>findById\<close> yields \<^verbatim>\<open>null\<close>, the operation raises
  no error of its own: the null result goes to the exporter (the identity when
  \<^verbatim>\<open>exportOne\<close> is absent) and the export is the body of a 200 response; the only
  error possible is one the exporter itself throws.
\<close>

theorem getOne_id_check_and_null_export:
  "((\<forall>s. obj_get (urlParams rq) ''entityId'' \<noteq> JStr s) \<longrightarrow>
      fst (EntityREST_getOne rq spec Entity) = [] \<and>
      (\<exists>e. snd (EntityREST_getOne rq spec Entity) = Inl e \<and> status e = JNum 400))
   \<and> (obj_get (urlParams rq) ''entityId'' = JStr s \<and> findById Entity (JStr s) = Inr JNull \<longrightarrow>
        (case exportOne Entity of
           None \<Rightarrow>
             EntityREST_getOne rq spec Entity = ([FindById (JStr s), Respond 200 JNull], Inr JUndefined)
         | Some g \<Rightarrow>
             (case g JNull of
                Inr v \<Rightarrow>
                  EntityREST_getOne rq spec Entity
                    = ([FindById (JStr s), ExportOne JNull, Respond 200 v], Inr JUndefined)
              | Inl e \<Rightarrow>
                  EntityREST_getOne rq spec Entity = ([FindById (JStr s), ExportOne JNull], Inl e))))"
proof (intro conjI impI)
  assume "\<forall>s. obj_get (urlParams rq) ''entityId'' \<noteq> JStr s"
  then have "Sert_string (obj_get (urlParams rq) ''entityId'') 400 ''Entity id is required.''
      = Inl (sert_error 400 ''Entity id is required.'')"
    by (cases "obj_get (urlParams rq) ''entityId''") simp_all
  then show "fst (EntityREST_getOne rq spec Entity) = []"
    and "\<exists>e. snd (EntityREST_getOne rq spec Entity) = Inl e \<and> status e = JNum 400"
    by (simp_all add: EntityREST_getOne_def lift_def and_then_def sert_error_def)
next
  assume "obj_get (urlParams rq) ''entityId'' = JStr s \<and> findById Entity (JStr s) = Inr JNull"
  then show "case exportOne Entity of
           None \<Rightarrow>
             EntityREST_getOne rq spec Entity = ([FindById (JStr s), Respond 200 JNull], Inr JUndefined)
         | Some g \<Rightarrow>
             (case g JNull of
                Inr v \<Rightarrow>
                  EntityREST_getOne rq spec Entity
                    = ([FindById (JStr s), ExportOne JNull, Respond 200 v], Inr JUndefined)
              | Inl e \<Rightarrow>
                  EntityREST_getOne rq spec Entity = ([FindById (JStr s), ExportOne JNull], Inl e))"
    by (simp add: EntityREST_getOne_def lift_def call_def ret_def respond_def and_then_def
        or_identity_def split: option.splits sum.splits)
qed

theorem getOne_id_check_and_null_export_witness:
  "fst (EntityREST_getOne (request_of JUndefined [] (JObj [])) no_spec store) = []
   \<and> (\<exists>e. snd (EntityREST_getOne (request_of JUndefined [] (JObj [])) no_spec store) = Inl e
          \<and> status e = JNum 400)
   \<and> EntityREST_getOne (request_of (JStr ''7'') [] (JObj [])) no_spec store
       = ([FindById (JStr ''7''), Respond 200 JNull], Inr JUndefined)"
  using getOne_id_check_and_null_export
          [where rq = "request_of JUndefined [] (JObj [])" and spec = no_spec and Entity = store]
        getOne_id_check_and_null_export
          [where rq = "request_of (JStr ''7'') [] (JObj [])" and spec = no_spec and Entity = store
             and s = "''7''"]
  by (simp add: request_of_def store_def obj_get_def)

section \<open>Guards\<close>

lemma postOne_guard:
  assumes "shouldCreate Entity = Some g"
    and "ShouldCreate c \<in> set (fst (EntityREST_postOne rq spec Entity))"
    and "g c rq = Inl e"
  shows "(\<forall>x. CreateOne x \<notin> set (fst (EntityREST_postOne rq spec Entity)))
       \<and> snd (EntityREST_postOne rq spec Entity) = Inl e
       \<and> (\<exists>pre. fst (EntityREST_postOne rq spec Entity)
             = pre @ [AssertValid (JObj (spread [(''id'', JStr ''123456789012345678901234'')] c))
                        invalid_props,
                      ShouldCreate c])"
proof -
  from assms(2) obtain sp p v where
    h: "snd (or_stubObject SpecSet (set' spec) rq) = Inr sp"
      "snd (or_identity PrepareCreate (prepareCreate Entity)
              (JObj (obj_set ''_links'' JUndefined (obj_set ''_embedded'' JUndefined
                       (spread (spread [] (body rq)) sp))))) = Inr p"
      "assertValid Entity
         (JObj (spread [(''id'', JStr ''123456789012345678901234'')] (JObj (omitBy_isUndefined p))))
         invalid_props = Inr v"
      "c = JObj (omitBy_isUndefined p)"
    by (auto simp: EntityREST_postOne_def mem_and_then comp_simps mem_hooks)
  from assms(3) h(4) have g: "g (JObj (omitBy_isUndefined p)) rq = Inl e" by simp
  have tr: "fst (EntityREST_postOne rq spec Entity) =
      (fst (or_stubObject SpecSet (set' spec) rq)
        @ fst (or_identity PrepareCreate (prepareCreate Entity)
              (JObj (obj_set ''_links'' JUndefined (obj_set ''_embedded'' JUndefined
                       (spread (spread [] (body rq)) sp))))))
        @ [AssertValid (JObj (spread [(''id'', JStr ''123456789012345678901234'')] c)) invalid_props,
           ShouldCreate c]"
    by (simp add: EntityREST_postOne_def fst_and_then snd_and_then comp_simps h assms(1) guard_Some g)
  have sn: "snd (EntityREST_postOne rq spec Entity) = Inl e"
    by (simp add: EntityREST_postOne_def snd_and_then comp_simps h assms(1) guard_Some g)
  have "\<forall>x. CreateOne x \<notin> set (fst (EntityREST_postOne rq spec Entity))"
    by (auto simp: tr mem_hooks)
  with sn tr show ?thesis by blast
qed

lemma putOne_guard:
  assumes "shouldUpdate Entity = Some g"
    and "ShouldUpdate c \<in> set (fst (EntityREST_putOne rq spec Entity))"
    and "g c rq = Inl e"
  shows "(\<forall>x. ReplaceOne x \<notin> set (fst (EntityREST_putOne rq spec Entity)))
       \<and> snd (EntityREST_putOne rq spec Entity) = Inl e
       \<and> (\<exists>pre. fst (EntityREST_putOne rq spec Entity)
             = pre @ [AssertValid c invalid_props, ShouldUpdate c])"
proof -
  from assms(2) obtain ex sp rs p v where
    h: "findById Entity (obj_get (urlParams rq) ''entityId'') = Inr ex"
      "Sert_object ex 404 ''Resource not found.'' = Inr ()"
      "snd (or_stubObject SpecSet (set' spec) rq) = Inr sp"
      "resetReadOnly Entity (body rq) ex = Inr rs"
      "snd (or_identity PrepareUpdate (prepareUpdate Entity)
                 (JObj (update_literal rs sp (obj_get (urlParams rq) ''entityId'')))) = Inr p"
      "assertValid Entity (JObj (omitBy_isUndefined p)) invalid_props = Inr v"
      "c = JObj (omitBy_isUndefined p)"
    by (auto simp: EntityREST_putOne_def mem_and_then comp_simps mem_hooks)
  from assms(3) h(7) have g: "g (JObj (omitBy_isUndefined p)) rq = Inl e" by simp
  have tr: "fst (EntityREST_putOne rq spec Entity) =
      (FindById (obj_get (urlParams rq) ''entityId'') # fst (or_stubObject SpecSet (set' spec) rq)
        @ ResetReadOnly (body rq) ex
        # fst (or_identity PrepareUpdate (prepareUpdate Entity)
             (JObj (update_literal rs sp (obj_get (urlParams rq) ''entityId'')))))
        @ [AssertValid c invalid_props, ShouldUpdate c]"
    by (simp add: EntityREST_putOne_def fst_and_then snd_and_then comp_simps h assms(1) guard_Some g)
  have sn: "snd (EntityREST_putOne rq spec Entity) = Inl e"
    by (simp add: EntityREST_putOne_def snd_and_then comp_simps h assms(1) guard_Some g)
  have "\<forall>x. ReplaceOne x \<notin> set (fst (EntityREST_putOne rq spec Entity))"
    by (auto simp: tr mem_hooks)
  with sn tr show ?thesis by blast
qed

lemma patchOne_guard:
  assumes "shouldUpdate Entity = Some g"
    and "ShouldUpdate c \<in> set (fst (EntityREST_patchOne rt rq spec Entity))"
    and "g c rq = Inl e"
  shows "(\<forall>x. UpdateOne x \<notin> set (fst (EntityREST_patchOne rt rq spec Entity)))
       \<and> snd (EntityREST_patchOne rt rq spec Entity) = Inl e
       \<and> (\<exists>pre. fst (EntityREST_patchOne rt rq spec Entity)
             = pre @ [AssertValid c invalid_props, ShouldUpdate c])"
proof (cases "isArray (body rq)")
  case True
  from assms(2) True obtain ex pd sp rs p v where
    h: "findById Entity (obj_get (urlParams rq) ''entityId'') = Inr ex"
      "Sert_object ex 404 ''Resource not found.'' = Inr ()"
      "patched_document rt (body rq) ex = Inr pd"
      "snd (or_stubObject SpecSet (set' spec) rq) = Inr sp"
      "resetReadOnly Entity (fst pd) (snd pd) = Inr rs"
      "snd (or_identity PrepareUpdate (prepareUpdate Entity)
                 (JObj (update_literal rs sp (obj_get (urlParams rq) ''entityId'')))) = Inr p"
      "assertValid Entity (JObj (omitBy_isUndefined p)) invalid_props = Inr v"
      "c = JObj (omitBy_isUndefined p)"
    by (auto simp: EntityREST_patchOne_def mem_and_then comp_simps mem_hooks)
  from assms(3) h(8) have g: "g (JObj (omitBy_isUndefined p)) rq = Inl e" by simp
  have tr: "fst (EntityREST_patchOne rt rq spec Entity) =
      (FindById (obj_get (urlParams rq) ''entityId'') # fst (or_stubObject SpecSet (set' spec) rq)
        @ ResetReadOnly (fst pd) (snd pd)
        # fst (or_identity PrepareUpdate (prepareUpdate Entity)
             (JObj (update_literal rs sp (obj_get (urlParams rq) ''entityId'')))))
        @ [AssertValid c invalid_props, ShouldUpdate c]"
    by (simp add: EntityREST_patchOne_def True fst_and_then snd_and_then comp_simps h assms(1)
        guard_Some g)
  have sn: "snd (EntityREST_patchOne rt rq spec Entity) = Inl e"
    by (simp add: EntityREST_patchOne_def True snd_and_then comp_simps h assms(1) guard_Some g)
  have "\<forall>x. UpdateOne x \<notin> set (fst (EntityREST_patchOne rt rq spec Entity))"
    by (auto simp: tr mem_hooks)
  with sn tr show ?thesis by blast
next
  case False
  from assms(2) False obtain ex sp rs p v where
    h: "findById Entity (obj_get (urlParams rq) ''entityId'') = Inr ex"
      "Sert_object ex 404 ''Resource not found.'' = Inr ()"
      "snd (or_stubObject SpecSet (set' spec) rq) = Inr sp"
      "resetReadOnly Entity (body rq) ex = Inr rs"
      "snd (or_identity PrepareUpdate (prepareUpdate Entity)
                 (JObj (update_literal rs sp (obj_get (urlParams rq) ''entityId'')))) = Inr p"
      "assertValid Entity (JObj (omitBy_isUndefined p)) invalid_props = Inr v"
      "c = JObj (omitBy_isUndefined p)"
    by (auto simp: EntityREST_patchOne_def mem_and_then comp_simps mem_hooks)
  from assms(3) h(7) have g: "g (JObj (omitBy_isUndefined p)) rq = Inl e" by simp
  have tr: "fst (EntityREST_patchOne rt rq spec Entity) =
      (FindById (obj_get (urlParams rq) ''entityId'') # fst (or_stubObject SpecSet (set' spec) rq)
        @ ResetReadOnly (body rq) ex
        # fst (or_identity PrepareUpdate (prepareUpdate Entity)
             (JObj (update_literal rs sp (obj_get (urlParams rq) ''entityId'')))))
        @ [AssertValid c invalid_props, ShouldUpdate c]"
    by (simp add: EntityREST_patchOne_def False fst_and_then snd_and_then comp_simps h assms(1)
        guard_Some g)
  have sn: "snd (EntityREST_patchOne rt rq spec Entity) = Inl e"
    by (simp add: EntityREST_patchOne_def False snd_and_then comp_simps h assms(1) guard_Some g)
  have "\<forall>x. UpdateOne x \<notin> set (fst (EntityREST_patchOne rt rq spec Entity))"
    by (auto simp: tr mem_hooks)
  with sn tr show ?thesis by blast
qed

lemma patchMany_record_guard:
  assumes "shouldUpdate Entity = Some g"
    and "ShouldUpdate c \<in> set (fst (patchMany_record rq Entity sp ex))"
    and "g c rq = Inl e"
  shows "(\<forall>x. UpdateOne x \<notin> set (fst (patchMany_record rq Entity sp ex)))
       \<and> snd (patchMany_record rq Entity sp ex) = Inl e
       \<and> (\<exists>pre. fst (patchMany_record rq Entity sp ex)
             = pre @ [AssertValid c invalid_props, ShouldUpdate c])"
proof -
  from assms(2) obtain rs idv p v where
    h: "resetReadOnly Entity (body rq) ex = Inr rs"
      "js_get ex ''id'' = Some idv"
      "snd (or_identity PrepareUpdate (prepareUpdate Entity)
                 (JObj (update_literal rs sp idv))) = Inr p"
      "assertValid Entity (JObj (omitBy_isUndefined p)) invalid_props = Inr v"
      "c = JObj (omitBy_isUndefined p)"
    by (auto simp: patchMany_record_def mem_and_then comp_simps mem_hooks split: option.splits)
  from assms(3) h(5) have g: "g (JObj (omitBy_isUndefined p)) rq = Inl e" by simp
  have tr: "fst (patchMany_record rq Entity sp ex) =
      (ResetReadOnly (body rq) ex
        # fst (or_identity PrepareUpdate (prepareUpdate Entity) (JObj (update_literal rs sp idv))))
        @ [AssertValid c invalid_props, ShouldUpdate c]"
    by (simp add: patchMany_record_def fst_and_then snd_and_then comp_simps h assms(1) guard_Some g)
  have sn: "snd (patchMany_record rq Entity sp ex) = Inl e"
    by (simp add: patchMany_record_def snd_and_then comp_simps h assms(1) guard_Some g)
  have "\<forall>x. UpdateOne x \<notin> set (fst (patchMany_record rq Entity sp ex))"
    by (auto simp: tr mem_hooks)
  with sn tr show ?thesis by blast
qed

lemma patchMany_records:
  "m \<in> set (records (EntityREST_patchMany rt rq spec Entity)) \<Longrightarrow>
     \<exists>sp ex. m = patchMany_record rq Entity sp ex"
  by (auto simp: EntityREST_patchMany_def split: sum.splits if_splits jsval.splits option.splits)

lemma deleteOne_guard:
  assumes "shouldDelete Entity = Some g"
    and "ShouldDelete c \<in> set (fst (EntityREST_deleteOne rq spec Entity))"
    and "g c rq = Inl e"
  shows "(\<forall>x. DeleteOne x \<notin> set (fst (EntityREST_deleteOne rq spec Entity)))
       \<and> snd (EntityREST_deleteOne rq spec Entity) = Inl e"
proof -
  from assms(2) have
    h: "findById Entity (obj_get (urlParams rq) ''entityId'') = Inr c"
      "Sert_object c 404 ''Resource not found.'' = Inr ()"
    by (auto simp: EntityREST_deleteOne_def mem_and_then comp_simps mem_hooks)
  have tr: "fst (EntityREST_deleteOne rq spec Entity) =
      [FindById (obj_get (urlParams rq) ''entityId''), ShouldDelete c]"
    by (simp add: EntityREST_deleteOne_def fst_and_then snd_and_then comp_simps h assms(1)
        guard_Some assms(3))
  have sn: "snd (EntityREST_deleteOne rq spec Entity) = Inl e"
    by (simp add: EntityREST_deleteOne_def snd_and_then comp_simps h assms(1) guard_Some assms(3))
  show ?thesis by (simp add: tr sn)
qed

lemma postOne_rejected: "EntityREST_postOne rename_request no_spec guarded_store =
    ([AssertValid (JObj [(''id'', JStr ''123456789012345678901234''), (''name'', JStr ''b''),
                         (''locked'', JBool False)]) invalid_props,
      ShouldCreate (JObj [(''name'', JStr ''b''), (''locked'', JBool False)])],
     Inl forbidden)"
  by code_simp

lemma putOne_rejected: "EntityREST_putOne rename_request no_spec guarded_store =
    ([FindById (JStr ''42''),
      ResetReadOnly (JObj [(''name'', JStr ''b''), (''locked'', JBool False)]) widget,
      AssertValid (JObj [(''name'', JStr ''b''), (''locked'', JBool True), (''id'', JStr ''42'')])
        invalid_props,
      ShouldUpdate (JObj [(''name'', JStr ''b''), (''locked'', JBool True), (''id'', JStr ''42'')])],
     Inl forbidden)"
  by code_simp

lemma patchOne_rejected: "EntityREST_patchOne example_runtime rename_request no_spec guarded_store =
    ([FindById (JStr ''42''),
      ResetReadOnly (JObj [(''name'', JStr ''b''), (''locked'', JBool False)]) widget,
      AssertValid (JObj [(''name'', JStr ''b''), (''locked'', JBool True), (''id'', JStr ''42'')])
        invalid_props,
      ShouldUpdate (JObj [(''name'', JStr ''b''), (''locked'', JBool True), (''id'', JStr ''42'')])],
     Inl forbidden)"
  by code_simp

lemma patchMany_rejected: "records (EntityREST_patchMany example_runtime rename_request no_spec guarded_store) =
    [([ResetReadOnly (JObj [(''name'', JStr ''b''), (''locked'', JBool False)]) widget,
      AssertValid (JObj [(''name'', JStr ''b''), (''locked'', JBool True), (''id'', JStr ''42'')])
        invalid_props,
      ShouldUpdate (JObj [(''name'', JStr ''b''), (''locked'', JBool True), (''id'', JStr ''42'')])],
     Inl forbidden)]"
  by code_simp

lemma deleteOne_rejected: "EntityREST_deleteOne rename_request no_spec guarded_store =
    ([FindById (JStr ''42''), ShouldDelete widget], Inl forbidden)"
  by code_simp

text \<open>
  C4. When a guard hook is present, is called and throws, the operation ends with the
  guard's error and the storage mutation is never called: \<^verbatim>\<open>createOne\<close> for
  create, \<^verbatim>\<open>replaceOne\<close> for replace, \<^verbatim>\<open>updateOne\<close> for patch-one and for
  each record of patch-many, \<^verbatim>\<open>deleteOne\<close> for delete. For create, replace and
  patch the call just before the guard is \<^verbatim>\<open>assertValid\<close> on the candidate the
  guard receives (for create, on that candidate under the placeholder id).
\<close>

theorem rejecting_guard_prevents_mutation:
  "(shouldCreate Entity = Some gc
      \<and> ShouldCreate c1 \<in> set (fst (EntityREST_postOne rq spec Entity)) \<and> gc c1 rq = Inl e1 \<longrightarrow>
        (\<forall>x. CreateOne x \<notin> set (fst (EntityREST_postOne rq spec Entity)))
        \<and> snd (EntityREST_postOne rq spec Entity) = Inl e1
        \<and> (\<exists>pre. fst (EntityREST_postOne rq spec Entity)
              = pre @ [AssertValid (JObj (spread [(''id'', JStr ''123456789012345678901234'')] c1))
                         invalid_props,
                       ShouldCreate c1]))
   \<and> (shouldUpdate Entity = Some gu
      \<and> ShouldUpdate c2 \<in> set (fst (EntityREST_putOne rq spec Entity)) \<and> gu c2 rq = Inl e2 \<longrightarrow>
        (\<forall>x. ReplaceOne x \<notin> set (fst (EntityREST_putOne rq spec Entity)))
        \<and> snd (EntityREST_putOne rq spec Entity) = Inl e2
        \<and> (\<exists>pre. fst (EntityREST_putOne rq spec Entity)
              = pre @ [AssertValid c2 invalid_props, ShouldUpdate c2]))
   \<and> (shouldUpdate Entity = Some gu
      \<and> ShouldUpdate c3 \<in> set (fst (EntityREST_patchOne rt rq spec Entity)) \<and> gu c3 rq = Inl e3 \<longrightarrow>
        (\<forall>x. UpdateOne x \<notin> set (fst (EntityREST_patchOne rt rq spec Entity)))
        \<and> snd (EntityREST_patchOne rt rq spec Entity) = Inl e3
        \<and> (\<exists>pre. fst (EntityREST_patchOne rt rq spec Entity)
              = pre @ [AssertValid c3 invalid_props, ShouldUpdate c3]))
   \<and> (\<forall>m \<in> set (records (EntityREST_patchMany rt rq spec Entity)).
        shouldUpdate Entity = Some gu \<and> ShouldUpdate c4 \<in> set (fst m) \<and> gu c4 rq = Inl e4 \<longrightarrow>
          (\<forall>x. UpdateOne x \<notin> set (fst m))
          \<and> snd m = Inl e4
          \<and> (\<exists>pre. fst m = pre @ [AssertValid c4 invalid_props, ShouldUpdate c4]))
   \<and> (shouldDelete Entity = Some gd
      \<and> ShouldDelete c5 \<in> set (fst (EntityREST_deleteOne rq spec Entity)) \<and> gd c5 rq = Inl e5 \<longrightarrow>
        (\<forall>x. DeleteOne x \<notin> set (fst (EntityREST_deleteOne rq spec Entity)))
        \<and> snd (EntityREST_deleteOne rq spec Entity) = Inl e5)"
  (is "?post \<and> ?put \<and> ?patch \<and> ?many \<and> ?delete")
proof -
  have 1: ?post using postOne_guard [of Entity gc c1 rq spec e1] by blast
  have 2: ?put using putOne_guard [of Entity gu c2 rq spec e2] by blast
  have 3: ?patch using patchOne_guard [of Entity gu c3 rt rq spec e3] by blast
  have 4: ?many
  proof (intro ballI impI)
    fix m
    assume m: "m \<in> set (records (EntityREST_patchMany rt rq spec Entity))"
      and g: "shouldUpdate Entity = Some gu \<and> ShouldUpdate c4 \<in> set (fst m) \<and> gu c4 rq = Inl e4"
    from patchMany_records [OF m] obtain sp ex where "m = patchMany_record rq Entity sp ex"
      by blast
    with g patchMany_record_guard [of Entity gu c4 rq sp ex e4]
    show "(\<forall>x. UpdateOne x \<notin> set (fst m)) \<and> snd m = Inl e4
        \<and> (\<exists>pre. fst m = pre @ [AssertValid c4 invalid_props, ShouldUpdate c4])"
      by simp
  qed
  have 5: ?delete using deleteOne_guard [of Entity gd c5 rq spec e5] by blast
  from 1 2 3 4 5 show ?thesis by (intro conjI)
qed


theorem rejecting_guard_prevents_mutation_witness:
  "ShouldCreate (JObj [(''name'', JStr ''b''), (''locked'', JBool False)])
     \<in> set (fst (EntityREST_postOne rename_request no_spec guarded_store))
   \<and> (\<forall>x. CreateOne x \<notin> set (fst (EntityREST_postOne rename_request no_spec guarded_store)))
   \<and> snd (EntityREST_postOne rename_request no_spec guarded_store) = Inl forbidden
   \<and> (\<exists>pre. fst (EntityREST_postOne rename_request no_spec guarded_store)
          = pre @ [AssertValid
                     (JObj (spread [(''id'', JStr ''123456789012345678901234'')]
                              (JObj [(''name'', JStr ''b''), (''locked'', JBool False)])))
                     invalid_props,
                   ShouldCreate (JObj [(''name'', JStr ''b''), (''locked'', JBool False)])])
   \<and> ShouldUpdate (JObj [(''name'', JStr ''b''), (''locked'', JBool True), (''id'', JStr ''42'')])
       \<in> set (fst (EntityREST_putOne rename_request no_spec guarded_store))
   \<and> (\<forall>x. ReplaceOne x \<notin> set (fst (EntityREST_putOne rename_request no_spec guarded_store)))
   \<and> snd (EntityREST_putOne rename_request no_spec guarded_store) = Inl forbidden
   \<and> (\<exists>pre. fst (EntityREST_putOne rename_request no_spec guarded_store)
          = pre @ [AssertValid
                     (JObj [(''name'', JStr ''b''), (''locked'', JBool True), (''id'', JStr ''42'')])
                     invalid_props,
                   ShouldUpdate
                     (JObj [(''name'', JStr ''b''), (''locked'', JBool True), (''id'', JStr ''42'')])])
   \<and> ShouldUpdate (JObj [(''name'', JStr ''b''), (''locked'', JBool True), (''id'', JStr ''42'')])
       \<in> set (fst (EntityREST_patchOne example_runtime rename_request no_spec guarded_store))
   \<and> (\<forall>x. UpdateOne x
          \<notin> set (fst (EntityREST_patchOne example_runtime rename_request no_spec guarded_store)))
   \<and> snd (EntityREST_patchOne example_runtime rename_request no_spec guarded_store) = Inl forbidden
   \<and> (\<exists>pre. fst (EntityREST_patchOne example_runtime rename_request no_spec guarded_store)
          = pre @ [AssertValid
                     (JObj [(''name'', JStr ''b''), (''locked'', JBool True), (''id'', JStr ''42'')])
                     invalid_props,
                   ShouldUpdate
                     (JObj [(''name'', JStr ''b''), (''locked'', JBool True), (''id'', JStr ''42'')])])
   \<and> length (records (EntityREST_patchMany example_runtime rename_request no_spec guarded_store)) = 1
   \<and> ShouldUpdate (JObj [(''name'', JStr ''b''), (''locked'', JBool True), (''id'', JStr ''42'')])
       \<in> set (fst (hd (records
             (EntityREST_patchMany example_runtime rename_request no_spec guarded_store))))
   \<and> (\<forall>x. UpdateOne x
          \<notin> set (fst (hd (records
                (EntityREST_patchMany example_runtime rename_request no_spec guarded_store)))))
   \<and> snd (hd (records (EntityREST_patchMany example_runtime rename_request no_spec guarded_store)))
       = Inl forbidden
   \<and> ShouldDelete widget
       \<in> set (fst (EntityREST_deleteOne rename_request no_spec guarded_store))
   \<and> (\<forall>x. DeleteOne x \<notin> set (fst (EntityREST_deleteOne rename_request no_spec guarded_store)))
   \<and> snd (EntityREST_deleteOne rename_request no_spec guarded_store) = Inl forbidden"
proof -
  have hooks:
    "shouldCreate guarded_store = Some (\<lambda>p r. Inl forbidden)"
    "shouldUpdate guarded_store = Some (\<lambda>p r. Inl forbidden)"
    "shouldDelete guarded_store = Some (\<lambda>p r. Inl forbidden)"
    by (simp_all add: guarded_store_def)
  have called:
    "ShouldCreate (JObj [(''name'', JStr ''b''), (''locked'', JBool False)])
       \<in> set (fst (EntityREST_postOne rename_request no_spec guarded_store))"
    "ShouldUpdate (JObj [(''name'', JStr ''b''), (''locked'', JBool True), (''id'', JStr ''42'')])
       \<in> set (fst (EntityREST_putOne rename_request no_spec guarded_store))"
    "ShouldUpdate (JObj [(''name'', JStr ''b''), (''locked'', JBool True), (''id'', JStr ''42'')])
       \<in> set (fst (EntityREST_patchOne example_runtime rename_request no_spec guarded_store))"
    "hd (records (EntityREST_patchMany example_runtime rename_request no_spec guarded_store))
       \<in> set (records (EntityREST_patchMany example_runtime rename_request no_spec guarded_store))"
    "length (records (EntityREST_patchMany example_runtime rename_request no_spec guarded_store)) = 1"
    "ShouldUpdate (JObj [(''name'', JStr ''b''), (''locked'', JBool True), (''id'', JStr ''42'')])
       \<in> set (fst (hd (records
             (EntityREST_patchMany example_runtime rename_request no_spec guarded_store))))"
    "ShouldDelete widget
       \<in> set (fst (EntityREST_deleteOne rename_request no_spec guarded_store))"
    by (simp_all add: postOne_rejected putOne_rejected patchOne_rejected patchMany_rejected
        deleteOne_rejected)
  note inst = rejecting_guard_prevents_mutation
    [where Entity = guarded_store and rq = rename_request and spec = no_spec
       and rt = example_runtime
       and gc = "\<lambda>p r. Inl forbidden" and gu = "\<lambda>p r. Inl forbidden"
       and gd = "\<lambda>p r. Inl forbidden"
       and ?e1.0 = forbidden and ?e2.0 = forbidden and ?e3.0 = forbidden and ?e4.0 = forbidden
       and ?e5.0 = forbidden
       and ?c1.0 = "JObj [(''name'', JStr ''b''), (''locked'', JBool False)]"
       and ?c2.0 = "JObj [(''name'', JStr ''b''), (''locked'', JBool True), (''id'', JStr ''42'')]"
       and ?c3.0 = "JObj [(''name'', JStr ''b''), (''locked'', JBool True), (''id'', JStr ''42'')]"
       and ?c4.0 = "JObj [(''name'', JStr ''b''), (''locked'', JBool True), (''id'', JStr ''42'')]"
       and ?c5.0 = widget]
  from inst hooks called(1,2,3,7) have single:
    "(\<forall>x. CreateOne x \<notin> set (fst (EntityREST_postOne rename_request no_spec guarded_store)))
     \<and> snd (EntityREST_postOne rename_request no_spec guarded_store) = Inl forbidden
     \<and> (\<exists>pre. fst (EntityREST_postOne rename_request no_spec guarded_store)
          = pre @ [AssertValid
                     (JObj (spread [(''id'', JStr ''123456789012345678901234'')]
                              (JObj [(''name'', JStr ''b''), (''locked'', JBool False)])))
                     invalid_props,
                   ShouldCreate (JObj [(''name'', JStr ''b''), (''locked'', JBool False)])])"
    "(\<forall>x. ReplaceOne x \<notin> set (fst (EntityREST_putOne rename_request no_spec guarded_store)))
     \<and> snd (EntityREST_putOne rename_request no_spec guarded_store) = Inl forbidden
     \<and> (\<exists>pre. fst (EntityREST_putOne rename_request no_spec guarded_store)
          = pre @ [AssertValid
                     (JObj [(''name'', JStr ''b''), (''locked'', JBool True), (''id'', JStr ''42'')])
                     invalid_props,
                   ShouldUpdate
                     (JObj [(''name'', JStr ''b''), (''locked'', JBool True), (''id'', JStr ''42'')])])"
    "(\<forall>x. UpdateOne x
          \<notin> set (fst (EntityREST_patchOne example_runtime rename_request no_spec guarded_store)))
     \<and> snd (EntityREST_patchOne example_runtime rename_request no_spec guarded_store) = Inl forbidden
     \<and> (\<exists>pre. fst (EntityREST_patchOne example_runtime rename_request no_spec guarded_store)
          = pre @ [AssertValid
                     (JObj [(''name'', JStr ''b''), (''locked'', JBool True), (''id'', JStr ''42'')])
                     invalid_props,
                   ShouldUpdate
                     (JObj [(''name'', JStr ''b''), (''locked'', JBool True), (''id'', JStr ''42'')])])"
    "(\<forall>x. DeleteOne x \<notin> set (fst (EntityREST_deleteOne rename_request no_spec guarded_store)))
     \<and> snd (EntityREST_deleteOne rename_request no_spec guarded_store) = Inl forbidden"
    by blast+
  from inst [THEN conjunct2, THEN conjunct2, THEN conjunct2, THEN conjunct1, THEN bspec,
             OF called(4)] hooks(2) called(6)
  have many:
    "(\<forall>x. UpdateOne x
          \<notin> set (fst (hd (records
                (EntityREST_patchMany example_runtime rename_request no_spec guarded_store)))))
     \<and> snd (hd (records (EntityREST_patchMany example_runtime rename_request no_spec guarded_store)))
         = Inl forbidden"
    by blast
  from called(1,2,3,5,6,7) single many show ?thesis
    by (intro conjI) blast+
qed

section \<open>Candidates of the update operations\<close>

lemma literal_is_merge:
  "object_of (merge_candidate rs s idv) (JObj (omitBy_isUndefined (JObj (update_literal rs s idv))))"
  by (auto simp: object_of_def merge_candidate_def obj_get_omitBy keys_omitBy
      obj_get_update_literal)

lemma putOne_candidate:
  assumes "AssertValid c sp \<in> set (fst (EntityREST_putOne rq spec Entity))
           \<or> ReplaceOne c \<in> set (fst (EntityREST_putOne rq spec Entity))"
  shows "\<exists>ex s rs p. findById Entity (obj_get (urlParams rq) ''entityId'') = Inr ex
      \<and> snd (or_stubObject SpecSet (set' spec) rq) = Inr s
      \<and> resetReadOnly Entity (body rq) ex = Inr rs
      \<and> snd (or_identity PrepareUpdate (prepareUpdate Entity)
                 (JObj (update_literal rs s (obj_get (urlParams rq) ''entityId'')))) = Inr p
      \<and> c = JObj (omitBy_isUndefined p)"
  using assms
  by (auto simp: EntityREST_putOne_def mem_and_then comp_simps mem_hooks)

lemma putOne_prepared:
  assumes "PrepareUpdate p \<in> set (fst (EntityREST_putOne rq spec Entity))"
  shows "\<exists>s rs. p = JObj (update_literal rs s (obj_get (urlParams rq) ''entityId''))"
  using assms
  by (auto simp: EntityREST_putOne_def mem_and_then comp_simps mem_hooks)

lemma patchOne_candidate:
  assumes "AssertValid c sp \<in> set (fst (EntityREST_patchOne rt rq spec Entity))
           \<or> UpdateOne c \<in> set (fst (EntityREST_patchOne rt rq spec Entity))"
  shows "\<exists>ex s rs p. findById Entity (obj_get (urlParams rq) ''entityId'') = Inr ex
      \<and> snd (or_stubObject SpecSet (set' spec) rq) = Inr s
      \<and> (if isArray (body rq)
           then \<exists>pd. patched_document rt (body rq) ex = Inr pd
                  \<and> resetReadOnly Entity (fst pd) (snd pd) = Inr rs
           else resetReadOnly Entity (body rq) ex = Inr rs)
      \<and> snd (or_identity PrepareUpdate (prepareUpdate Entity)
                 (JObj (update_literal rs s (obj_get (urlParams rq) ''entityId'')))) = Inr p
      \<and> c = JObj (omitBy_isUndefined p)"
  using assms
  by (cases "isArray (body rq)")
     (auto simp: EntityREST_patchOne_def mem_and_then comp_simps mem_hooks)

lemma patchOne_prepared:
  assumes "PrepareUpdate p \<in> set (fst (EntityREST_patchOne rt rq spec Entity))"
  shows "\<exists>s rs. p = JObj (update_literal rs s (obj_get (urlParams rq) ''entityId''))"
  using assms
  by (cases "isArray (body rq)")
     (auto simp: EntityREST_patchOne_def mem_and_then comp_simps mem_hooks)

lemma patchMany_record_candidate:
  assumes "AssertValid c sp \<in> set (fst (patchMany_record rq Entity s ex))
           \<or> UpdateOne c \<in> set (fst (patchMany_record rq Entity s ex))"
  shows "\<exists>rs idv p. resetReadOnly Entity (body rq) ex = Inr rs
      \<and> js_get ex ''id'' = Some idv
      \<and> snd (or_identity PrepareUpdate (prepareUpdate Entity) (JObj (update_literal rs s idv))) = Inr p
      \<and> c = JObj (omitBy_isUndefined p)"
  using assms
  by (auto simp: patchMany_record_def mem_and_then comp_simps mem_hooks split: option.splits)

lemma patchMany_records_found:
  "m \<in> set (records (EntityREST_patchMany rt rq spec Entity)) \<Longrightarrow>
     \<exists>s xs ex. snd (patchMany_find rt rq spec Entity) = Inr (JArr xs)
        \<and> snd (or_stubObject SpecSet (set' spec) rq) = Inr s
        \<and> ex \<in> set xs
        \<and> m = patchMany_record rq Entity s ex"
  by (auto simp: EntityREST_patchMany_def split: sum.splits if_splits jsval.splits option.splits)

lemma literal_id:
  "obj_get (omitBy_isUndefined (JObj (update_literal rs s idv))) ''id'' = idv"
  by (simp add: obj_get_omitBy obj_get_update_literal unsafe_key_def)

lemma putOne_prepared_run:
  "EntityREST_putOne override_request forcing_spec preparing_store =
    ([FindById (JStr ''42''), SpecSet,
      ResetReadOnly (JObj [(''id'', JStr ''7''), (''name'', JStr ''b''), (''size'', JNum 3),
                           (''_links'', JObj [])]) widget,
      PrepareUpdate (JObj [(''id'', JStr ''42''), (''name'', JUndefined), (''size'', JNum 3),
                           (''_links'', JUndefined), (''locked'', JBool False),
                           (''_embedded'', JUndefined)]),
      AssertValid (JObj [(''id'', JStr ''42''), (''size'', JNum 3), (''locked'', JBool False)])
        invalid_props,
      ReplaceOne (JObj [(''id'', JStr ''42''), (''size'', JNum 3), (''locked'', JBool False)]),
      Respond 200 (JObj [(''id'', JStr ''42''), (''size'', JNum 3), (''locked'', JBool False)])],
     Inr JUndefined)"
  by code_simp

lemma patchOne_forced_run:
  "EntityREST_patchOne example_runtime override_request forcing_spec store =
    ([FindById (JStr ''42''), SpecSet,
      ResetReadOnly (JObj [(''id'', JStr ''7''), (''name'', JStr ''b''), (''size'', JNum 3),
                           (''_links'', JObj [])]) widget,
      AssertValid (JObj [(''id'', JStr ''42''), (''size'', JNum 3), (''locked'', JBool False)])
        invalid_props,
      UpdateOne (JObj [(''id'', JStr ''42''), (''size'', JNum 3), (''locked'', JBool False)]),
      Respond 200 (JObj [(''id'', JStr ''42''), (''size'', JNum 3), (''locked'', JBool False)])],
     Inr JUndefined)"
  by code_simp

text \<open>
  C5. In replace and patch-one, the object handed to \<^verbatim>\<open>prepareUpdate\<close> has as
  its \<^verbatim>\<open>id\<close> the \<^verbatim>\<open>entityId\<close> of the URL parameters, and when
  \<^verbatim>\<open>prepareUpdate\<close> is absent so has the candidate handed to \<^verbatim>\<open>assertValid\<close>
  and to \<^verbatim>\<open>replaceOne\<close> or \<^verbatim>\<open>updateOne\<close>, whatever id the request body or
  the \<^verbatim>\<open>set()\<close> result carries.
\<close>

theorem update_candidate_id_from_url:
  "(\<forall>p. PrepareUpdate p \<in> set (fst (EntityREST_putOne rq spec Entity))
          \<or> PrepareUpdate p \<in> set (fst (EntityREST_patchOne rt rq spec Entity)) \<longrightarrow>
        (\<exists>kvs. p = JObj kvs \<and> obj_get kvs ''id'' = obj_get (urlParams rq) ''entityId''))
   \<and> (prepareUpdate Entity = None \<longrightarrow>
        (\<forall>c sp. AssertValid c sp \<in> set (fst (EntityREST_putOne rq spec Entity))
                \<or> ReplaceOne c \<in> set (fst (EntityREST_putOne rq spec Entity))
                \<or> AssertValid c sp \<in> set (fst (EntityREST_patchOne rt rq spec Entity))
                \<or> UpdateOne c \<in> set (fst (EntityREST_patchOne rt rq spec Entity)) \<longrightarrow>
           (\<exists>kvs. c = JObj kvs \<and> obj_get kvs ''id'' = obj_get (urlParams rq) ''entityId'')))"
  (is "?prepared \<and> ?candidate")
proof
  show ?prepared
  proof (intro allI impI)
    fix p
    assume "PrepareUpdate p \<in> set (fst (EntityREST_putOne rq spec Entity))
          \<or> PrepareUpdate p \<in> set (fst (EntityREST_patchOne rt rq spec Entity))"
    then obtain s rs where "p = JObj (update_literal rs s (obj_get (urlParams rq) ''entityId''))"
      using putOne_prepared patchOne_prepared by blast
    then show "\<exists>kvs. p = JObj kvs \<and> obj_get kvs ''id'' = obj_get (urlParams rq) ''entityId''"
      by (simp add: obj_get_update_literal)
  qed
  show ?candidate
  proof (intro allI impI)
    fix c sp
    assume none: "prepareUpdate Entity = None"
      and "AssertValid c sp \<in> set (fst (EntityREST_putOne rq spec Entity))
                \<or> ReplaceOne c \<in> set (fst (EntityREST_putOne rq spec Entity))
                \<or> AssertValid c sp \<in> set (fst (EntityREST_patchOne rt rq spec Entity))
                \<or> UpdateOne c \<in> set (fst (EntityREST_patchOne rt rq spec Entity))"
    then have "\<exists>s rs p. snd (or_identity PrepareUpdate (prepareUpdate Entity)
                 (JObj (update_literal rs s (obj_get (urlParams rq) ''entityId'')))) = Inr p
      \<and> c = JObj (omitBy_isUndefined p)"
      using putOne_candidate [of c sp rq spec Entity] patchOne_candidate [of c sp rt rq spec Entity]
      by blast
    with none show "\<exists>kvs. c = JObj kvs \<and> obj_get kvs ''id'' = obj_get (urlParams rq) ''entityId''"
      by (auto simp: or_identity_None literal_id)
  qed
qed

theorem update_candidate_id_from_url_witness:
  "PrepareUpdate (JObj [(''id'', JStr ''42''), (''name'', JUndefined), (''size'', JNum 3),
                        (''_links'', JUndefined), (''locked'', JBool False),
                        (''_embedded'', JUndefined)])
     \<in> set (fst (EntityREST_putOne override_request forcing_spec preparing_store))
   \<and> (\<exists>kvs. JObj [(''id'', JStr ''42''), (''name'', JUndefined), (''size'', JNum 3),
                  (''_links'', JUndefined), (''locked'', JBool False), (''_embedded'', JUndefined)]
              = JObj kvs
            \<and> obj_get kvs ''id'' = obj_get (urlParams override_request) ''entityId'')
   \<and> prepareUpdate store = None
   \<and> UpdateOne (JObj [(''id'', JStr ''42''), (''size'', JNum 3), (''locked'', JBool False)])
       \<in> set (fst (EntityREST_patchOne example_runtime override_request forcing_spec store))
   \<and> (\<exists>kvs. JObj [(''id'', JStr ''42''), (''size'', JNum 3), (''locked'', JBool False)] = JObj kvs
            \<and> obj_get kvs ''id'' = obj_get (urlParams override_request) ''entityId'')"
proof -
  have a: "PrepareUpdate (JObj [(''id'', JStr ''42''), (''name'', JUndefined), (''size'', JNum 3),
                        (''_links'', JUndefined), (''locked'', JBool False),
                        (''_embedded'', JUndefined)])
     \<in> set (fst (EntityREST_putOne override_request forcing_spec preparing_store))"
    by (simp add: putOne_prepared_run)
  have b: "prepareUpdate store = None"
    by (simp add: store_def)
  have c: "UpdateOne (JObj [(''id'', JStr ''42''), (''size'', JNum 3), (''locked'', JBool False)])
       \<in> set (fst (EntityREST_patchOne example_runtime override_request forcing_spec store))"
    by (simp add: patchOne_forced_run)
  from a update_candidate_id_from_url
         [where rq = override_request and spec = forcing_spec and Entity = preparing_store]
  have 1: "\<exists>kvs. JObj [(''id'', JStr ''42''), (''name'', JUndefined), (''size'', JNum 3),
                  (''_links'', JUndefined), (''locked'', JBool False), (''_embedded'', JUndefined)]
              = JObj kvs
            \<and> obj_get kvs ''id'' = obj_get (urlParams override_request) ''entityId''"
    by blast
  from b c update_candidate_id_from_url
         [where rq = override_request and spec = forcing_spec and Entity = store
            and rt = example_runtime]
  have 2: "\<exists>kvs. JObj [(''id'', JStr ''42''), (''size'', JNum 3), (''locked'', JBool False)] = JObj kvs
            \<and> obj_get kvs ''id'' = obj_get (urlParams override_request) ''entityId''"
    by blast
  from a b c 1 2 show ?thesis by blast
qed

lemma putOne_hands_over:
  assumes "prepareUpdate Entity = None"
    and "findById Entity (obj_get (urlParams rq) ''entityId'') = Inr ex"
    and "Sert_object ex 404 ''Resource not found.'' = Inr ()"
    and "snd (or_stubObject SpecSet (set' spec) rq) = Inr s"
    and "resetReadOnly Entity (body rq) ex = Inr rs"
  shows "\<exists>pre post. fst (EntityREST_putOne rq spec Entity)
           = pre @ [ResetReadOnly (body rq) ex,
                    AssertValid (JObj (omitBy_isUndefined
                       (JObj (update_literal rs s (obj_get (urlParams rq) ''entityId'')))))
                      invalid_props] @ post"
  using assms
  apply (simp add: EntityREST_putOne_def fst_and_then snd_and_then comp_simps or_identity_None)
  apply (rule exI [of _ "FindById (obj_get (urlParams rq) ''entityId'')
                          # fst (or_stubObject SpecSet (set' spec) rq)"])
  apply simp
  done

lemma putOne_mutates:
  assumes "prepareUpdate Entity = None"
    and "findById Entity (obj_get (urlParams rq) ''entityId'') = Inr ex"
    and "Sert_object ex 404 ''Resource not found.'' = Inr ()"
    and "snd (or_stubObject SpecSet (set' spec) rq) = Inr s"
    and "resetReadOnly Entity (body rq) ex = Inr rs"
    and "assertValid Entity (JObj (omitBy_isUndefined
            (JObj (update_literal rs s (obj_get (urlParams rq) ''entityId''))))) invalid_props = Inr v"
    and "snd (guard ShouldUpdate (shouldUpdate Entity) (JObj (omitBy_isUndefined
            (JObj (update_literal rs s (obj_get (urlParams rq) ''entityId''))))) rq) = Inr w"
  shows "ReplaceOne (JObj (omitBy_isUndefined
            (JObj (update_literal rs s (obj_get (urlParams rq) ''entityId'')))))
          \<in> set (fst (EntityREST_putOne rq spec Entity))"
  using assms
  by (simp add: EntityREST_putOne_def fst_and_then snd_and_then comp_simps or_identity_None)

lemma putOne_only_candidate:
  assumes "prepareUpdate Entity = None"
    and "findById Entity (obj_get (urlParams rq) ''entityId'') = Inr ex"
    and "snd (or_stubObject SpecSet (set' spec) rq) = Inr s"
    and "resetReadOnly Entity (body rq) ex = Inr rs"
    and "AssertValid c sp \<in> set (fst (EntityREST_putOne rq spec Entity))
           \<or> ReplaceOne c \<in> set (fst (EntityREST_putOne rq spec Entity))"
  shows "c = JObj (omitBy_isUndefined
            (JObj (update_literal rs s (obj_get (urlParams rq) ''entityId''))))"
  using putOne_candidate [OF assms(5)] assms(1-4)
  by (auto simp: or_identity_None)


lemma patchOne_hands_over:
  assumes "prepareUpdate Entity = None"
    and "\<not> isArray (body rq)"
    and "findById Entity (obj_get (urlParams rq) ''entityId'') = Inr ex"
    and "Sert_object ex 404 ''Resource not found.'' = Inr ()"
    and "snd (or_stubObject SpecSet (set' spec) rq) = Inr s"
    and "resetReadOnly Entity (body rq) ex = Inr rs"
  shows "\<exists>pre post. fst (EntityREST_patchOne rt rq spec Entity)
           = pre @ [ResetReadOnly (body rq) ex,
                    AssertValid (JObj (omitBy_isUndefined
                       (JObj (update_literal rs s (obj_get (urlParams rq) ''entityId'')))))
                      invalid_props] @ post"
  using assms
  apply (simp add: EntityREST_patchOne_def fst_and_then snd_and_then comp_simps or_identity_None)
  apply (rule exI [of _ "FindById (obj_get (urlParams rq) ''entityId'')
                          # fst (or_stubObject SpecSet (set' spec) rq)"])
  apply simp
  done

lemma patchOne_mutates:
  assumes "prepareUpdate Entity = None"
    and "\<not> isArray (body rq)"
    and "findById Entity (obj_get (urlParams rq) ''entityId'') = Inr ex"
    and "Sert_object ex 404 ''Resource not found.'' = Inr ()"
    and "snd (or_stubObject SpecSet (set' spec) rq) = Inr s"
    and "resetReadOnly Entity (body rq) ex = Inr rs"
    and "assertValid Entity (JObj (omitBy_isUndefined
            (JObj (update_literal rs s (obj_get (urlParams rq) ''entityId''))))) invalid_props = Inr v"
    and "snd (guard ShouldUpdate (shouldUpdate Entity) (JObj (omitBy_isUndefined
            (JObj (update_literal rs s (obj_get (urlParams rq) ''entityId''))))) rq) = Inr w"
  shows "UpdateOne (JObj (omitBy_isUndefined
            (JObj (update_literal rs s (obj_get (urlParams rq) ''entityId'')))))
          \<in> set (fst (EntityREST_patchOne rt rq spec Entity))"
  using assms
  by (simp add: EntityREST_patchOne_def fst_and_then snd_and_then comp_simps or_identity_None)

lemma patchOne_only_candidate:
  assumes "prepareUpdate Entity = None"
    and "\<not> isArray (body rq)"
    and "findById Entity (obj_get (urlParams rq) ''entityId'') = Inr ex"
    and "snd (or_stubObject SpecSet (set' spec) rq) = Inr s"
    and "resetReadOnly Entity (body rq) ex = Inr rs"
    and "AssertValid c sp \<in> set (fst (EntityREST_patchOne rt rq spec Entity))
           \<or> UpdateOne c \<in> set (fst (EntityREST_patchOne rt rq spec Entity))"
  shows "c = JObj (omitBy_isUndefined
            (JObj (update_literal rs s (obj_get (urlParams rq) ''entityId''))))"
  using patchOne_candidate [OF assms(6)] assms(1-5)
  by (auto simp: or_identity_None)

lemma patchMany_record_hands_over:
  assumes "prepareUpdate Entity = None"
    and "resetReadOnly Entity (body rq) ex = Inr rs"
    and "js_get ex ''id'' = Some idv"
  shows "\<exists>post. fst (patchMany_record rq Entity s ex)
           = [ResetReadOnly (body rq) ex,
              AssertValid (JObj (omitBy_isUndefined (JObj (update_literal rs s idv))))
                invalid_props] @ post"
  using assms
  by (simp add: patchMany_record_def fst_and_then snd_and_then comp_simps or_identity_None)

lemma patchMany_record_mutates:
  assumes "prepareUpdate Entity = None"
    and "resetReadOnly Entity (body rq) ex = Inr rs"
    and "js_get ex ''id'' = Some idv"
    and "assertValid Entity (JObj (omitBy_isUndefined (JObj (update_literal rs s idv))))
           invalid_props = Inr v"
    and "snd (guard ShouldUpdate (shouldUpdate Entity)
           (JObj (omitBy_isUndefined (JObj (update_literal rs s idv)))) rq) = Inr w"
  shows "UpdateOne (JObj (omitBy_isUndefined (JObj (update_literal rs s idv))))
          \<in> set (fst (patchMany_record rq Entity s ex))"
  using assms
  by (simp add: patchMany_record_def fst_and_then snd_and_then comp_simps or_identity_None)

lemma patchMany_record_only_candidate:
  assumes "prepareUpdate Entity = None"
    and "resetReadOnly Entity (body rq) ex = Inr rs"
    and "js_get ex ''id'' = Some idv"
    and "AssertValid c sp \<in> set (fst (patchMany_record rq Entity s ex))
           \<or> UpdateOne c \<in> set (fst (patchMany_record rq Entity s ex))"
  shows "c = JObj (omitBy_isUndefined (JObj (update_literal rs s idv)))"
  using patchMany_record_candidate [OF assms(4)] assms(1-3)
  by (auto simp: or_identity_None)

lemma patchMany_records_map:
  assumes "snd (patchMany_find rt rq spec Entity) = Inr (JArr xs)"
    and "snd (or_stubObject SpecSet (set' spec) rq) = Inr s"
  shows "records (EntityREST_patchMany rt rq spec Entity) = map (patchMany_record rq Entity s) xs"
  using assms
  by (simp add: EntityREST_patchMany_def split: option.splits)

lemma guard_result:
  "(\<exists>w. snd (guard ev h x rq) = Inr w)
     \<longleftrightarrow> (case h of None \<Rightarrow> True | Some g \<Rightarrow> \<exists>w. g x rq = Inr w)"
  by (simp add: guard_def comp_simps split: option.splits)

lemma object_of_consequences:
  assumes "object_of (merge_candidate rs s idv) c"
  shows "(\<forall>k. k \<noteq> ''id'' \<and> k \<noteq> ''_embedded'' \<and> k \<noteq> ''_links'' \<and> \<not> unsafe_key k
               \<and> obj_get (own_props s) k \<noteq> JUndefined \<longrightarrow>
             obj_get (own_props c) k = obj_get (own_props s) k)
       \<and> (\<forall>k. k \<noteq> ''id'' \<and> k \<in> fst ` set (own_props s)
               \<and> obj_get (own_props s) k = JUndefined \<longrightarrow>
             k \<notin> fst ` set (own_props c))
       \<and> obj_get (own_props c) ''id'' = idv
       \<and> ''_embedded'' \<notin> fst ` set (own_props c)
       \<and> ''_links'' \<notin> fst ` set (own_props c)
       \<and> (\<forall>k \<in> fst ` set (own_props c). obj_get (own_props c) k \<noteq> JUndefined \<and> \<not> unsafe_key k)"
proof -
  from assms obtain kvs where c: "c = JObj kvs"
    and v: "\<And>k. obj_get kvs k = merge_candidate rs s idv k"
    and d: "\<And>k. (k \<in> fst ` set kvs) = (merge_candidate rs s idv k \<noteq> JUndefined)"
    by (auto simp: object_of_def)
  have p: "\<And>k. obj_get (own_props s) k \<noteq> JUndefined \<Longrightarrow> k \<in> fst ` set (own_props s)"
    using obj_get_absent by blast
  have 1: "\<forall>k. k \<noteq> ''id'' \<and> k \<noteq> ''_embedded'' \<and> k \<noteq> ''_links'' \<and> \<not> unsafe_key k
               \<and> obj_get (own_props s) k \<noteq> JUndefined \<longrightarrow>
             obj_get (own_props c) k = obj_get (own_props s) k"
    using p by (simp add: c v merge_candidate_def)
  have 2: "\<forall>k. k \<noteq> ''id'' \<and> k \<in> fst ` set (own_props s)
               \<and> obj_get (own_props s) k = JUndefined \<longrightarrow>
             k \<notin> fst ` set (own_props c)"
    by (simp add: c d merge_candidate_def)
  have 3: "obj_get (own_props c) ''id'' = idv"
    by (simp add: c v merge_candidate_def unsafe_key_def)
  have 4: "''_embedded'' \<notin> fst ` set (own_props c)" "''_links'' \<notin> fst ` set (own_props c)"
    by (simp_all add: c d merge_candidate_def)
  have 5: "\<forall>k \<in> fst ` set (own_props c). obj_get (own_props c) k \<noteq> JUndefined \<and> \<not> unsafe_key k"
  proof
    fix k
    assume "k \<in> fst ` set (own_props c)"
    then have "merge_candidate rs s idv k \<noteq> JUndefined"
      by (simp add: c d)
    then show "obj_get (own_props c) k \<noteq> JUndefined \<and> \<not> unsafe_key k"
      by (auto simp: c v merge_candidate_def)
  qed
  from 1 2 3 4 5 show ?thesis by blast
qed


lemma putOne_forced_run:
  "EntityREST_putOne override_request forcing_spec store =
    ([FindById (JStr ''42''), SpecSet,
      ResetReadOnly (JObj [(''id'', JStr ''7''), (''name'', JStr ''b''), (''size'', JNum 3),
                           (''_links'', JObj [])]) widget,
      AssertValid (JObj [(''id'', JStr ''42''), (''size'', JNum 3), (''locked'', JBool False)])
        invalid_props,
      ReplaceOne (JObj [(''id'', JStr ''42''), (''size'', JNum 3), (''locked'', JBool False)]),
      Respond 200 (JObj [(''id'', JStr ''42''), (''size'', JNum 3), (''locked'', JBool False)])],
     Inr JUndefined)"
  by code_simp

lemma patchMany_forced_run:
  "EntityREST_patchMany example_runtime override_request forcing_spec store =
    \<lparr>before = [Find (JObj []) JUndefined, SpecSet],
     records =
       [([ResetReadOnly (JObj [(''id'', JStr ''7''), (''name'', JStr ''b''), (''size'', JNum 3),
                               (''_links'', JObj [])]) widget,
          AssertValid (JObj [(''id'', JStr ''42''), (''size'', JNum 3), (''locked'', JBool False)])
            invalid_props,
          UpdateOne (JObj [(''id'', JStr ''42''), (''size'', JNum 3), (''locked'', JBool False)])],
         Inr (JObj [(''id'', JStr ''42''), (''size'', JNum 3), (''locked'', JBool False)]))],
     after = [Respond 200
                (JArr [JObj [(''id'', JStr ''42''), (''size'', JNum 3), (''locked'', JBool False)]])],
     thrown = None\<rparr>"
  by code_simp

lemma patchMany_forced_find:
  "snd (patchMany_find example_runtime override_request forcing_spec store) = Inr (JArr [widget])"
  by code_simp

lemma forced_inputs:
  "prepareUpdate store = None"
  "\<not> isArray (body override_request)"
  "findById store (obj_get (urlParams override_request) ''entityId'') = Inr widget"
  "Sert_object widget 404 ''Resource not found.'' = Inr ()"
  "case set' forcing_spec of
     None \<Rightarrow> JObj [(''id'', JStr ''9''), (''locked'', JBool False), (''name'', JUndefined)] = JObj []
   | Some f \<Rightarrow> f override_request
       = Inr (JObj [(''id'', JStr ''9''), (''locked'', JBool False), (''name'', JUndefined)])"
  "resetReadOnly store (body override_request) widget
     = Inr (JObj [(''id'', JStr ''7''), (''name'', JStr ''b''), (''size'', JNum 3),
                  (''_links'', JObj []), (''locked'', JBool True)])"
  "js_get widget ''id'' = Some (JStr ''42'')"
  "obj_get (urlParams override_request) ''entityId'' = JStr ''42''"
  "\<exists>v. assertValid store c invalid_props = Inr v"
  "case shouldUpdate store of None \<Rightarrow> True | Some g \<Rightarrow> \<exists>w. g c override_request = Inr w"
  by (simp_all add: store_def override_request_def request_of_def widget_def forcing_spec_def
      no_spec_def obj_get_def)

text \<open>
  The JSON-Patch branch of patch-one. \<^verbatim>\<open>applyPatch\<close> has changed the existing
  record in place when \<^verbatim>\<open>resetReadOnly\<close> is called, so the patched document is
  reconciled against itself: a patch of the read-only field \<^verbatim>\<open>locked\<close> reaches
  \<^verbatim>\<open>updateOne\<close>.
\<close>

lemma patchOne_json_patch_in_place_run:
  "EntityREST_patchOne in_place_runtime (request_of (JStr ''42'') [] (JArr [unlock])) no_spec store =
    ([FindById (JStr ''42''),
      ResetReadOnly
        (JObj [(''id'', JStr ''42''), (''name'', JStr ''a''), (''locked'', JBool False)])
        (JObj [(''id'', JStr ''42''), (''name'', JStr ''a''), (''locked'', JBool False)]),
      AssertValid
        (JObj [(''id'', JStr ''42''), (''name'', JStr ''a''), (''locked'', JBool False)])
        invalid_props,
      UpdateOne (JObj [(''id'', JStr ''42''), (''name'', JStr ''a''), (''locked'', JBool False)]),
      Respond 200 (JObj [(''id'', JStr ''42''), (''name'', JStr ''a''), (''locked'', JBool False)])],
     Inr JUndefined)"
  by code_simp

text \<open>
  The specification lets only the keys of the \<^verbatim>\<open>set()\<close> result that have a defined
  value override the reconciled record. In this replace the body names the record
  \<^verbatim>\<open>b\<close> and \<^verbatim>\<open>set()\<close> returns \<^verbatim>\<open>{id: '9', locked: false, name: undefined}\<close>:
  by the specification the candidate keeps the name \<^verbatim>\<open>b\<close>, and the candidate handed
  to \<^verbatim>\<open>assertValid\<close> and \<^verbatim>\<open>replaceOne\<close> has no name.
\<close>

theorem putOne_undefined_set_value_counterexample:
  "prepareUpdate store = None
   \<and> findById store (obj_get (urlParams override_request) ''entityId'') = Inr widget
   \<and> resetReadOnly store (body override_request) widget
       = Inr (JObj [(''id'', JStr ''7''), (''name'', JStr ''b''), (''size'', JNum 3),
                    (''_links'', JObj []), (''locked'', JBool True)])
   \<and> snd (or_stubObject SpecSet (set' forcing_spec) override_request)
       = Inr (JObj [(''id'', JStr ''9''), (''locked'', JBool False), (''name'', JUndefined)])
   \<and> EntityREST_putOne override_request forcing_spec store =
       ([FindById (JStr ''42''), SpecSet,
         ResetReadOnly (JObj [(''id'', JStr ''7''), (''name'', JStr ''b''), (''size'', JNum 3),
                              (''_links'', JObj [])]) widget,
         AssertValid (JObj [(''id'', JStr ''42''), (''size'', JNum 3), (''locked'', JBool False)])
           invalid_props,
         ReplaceOne (JObj [(''id'', JStr ''42''), (''size'', JNum 3), (''locked'', JBool False)]),
         Respond 200 (JObj [(''id'', JStr ''42''), (''size'', JNum 3), (''locked'', JBool False)])],
        Inr JUndefined)
   \<and> spec_candidate
         (JObj [(''id'', JStr ''7''), (''name'', JStr ''b''), (''size'', JNum 3),
                (''_links'', JObj []), (''locked'', JBool True)])
         (JObj [(''id'', JStr ''9''), (''locked'', JBool False), (''name'', JUndefined)])
         (JStr ''42'') ''name'' = JStr ''b''
   \<and> obj_get [(''id'', JStr ''42''), (''size'', JNum 3), (''locked'', JBool False)] ''name''
       = JUndefined
   \<and> \<not> object_of
         (spec_candidate
           (JObj [(''id'', JStr ''7''), (''name'', JStr ''b''), (''size'', JNum 3),
                  (''_links'', JObj []), (''locked'', JBool True)])
           (JObj [(''id'', JStr ''9''), (''locked'', JBool False), (''name'', JUndefined)])
           (JStr ''42''))
         (JObj [(''id'', JStr ''42''), (''size'', JNum 3), (''locked'', JBool False)])"
proof -
  have run: "EntityREST_putOne override_request forcing_spec store =
       ([FindById (JStr ''42''), SpecSet,
         ResetReadOnly (JObj [(''id'', JStr ''7''), (''name'', JStr ''b''), (''size'', JNum 3),
                              (''_links'', JObj [])]) widget,
         AssertValid (JObj [(''id'', JStr ''42''), (''size'', JNum 3), (''locked'', JBool False)])
           invalid_props,
         ReplaceOne (JObj [(''id'', JStr ''42''), (''size'', JNum 3), (''locked'', JBool False)]),
         Respond 200 (JObj [(''id'', JStr ''42''), (''size'', JNum 3), (''locked'', JBool False)])],
        Inr JUndefined)"
    by code_simp
  have s: "snd (or_stubObject SpecSet (set' forcing_spec) override_request)
       = Inr (JObj [(''id'', JStr ''9''), (''locked'', JBool False), (''name'', JUndefined)])"
    by code_simp
  have n: "spec_candidate
         (JObj [(''id'', JStr ''7''), (''name'', JStr ''b''), (''size'', JNum 3),
                (''_links'', JObj []), (''locked'', JBool True)])
         (JObj [(''id'', JStr ''9''), (''locked'', JBool False), (''name'', JUndefined)])
         (JStr ''42'') ''name'' = JStr ''b''"
    by code_simp
  have u: "obj_get [(''id'', JStr ''42''), (''size'', JNum 3), (''locked'', JBool False)] ''name''
       = JUndefined"
    by code_simp
  have "\<not> object_of
         (spec_candidate
           (JObj [(''id'', JStr ''7''), (''name'', JStr ''b''), (''size'', JNum 3),
                  (''_links'', JObj []), (''locked'', JBool True)])
           (JObj [(''id'', JStr ''9''), (''locked'', JBool False), (''name'', JUndefined)])
           (JStr ''42''))
         (JObj [(''id'', JStr ''42''), (''size'', JNum 3), (''locked'', JBool False)])"
  proof
    assume "object_of
         (spec_candidate
           (JObj [(''id'', JStr ''7''), (''name'', JStr ''b''), (''size'', JNum 3),
                  (''_links'', JObj []), (''locked'', JBool True)])
           (JObj [(''id'', JStr ''9''), (''locked'', JBool False), (''name'', JUndefined)])
           (JStr ''42''))
         (JObj [(''id'', JStr ''42''), (''size'', JNum 3), (''locked'', JBool False)])"
    then have "obj_get [(''id'', JStr ''42''), (''size'', JNum 3), (''locked'', JBool False)] ''name''
        = spec_candidate
           (JObj [(''id'', JStr ''7''), (''name'', JStr ''b''), (''size'', JNum 3),
                  (''_links'', JObj []), (''locked'', JBool True)])
           (JObj [(''id'', JStr ''9''), (''locked'', JBool False), (''name'', JUndefined)])
           (JStr ''42'') ''name''"
      unfolding object_of_def by blast
    with n u show False by simp
  qed
  with run s n u forced_inputs(1,3,6) show ?thesis
    by (intro conjI)
qed


text \<open>
  C10 (as amended). With \<^verbatim>\<open>prepareUpdate\<close> absent, in replace, in patch-one
  with a body that is not an array, and in the pipeline of each record of patch-many:
  when the existing record is found, \<^verbatim>\<open>set()\<close> returns \<open>s\<close> (the empty object
  when it is absent) and \<^verbatim>\<open>resetReadOnly\<close>, called with the request body and the
  existing record, returns \<open>rs\<close>, the operation hands a candidate \<open>c\<close> to
  \<^verbatim>\<open>assertValid\<close> right after that call, hands no other object to
  \<^verbatim>\<open>assertValid\<close> or to the storage mutation, and calls the mutation with \<open>c\<close>
  when \<^verbatim>\<open>assertValid\<close> and the guard return. Key by key the candidate reads:
  nothing at \<^verbatim>\<open>_embedded\<close>, \<^verbatim>\<open>_links\<close>, \<^verbatim>\<open>__proto__\<close>, \<^verbatim>\<open>constructor\<close> and
  \<^verbatim>\<open>prototype\<close>; the forced id at \<^verbatim>\<open>id\<close> (the \<^verbatim>\<open>entityId\<close> of the URL, in
  patch-many the id of the existing record); the value of \<open>s\<close> at every other own
  key of \<open>s\<close>, also when that value is \<^verbatim>\<open>undefined\<close>; the value of \<open>rs\<close>
  elsewhere. Its keys are exactly those at which this value is defined.

  Consequently a defined \<^verbatim>\<open>set()\<close> value of a field other than these reserved
  keys, a read-only field included, is the candidate's value of that field; a key
  that \<^verbatim>\<open>set()\<close> maps to \<^verbatim>\<open>undefined\<close> removes the field; and \<^verbatim>\<open>_embedded\<close>
  and \<^verbatim>\<open>_links\<close> are never keys of the candidate. The JSON-Patch branch of patch-one
  is not covered.
\<close>

theorem update_candidate_merge_precedence:
  "(prepareUpdate Entity = None \<longrightarrow>
      (\<forall>ex rs s.
          findById Entity (obj_get (urlParams rq) ''entityId'') = Inr ex
          \<and> Sert_object ex 404 ''Resource not found.'' = Inr ()
          \<and> (case set' spec of None \<Rightarrow> s = JObj [] | Some f \<Rightarrow> f rq = Inr s)
          \<and> resetReadOnly Entity (body rq) ex = Inr rs \<longrightarrow>
          (\<exists>c. object_of (merge_candidate rs s (obj_get (urlParams rq) ''entityId'')) c
             \<and> (\<exists>pre post. fst (EntityREST_putOne rq spec Entity)
                    = pre @ [ResetReadOnly (body rq) ex, AssertValid c invalid_props] @ post)
             \<and> (\<forall>c' sp. AssertValid c' sp \<in> set (fst (EntityREST_putOne rq spec Entity))
                         \<or> ReplaceOne c' \<in> set (fst (EntityREST_putOne rq spec Entity)) \<longrightarrow>
                   c' = c)
             \<and> ((\<exists>v. assertValid Entity c invalid_props = Inr v)
                  \<and> (case shouldUpdate Entity of
                        None \<Rightarrow> True | Some g \<Rightarrow> \<exists>w. g c rq = Inr w) \<longrightarrow>
                 ReplaceOne c \<in> set (fst (EntityREST_putOne rq spec Entity)))))
    \<and> (\<forall>ex rs s.
          \<not> isArray (body rq)
          \<and> findById Entity (obj_get (urlParams rq) ''entityId'') = Inr ex
          \<and> Sert_object ex 404 ''Resource not found.'' = Inr ()
          \<and> (case set' spec of None \<Rightarrow> s = JObj [] | Some f \<Rightarrow> f rq = Inr s)
          \<and> resetReadOnly Entity (body rq) ex = Inr rs \<longrightarrow>
          (\<exists>c. object_of (merge_candidate rs s (obj_get (urlParams rq) ''entityId'')) c
             \<and> (\<exists>pre post. fst (EntityREST_patchOne rt rq spec Entity)
                    = pre @ [ResetReadOnly (body rq) ex, AssertValid c invalid_props] @ post)
             \<and> (\<forall>c' sp. AssertValid c' sp \<in> set (fst (EntityREST_patchOne rt rq spec Entity))
                         \<or> UpdateOne c' \<in> set (fst (EntityREST_patchOne rt rq spec Entity)) \<longrightarrow>
                   c' = c)
             \<and> ((\<exists>v. assertValid Entity c invalid_props = Inr v)
                  \<and> (case shouldUpdate Entity of
                        None \<Rightarrow> True | Some g \<Rightarrow> \<exists>w. g c rq = Inr w) \<longrightarrow>
                 UpdateOne c \<in> set (fst (EntityREST_patchOne rt rq spec Entity)))))
    \<and> (\<forall>xs s.
          snd (patchMany_find rt rq spec Entity) = Inr (JArr xs)
          \<and> (case set' spec of None \<Rightarrow> s = JObj [] | Some f \<Rightarrow> f rq = Inr s) \<longrightarrow>
          length (records (EntityREST_patchMany rt rq spec Entity)) = length xs
          \<and> (\<forall>i rs idv.
                i < length xs
                \<and> resetReadOnly Entity (body rq) (xs ! i) = Inr rs
                \<and> js_get (xs ! i) ''id'' = Some idv \<longrightarrow>
                (\<exists>c. object_of (merge_candidate rs s idv) c
                   \<and> (\<exists>post. fst (records (EntityREST_patchMany rt rq spec Entity) ! i)
                          = [ResetReadOnly (body rq) (xs ! i), AssertValid c invalid_props] @ post)
                   \<and> (\<forall>c' sp.
                         AssertValid c' sp
                           \<in> set (fst (records (EntityREST_patchMany rt rq spec Entity) ! i))
                         \<or> UpdateOne c'
                           \<in> set (fst (records (EntityREST_patchMany rt rq spec Entity) ! i)) \<longrightarrow>
                         c' = c)
                   \<and> ((\<exists>v. assertValid Entity c invalid_props = Inr v)
                        \<and> (case shouldUpdate Entity of
                              None \<Rightarrow> True | Some g \<Rightarrow> \<exists>w. g c rq = Inr w) \<longrightarrow>
                       UpdateOne c
                         \<in> set (fst (records (EntityREST_patchMany rt rq spec Entity) ! i)))))))
   \<and> (\<forall>c rs s idv. object_of (merge_candidate rs s idv) c \<longrightarrow>
        (\<forall>k. k \<noteq> ''id'' \<and> k \<noteq> ''_embedded'' \<and> k \<noteq> ''_links'' \<and> \<not> unsafe_key k
               \<and> obj_get (own_props s) k \<noteq> JUndefined \<longrightarrow>
             obj_get (own_props c) k = obj_get (own_props s) k)
        \<and> (\<forall>k. k \<noteq> ''id'' \<and> k \<in> fst ` set (own_props s)
               \<and> obj_get (own_props s) k = JUndefined \<longrightarrow>
             k \<notin> fst ` set (own_props c))
        \<and> obj_get (own_props c) ''id'' = idv
        \<and> ''_embedded'' \<notin> fst ` set (own_props c)
        \<and> ''_links'' \<notin> fst ` set (own_props c)
        \<and> (\<forall>k \<in> fst ` set (own_props c).
              obj_get (own_props c) k \<noteq> JUndefined \<and> \<not> unsafe_key k))"
  (is "(_ \<longrightarrow> ?put \<and> ?patch \<and> ?many) \<and> ?cons")
proof (intro conjI impI)
  assume none: "prepareUpdate Entity = None"
  show ?put
  proof (intro allI impI, elim conjE)
    fix ex rs s
    assume f: "findById Entity (obj_get (urlParams rq) ''entityId'') = Inr ex"
      and o: "Sert_object ex 404 ''Resource not found.'' = Inr ()"
      and "case set' spec of None \<Rightarrow> s = JObj [] | Some f \<Rightarrow> f rq = Inr s"
      and r: "resetReadOnly Entity (body rq) ex = Inr rs"
    then have s: "snd (or_stubObject SpecSet (set' spec) rq) = Inr s"
      by (simp add: or_stubObject_result)
    let ?c = "JObj (omitBy_isUndefined
                (JObj (update_literal rs s (obj_get (urlParams rq) ''entityId''))))"
    have 1: "object_of (merge_candidate rs s (obj_get (urlParams rq) ''entityId'')) ?c"
      by (rule literal_is_merge)
    have 2: "\<exists>pre post. fst (EntityREST_putOne rq spec Entity)
                    = pre @ [ResetReadOnly (body rq) ex, AssertValid ?c invalid_props] @ post"
      by (rule putOne_hands_over [OF none f o s r])
    have 3: "\<forall>c' sp. AssertValid c' sp \<in> set (fst (EntityREST_putOne rq spec Entity))
                         \<or> ReplaceOne c' \<in> set (fst (EntityREST_putOne rq spec Entity)) \<longrightarrow>
                   c' = ?c"
      using putOne_only_candidate [OF none f s r] by blast
    have 4: "(\<exists>v. assertValid Entity ?c invalid_props = Inr v)
                  \<and> (case shouldUpdate Entity of
                        None \<Rightarrow> True | Some g \<Rightarrow> \<exists>w. g ?c rq = Inr w) \<longrightarrow>
                 ReplaceOne ?c \<in> set (fst (EntityREST_putOne rq spec Entity))"
      using putOne_mutates [OF none f o s r] guard_result [of ShouldUpdate "shouldUpdate Entity" ?c rq]
      by blast
    from 1 2 3 4 show "\<exists>c. object_of (merge_candidate rs s (obj_get (urlParams rq) ''entityId'')) c
             \<and> (\<exists>pre post. fst (EntityREST_putOne rq spec Entity)
                    = pre @ [ResetReadOnly (body rq) ex, AssertValid c invalid_props] @ post)
             \<and> (\<forall>c' sp. AssertValid c' sp \<in> set (fst (EntityREST_putOne rq spec Entity))
                         \<or> ReplaceOne c' \<in> set (fst (EntityREST_putOne rq spec Entity)) \<longrightarrow>
                   c' = c)
             \<and> ((\<exists>v. assertValid Entity c invalid_props = Inr v)
                  \<and> (case shouldUpdate Entity of
                        None \<Rightarrow> True | Some g \<Rightarrow> \<exists>w. g c rq = Inr w) \<longrightarrow>
                 ReplaceOne c \<in> set (fst (EntityREST_putOne rq spec Entity)))"
      by (intro exI [of _ ?c] conjI)
  qed
  show ?patch
  proof (intro allI impI, elim conjE)
    fix ex rs s
    assume na: "\<not> isArray (body rq)"
      and f: "findById Entity (obj_get (urlParams rq) ''entityId'') = Inr ex"
      and o: "Sert_object ex 404 ''Resource not found.'' = Inr ()"
      and "case set' spec of None \<Rightarrow> s = JObj [] | Some f \<Rightarrow> f rq = Inr s"
      and r: "resetReadOnly Entity (body rq) ex = Inr rs"
    then have s: "snd (or_stubObject SpecSet (set' spec) rq) = Inr s"
      by (simp add: or_stubObject_result)
    let ?c = "JObj (omitBy_isUndefined
                (JObj (update_literal rs s (obj_get (urlParams rq) ''entityId''))))"
    have 1: "object_of (merge_candidate rs s (obj_get (urlParams rq) ''entityId'')) ?c"
      by (rule literal_is_merge)
    have 2: "\<exists>pre post. fst (EntityREST_patchOne rt rq spec Entity)
                    = pre @ [ResetReadOnly (body rq) ex, AssertValid ?c invalid_props] @ post"
      by (rule patchOne_hands_over [OF none na f o s r])
    have 3: "\<forall>c' sp. AssertValid c' sp \<in> set (fst (EntityREST_patchOne rt rq spec Entity))
                         \<or> UpdateOne c' \<in> set (fst (EntityREST_patchOne rt rq spec Entity)) \<longrightarrow>
                   c' = ?c"
      using patchOne_only_candidate [OF none na f s r] by blast
    have 4: "(\<exists>v. assertValid Entity ?c invalid_props = Inr v)
                  \<and> (case shouldUpdate Entity of
                        None \<Rightarrow> True | Some g \<Rightarrow> \<exists>w. g ?c rq = Inr w) \<longrightarrow>
                 UpdateOne ?c \<in> set (fst (EntityREST_patchOne rt rq spec Entity))"
      using patchOne_mutates [OF none na f o s r]
        guard_result [of ShouldUpdate "shouldUpdate Entity" ?c rq]
      by blast
    from 1 2 3 4 show "\<exists>c. object_of (merge_candidate rs s (obj_get (urlParams rq) ''entityId'')) c
             \<and> (\<exists>pre post. fst (EntityREST_patchOne rt rq spec Entity)
                    = pre @ [ResetReadOnly (body rq) ex, AssertValid c invalid_props] @ post)
             \<and> (\<forall>c' sp. AssertValid c' sp \<in> set (fst (EntityREST_patchOne rt rq spec Entity))
                         \<or> UpdateOne c' \<in> set (fst (EntityREST_patchOne rt rq spec Entity)) \<longrightarrow>
                   c' = c)
             \<and> ((\<exists>v. assertValid Entity c invalid_props = Inr v)
                  \<and> (case shouldUpdate Entity of
                        None \<Rightarrow> True | Some g \<Rightarrow> \<exists>w. g c rq = Inr w) \<longrightarrow>
                 UpdateOne c \<in> set (fst (EntityREST_patchOne rt rq spec Entity)))"
      by (intro exI [of _ ?c] conjI)
  qed
  show ?many
  proof (intro allI impI, elim conjE)
    fix xs s
    assume found: "snd (patchMany_find rt rq spec Entity) = Inr (JArr xs)"
      and "case set' spec of None \<Rightarrow> s = JObj [] | Some f \<Rightarrow> f rq = Inr s"
    then have s: "snd (or_stubObject SpecSet (set' spec) rq) = Inr s"
      by (simp add: or_stubObject_result)
    have recs: "records (EntityREST_patchMany rt rq spec Entity)
        = map (patchMany_record rq Entity s) xs"
      by (rule patchMany_records_map [OF found s])
    have each: "\<forall>i rs idv.
                i < length xs
                \<and> resetReadOnly Entity (body rq) (xs ! i) = Inr rs
                \<and> js_get (xs ! i) ''id'' = Some idv \<longrightarrow>
                (\<exists>c. object_of (merge_candidate rs s idv) c
                   \<and> (\<exists>post. fst (records (EntityREST_patchMany rt rq spec Entity) ! i)
                          = [ResetReadOnly (body rq) (xs ! i), AssertValid c invalid_props] @ post)
                   \<and> (\<forall>c' sp.
                         AssertValid c' sp
                           \<in> set (fst (records (EntityREST_patchMany rt rq spec Entity) ! i))
                         \<or> UpdateOne c'
                           \<in> set (fst (records (EntityREST_patchMany rt rq spec Entity) ! i)) \<longrightarrow>
                         c' = c)
                   \<and> ((\<exists>v. assertValid Entity c invalid_props = Inr v)
                        \<and> (case shouldUpdate Entity of
                              None \<Rightarrow> True | Some g \<Rightarrow> \<exists>w. g c rq = Inr w) \<longrightarrow>
                       UpdateOne c
                         \<in> set (fst (records (EntityREST_patchMany rt rq spec Entity) ! i))))"
    proof (intro allI impI, elim conjE)
      fix i rs idv
      assume i: "i < length xs"
        and r: "resetReadOnly Entity (body rq) (xs ! i) = Inr rs"
        and d: "js_get (xs ! i) ''id'' = Some idv"
      let ?c = "JObj (omitBy_isUndefined (JObj (update_literal rs s idv)))"
      from i recs have m: "records (EntityREST_patchMany rt rq spec Entity) ! i
          = patchMany_record rq Entity s (xs ! i)"
        by simp
      have 1: "object_of (merge_candidate rs s idv) ?c"
        by (rule literal_is_merge)
      have 2: "\<exists>post. fst (records (EntityREST_patchMany rt rq spec Entity) ! i)
                          = [ResetReadOnly (body rq) (xs ! i), AssertValid ?c invalid_props] @ post"
        unfolding m by (rule patchMany_record_hands_over [OF none r d])
      have 3: "\<forall>c' sp.
                 AssertValid c' sp
                   \<in> set (fst (records (EntityREST_patchMany rt rq spec Entity) ! i))
                 \<or> UpdateOne c'
                   \<in> set (fst (records (EntityREST_patchMany rt rq spec Entity) ! i)) \<longrightarrow>
                 c' = ?c"
        unfolding m using patchMany_record_only_candidate [OF none r d] by blast
      have 4: "(\<exists>v. assertValid Entity ?c invalid_props = Inr v)
                        \<and> (case shouldUpdate Entity of
                              None \<Rightarrow> True | Some g \<Rightarrow> \<exists>w. g ?c rq = Inr w) \<longrightarrow>
                       UpdateOne ?c
                         \<in> set (fst (records (EntityREST_patchMany rt rq spec Entity) ! i))"
        unfolding m
        using patchMany_record_mutates [OF none r d]
          guard_result [of ShouldUpdate "shouldUpdate Entity" ?c rq]
        by blast
      from 1 2 3 4 show "\<exists>c. object_of (merge_candidate rs s idv) c
                   \<and> (\<exists>post. fst (records (EntityREST_patchMany rt rq spec Entity) ! i)
                          = [ResetReadOnly (body rq) (xs ! i), AssertValid c invalid_props] @ post)
                   \<and> (\<forall>c' sp.
                         AssertValid c' sp
                           \<in> set (fst (records (EntityREST_patchMany rt rq spec Entity) ! i))
                         \<or> UpdateOne c'
                           \<in> set (fst (records (EntityREST_patchMany rt rq spec Entity) ! i)) \<longrightarrow>
                         c' = c)
                   \<and> ((\<exists>v. assertValid Entity c invalid_props = Inr v)
                        \<and> (case shouldUpdate Entity of
                              None \<Rightarrow> True | Some g \<Rightarrow> \<exists>w. g c rq = Inr w) \<longrightarrow>
                       UpdateOne c
                         \<in> set (fst (records (EntityREST_patchMany rt rq spec Entity) ! i)))"
        by (intro exI [of _ ?c] conjI)
    qed
    from recs have "length (records (EntityREST_patchMany rt rq spec Entity)) = length xs"
      by simp
    with each show "length (records (EntityREST_patchMany rt rq spec Entity)) = length xs
          \<and> (\<forall>i rs idv.
                i < length xs
                \<and> resetReadOnly Entity (body rq) (xs ! i) = Inr rs
                \<and> js_get (xs ! i) ''id'' = Some idv \<longrightarrow>
                (\<exists>c. object_of (merge_candidate rs s idv) c
                   \<and> (\<exists>post. fst (records (EntityREST_patchMany rt rq spec Entity) ! i)
                          = [ResetReadOnly (body rq) (xs ! i), AssertValid c invalid_props] @ post)
                   \<and> (\<forall>c' sp.
                         AssertValid c' sp
                           \<in> set (fst (records (EntityREST_patchMany rt rq spec Entity) ! i))
                         \<or> UpdateOne c'
                           \<in> set (fst (records (EntityREST_patchMany rt rq spec Entity) ! i)) \<longrightarrow>
                         c' = c)
                   \<and> ((\<exists>v. assertValid Entity c invalid_props = Inr v)
                        \<and> (case shouldUpdate Entity of
                              None \<Rightarrow> True | Some g \<Rightarrow> \<exists>w. g c rq = Inr w) \<longrightarrow>
                       UpdateOne c
                         \<in> set (fst (records (EntityREST_patchMany rt rq spec Entity) ! i)))))"
      by (rule conjI [rotated])
  qed
next
  show ?cons
    using object_of_consequences by blast
qed


theorem update_candidate_merge_precedence_witness:
  "prepareUpdate store = None
   \<and> \<not> isArray (body override_request)
   \<and> findById store (obj_get (urlParams override_request) ''entityId'') = Inr widget
   \<and> Sert_object widget 404 ''Resource not found.'' = Inr ()
   \<and> snd (or_stubObject SpecSet (set' forcing_spec) override_request) = Inr (JObj [(''id'', JStr ''9''), (''locked'', JBool False), (''name'', JUndefined)])
   \<and> resetReadOnly store (body override_request) widget = Inr (JObj [(''id'', JStr ''7''), (''name'', JStr ''b''), (''size'', JNum 3),
              (''_links'', JObj []), (''locked'', JBool True)])
   \<and> snd (patchMany_find example_runtime override_request forcing_spec store)
       = Inr (JArr [widget])
   \<and> js_get widget ''id'' = Some (JStr ''42'')
   \<and> object_of (merge_candidate (JObj [(''id'', JStr ''7''), (''name'', JStr ''b''), (''size'', JNum 3),
              (''_links'', JObj []), (''locked'', JBool True)]) (JObj [(''id'', JStr ''9''), (''locked'', JBool False), (''name'', JUndefined)]) (JStr ''42'')) (JObj [(''id'', JStr ''42''), (''size'', JNum 3), (''locked'', JBool False)])
   \<and> ReplaceOne (JObj [(''id'', JStr ''42''), (''size'', JNum 3), (''locked'', JBool False)]) \<in> set (fst (EntityREST_putOne override_request forcing_spec store))
   \<and> UpdateOne (JObj [(''id'', JStr ''42''), (''size'', JNum 3), (''locked'', JBool False)])
       \<in> set (fst (EntityREST_patchOne example_runtime override_request forcing_spec store))
   \<and> length (records (EntityREST_patchMany example_runtime override_request forcing_spec store))
       = 1
   \<and> UpdateOne (JObj [(''id'', JStr ''42''), (''size'', JNum 3), (''locked'', JBool False)])
       \<in> set (fst (records
             (EntityREST_patchMany example_runtime override_request forcing_spec store) ! 0))
   \<and> obj_get (own_props (JObj [(''id'', JStr ''42''), (''size'', JNum 3), (''locked'', JBool False)])) ''locked'' = JBool False
   \<and> ''name'' \<notin> fst ` set (own_props (JObj [(''id'', JStr ''42''), (''size'', JNum 3), (''locked'', JBool False)]))
   \<and> ''_links'' \<notin> fst ` set (own_props (JObj [(''id'', JStr ''42''), (''size'', JNum 3), (''locked'', JBool False)]))"
proof -
  note i = forced_inputs
  note found = patchMany_forced_find
  note f = i(3) [unfolded i(8)]
  have s: "snd (or_stubObject SpecSet (set' forcing_spec) override_request) = Inr (JObj [(''id'', JStr ''9''), (''locked'', JBool False), (''name'', JUndefined)])"
    by code_simp
  note T = update_candidate_merge_precedence
         [where Entity = store and rq = override_request and spec = forcing_spec
            and rt = example_runtime, unfolded i(8)]
  note consequences = T [THEN conjunct2, rule_format]
  note put = T [THEN conjunct1, THEN mp, OF i(1), THEN conjunct1, rule_format,
                OF conjI [OF f conjI [OF i(4) conjI [OF i(5) i(6)]]]]
  note patch = T [THEN conjunct1, THEN mp, OF i(1), THEN conjunct2, THEN conjunct1, rule_format,
                  OF conjI [OF i(2) conjI [OF f conjI [OF i(4) conjI [OF i(5) i(6)]]]]]
  note many = T [THEN conjunct1, THEN mp, OF i(1), THEN conjunct2, THEN conjunct2, rule_format,
                 OF conjI [OF found i(5)]]
  have av1: "AssertValid (JObj [(''id'', JStr ''42''), (''size'', JNum 3), (''locked'', JBool False)]) invalid_props
      \<in> set (fst (EntityREST_putOne override_request forcing_spec store))"
    by (simp add: putOne_forced_run)
  have av2: "AssertValid (JObj [(''id'', JStr ''42''), (''size'', JNum 3), (''locked'', JBool False)]) invalid_props
      \<in> set (fst (EntityREST_patchOne example_runtime override_request forcing_spec store))"
    by (simp add: patchOne_forced_run)
  have av3: "AssertValid (JObj [(''id'', JStr ''42''), (''size'', JNum 3), (''locked'', JBool False)]) invalid_props
      \<in> set (fst (records
            (EntityREST_patchMany example_runtime override_request forcing_spec store) ! 0))"
    by (simp add: patchMany_forced_run)
  from put obtain c1 where c1:
    "object_of (merge_candidate (JObj [(''id'', JStr ''7''), (''name'', JStr ''b''), (''size'', JNum 3),
              (''_links'', JObj []), (''locked'', JBool True)]) (JObj [(''id'', JStr ''9''), (''locked'', JBool False), (''name'', JUndefined)]) (JStr ''42'')) c1"
    "\<forall>c' sp. AssertValid c' sp \<in> set (fst (EntityREST_putOne override_request forcing_spec store))
        \<or> ReplaceOne c' \<in> set (fst (EntityREST_putOne override_request forcing_spec store)) \<longrightarrow>
        c' = c1"
    "(\<exists>v. assertValid store c1 invalid_props = Inr v)
       \<and> (case shouldUpdate store of
             None \<Rightarrow> True | Some g \<Rightarrow> \<exists>w. g c1 override_request = Inr w) \<longrightarrow>
     ReplaceOne c1 \<in> set (fst (EntityREST_putOne override_request forcing_spec store))"
    by (elim exE conjE)
  from c1(2) av1 have e1: "(JObj [(''id'', JStr ''42''), (''size'', JNum 3), (''locked'', JBool False)]) = c1" by blast
  from c1(3) i(9) i(10) have r1: "ReplaceOne c1
      \<in> set (fst (EntityREST_putOne override_request forcing_spec store))"
    by blast
  from patch obtain c2 where c2:
    "\<forall>c' sp. AssertValid c' sp
          \<in> set (fst (EntityREST_patchOne example_runtime override_request forcing_spec store))
        \<or> UpdateOne c'
          \<in> set (fst (EntityREST_patchOne example_runtime override_request forcing_spec store)) \<longrightarrow>
        c' = c2"
    "(\<exists>v. assertValid store c2 invalid_props = Inr v)
       \<and> (case shouldUpdate store of
             None \<Rightarrow> True | Some g \<Rightarrow> \<exists>w. g c2 override_request = Inr w) \<longrightarrow>
     UpdateOne c2
       \<in> set (fst (EntityREST_patchOne example_runtime override_request forcing_spec store))"
    by (elim exE conjE)
  from c2(1) av2 have e2: "(JObj [(''id'', JStr ''42''), (''size'', JNum 3), (''locked'', JBool False)]) = c2" by blast
  from c2(2) i(9) i(10) have r2: "UpdateOne c2
      \<in> set (fst (EntityREST_patchOne example_runtime override_request forcing_spec store))"
    by blast
  from many have len:
    "length (records (EntityREST_patchMany example_runtime override_request forcing_spec store))
       = 1"
    by simp
  have "0 < length [widget] \<and> resetReadOnly store (body override_request) ([widget] ! 0) = Inr (JObj [(''id'', JStr ''7''), (''name'', JStr ''b''), (''size'', JNum 3),
              (''_links'', JObj []), (''locked'', JBool True)])
      \<and> js_get ([widget] ! 0) ''id'' = Some (JStr ''42'')"
    using i(6) i(7) by simp
  from many [THEN conjunct2, rule_format, OF this] obtain c3 where c3:
    "\<forall>c' sp. AssertValid c' sp
          \<in> set (fst (records
                (EntityREST_patchMany example_runtime override_request forcing_spec store) ! 0))
        \<or> UpdateOne c'
          \<in> set (fst (records
                (EntityREST_patchMany example_runtime override_request forcing_spec store) ! 0)) \<longrightarrow>
        c' = c3"
    "(\<exists>v. assertValid store c3 invalid_props = Inr v)
       \<and> (case shouldUpdate store of
             None \<Rightarrow> True | Some g \<Rightarrow> \<exists>w. g c3 override_request = Inr w) \<longrightarrow>
     UpdateOne c3
       \<in> set (fst (records
             (EntityREST_patchMany example_runtime override_request forcing_spec store) ! 0))"
    by (elim exE conjE)
  from c3(1) av3 have e3: "(JObj [(''id'', JStr ''42''), (''size'', JNum 3), (''locked'', JBool False)]) = c3" by blast
  from c3(2) i(9) i(10) have r3: "UpdateOne c3
      \<in> set (fst (records
            (EntityREST_patchMany example_runtime override_request forcing_spec store) ! 0))"
    by blast
  from c1(1) e1 have obj: "object_of (merge_candidate (JObj [(''id'', JStr ''7''), (''name'', JStr ''b''), (''size'', JNum 3),
              (''_links'', JObj []), (''locked'', JBool True)]) (JObj [(''id'', JStr ''9''), (''locked'', JBool False), (''name'', JUndefined)]) (JStr ''42'')) (JObj [(''id'', JStr ''42''), (''size'', JNum 3), (''locked'', JBool False)])"
    by simp
  note cons = consequences [OF obj]
  have k: "''locked'' \<noteq> ''id'' \<and> ''locked'' \<noteq> ''_embedded'' \<and> ''locked'' \<noteq> ''_links''
      \<and> \<not> unsafe_key ''locked'' \<and> obj_get (own_props (JObj [(''id'', JStr ''9''), (''locked'', JBool False), (''name'', JUndefined)])) ''locked'' \<noteq> JUndefined"
    by (simp add: unsafe_key_def obj_get_def)
  have n: "''name'' \<noteq> ''id'' \<and> ''name'' \<in> fst ` set (own_props (JObj [(''id'', JStr ''9''), (''locked'', JBool False), (''name'', JUndefined)]))
      \<and> obj_get (own_props (JObj [(''id'', JStr ''9''), (''locked'', JBool False), (''name'', JUndefined)])) ''name'' = JUndefined"
    by (simp add: obj_get_def)
  from cons [THEN conjunct1, rule_format, OF k]
  have locked: "obj_get (own_props (JObj [(''id'', JStr ''42''), (''size'', JNum 3), (''locked'', JBool False)])) ''locked'' = JBool False"
    by (simp add: obj_get_def)
  from cons [THEN conjunct2, THEN conjunct1, rule_format, OF n]
  have name: "''name'' \<notin> fst ` set (own_props (JObj [(''id'', JStr ''42''), (''size'', JNum 3), (''locked'', JBool False)]))" .
  from cons have links: "''_links'' \<notin> fst ` set (own_props (JObj [(''id'', JStr ''42''), (''size'', JNum 3), (''locked'', JBool False)]))"
    by blast
  from i(1,2,3,4,6,7) s found obj r1 [folded e1] r2 [folded e2] len r3 [folded e3] locked name links
  show ?thesis
    by (intro conjI)
qed

section \<open>patch-one with an invalid JSON-Patch body\<close>

lemma string_gt_zero_object: "\<not> string_gt_zero ''[object Object]''"
  by code_simp

lemma object_result_not_invalid:
  "jsonPatch_validate rt p ex = Inr (JObj kvs) \<Longrightarrow>
     patched_document rt p ex = jsonPatch_applyPatch rt ex p"
  by (simp add: patched_document_def string_gt_zero_object)

text \<open>
  C1. The stored record has no \<^verbatim>\<open>nope\<close> field, so for the patch
  \<^verbatim>\<open>[{op: 'replace', path: '/nope', value: 1}]\<close> the validator reports an error: it
  returns the error object, as fast-json-patch does. An object is truthy but is not
  greater than zero, so \<^verbatim>\<open>Invalid patch\<close> is not thrown: the patch is applied and
  \<^verbatim>\<open>updateOne\<close> is called with the patched record.
\<close>

theorem patchOne_invalid_patch_reaches_updateOne:
  "jsonPatch_validate example_runtime (JArr [replace_nope]) widget = Inr path_unresolvable
   \<and> js_truthy path_unresolvable
   \<and> \<not> js_gt_zero path_unresolvable
   \<and> EntityREST_patchOne example_runtime (request_of (JStr ''42'') [] (JArr [replace_nope]))
         no_spec store
       = ([FindById (JStr ''42''),
           ResetReadOnly
             (JObj [(''id'', JStr ''42''), (''name'', JStr ''a''), (''locked'', JBool True),
                    (''nope'', JNum 1)])
             (JObj [(''id'', JStr ''42''), (''name'', JStr ''a''), (''locked'', JBool True),
                    (''nope'', JNum 1)]),
           AssertValid
             (JObj [(''id'', JStr ''42''), (''name'', JStr ''a''), (''locked'', JBool True),
                    (''nope'', JNum 1)])
             invalid_props,
           UpdateOne
             (JObj [(''id'', JStr ''42''), (''name'', JStr ''a''), (''locked'', JBool True),
                    (''nope'', JNum 1)]),
           Respond 200
             (JObj [(''id'', JStr ''42''), (''name'', JStr ''a''), (''locked'', JBool True),
                    (''nope'', JNum 1)])],
          Inr JUndefined)"
  by code_simp

section \<open>patch-many with nothing found\<close>

lemma or_stubObject_events:
  "fst (or_stubObject ev h rq) = (case h of None \<Rightarrow> [] | Some f \<Rightarrow> [ev])"
  by (simp add: or_stubObject_def comp_simps split: option.splits)

lemma patchMany_find_run:
  assumes "filterConditions rt (query rq) = Inr conditions"
    and "case query' spec of None \<Rightarrow> extra = JObj [] | Some f \<Rightarrow> f rq = Inr extra"
    and "find' Entity (JObj (spread (spread [] conditions) extra)) JUndefined = Inr found"
  shows "patchMany_find rt rq spec Entity =
     ((case query' spec of None \<Rightarrow> [] | Some f \<Rightarrow> [SpecQuery])
        @ [Find (JObj (spread (spread [] conditions) extra)) JUndefined],
      Inr found)"
proof -
  from assms(2) have q: "snd (or_stubObject SpecQuery (query' spec) rq) = Inr extra"
    by (simp add: or_stubObject_result)
  show ?thesis
    by (rule prod_eqI)
       (simp_all add: patchMany_find_def fst_and_then snd_and_then comp_simps assms(1,3) q
          or_stubObject_events)
qed

lemma no_filter: "filterConditions example_runtime (query rename_request) = Inr (JObj [])"
  by code_simp

text \<open>
  The claim as stated fails for a filter that matches nothing in a store whose
  \<^verbatim>\<open>find\<close> returns the empty array: the response has a body, the empty array.
\<close>

theorem patchMany_empty_array_counterexample:
  "EntityREST_patchMany example_runtime rename_request no_spec empty_store =
     \<lparr>before = [Find (JObj []) JUndefined], records = [],
      after = [Respond 200 (JArr [])], thrown = None\<rparr>"
  by code_simp

text \<open>
  C2 (as amended). Let \<^verbatim>\<open>find\<close> return \<open>found\<close> for the filter of a patch-many
  request. If \<open>found\<close> is falsy (\<^verbatim>\<open>null\<close>, \<^verbatim>\<open>undefined\<close>), the operation
  calls \<^verbatim>\<open>respond(200)\<close> with no body and ends. If \<open>found\<close> is the empty array,
  which is truthy, the operation goes on: it calls \<^verbatim>\<open>set()\<close> when present and,
  when that returns, responds 200 with the empty array as body. In both cases no
  record pipeline runs and \<^verbatim>\<open>updateOne\<close> is never called.
\<close>

theorem patchMany_nothing_found:
  "filterConditions rt (query rq) = Inr conditions
   \<and> (case query' spec of None \<Rightarrow> extra = JObj [] | Some f \<Rightarrow> f rq = Inr extra)
   \<and> find' Entity (JObj (spread (spread [] conditions) extra)) JUndefined = Inr found \<longrightarrow>
     (\<not> js_truthy found \<longrightarrow>
        EntityREST_patchMany rt rq spec Entity =
          \<lparr>before = (case query' spec of None \<Rightarrow> [] | Some f \<Rightarrow> [SpecQuery])
                      @ [Find (JObj (spread (spread [] conditions) extra)) JUndefined,
                         Respond 200 JUndefined],
           records = [], after = [], thrown = None\<rparr>)
     \<and> (found = JArr [] \<and> (case set' spec of None \<Rightarrow> s = JObj [] | Some f \<Rightarrow> f rq = Inr s) \<longrightarrow>
        EntityREST_patchMany rt rq spec Entity =
          \<lparr>before = (case query' spec of None \<Rightarrow> [] | Some f \<Rightarrow> [SpecQuery])
                      @ [Find (JObj (spread (spread [] conditions) extra)) JUndefined]
                      @ (case set' spec of None \<Rightarrow> [] | Some f \<Rightarrow> [SpecSet]),
           records = [], after = [Respond 200 (JArr [])], thrown = None\<rparr>)
     \<and> (\<not> js_truthy found \<or> found = JArr [] \<longrightarrow>
        records (EntityREST_patchMany rt rq spec Entity) = []
        \<and> (\<forall>x. UpdateOne x \<notin> set (batch_calls (EntityREST_patchMany rt rq spec Entity))))"
proof (intro impI conjI)
  assume h: "filterConditions rt (query rq) = Inr conditions
   \<and> (case query' spec of None \<Rightarrow> extra = JObj [] | Some f \<Rightarrow> f rq = Inr extra)
   \<and> find' Entity (JObj (spread (spread [] conditions) extra)) JUndefined = Inr found"
  then have f: "patchMany_find rt rq spec Entity =
     ((case query' spec of None \<Rightarrow> [] | Some f \<Rightarrow> [SpecQuery])
        @ [Find (JObj (spread (spread [] conditions) extra)) JUndefined],
      Inr found)"
    using patchMany_find_run by blast
  {
    assume "\<not> js_truthy found"
    then show "EntityREST_patchMany rt rq spec Entity =
          \<lparr>before = (case query' spec of None \<Rightarrow> [] | Some f \<Rightarrow> [SpecQuery])
                      @ [Find (JObj (spread (spread [] conditions) extra)) JUndefined,
                         Respond 200 JUndefined],
           records = [], after = [], thrown = None\<rparr>"
      by (simp add: EntityREST_patchMany_def f)
  }
  {
    assume "found = JArr [] \<and> (case set' spec of None \<Rightarrow> s = JObj [] | Some f \<Rightarrow> f rq = Inr s)"
    then have e: "found = JArr []" and s: "snd (or_stubObject SpecSet (set' spec) rq) = Inr s"
      by (simp_all add: or_stubObject_result)
    have fin: "patchMany_finish Entity [] = ([Respond 200 (JArr [])], Inr JUndefined)"
      by (simp add: patchMany_finish_def and_then_def comp_simps split: option.splits)
    show "EntityREST_patchMany rt rq spec Entity =
          \<lparr>before = (case query' spec of None \<Rightarrow> [] | Some f \<Rightarrow> [SpecQuery])
                      @ [Find (JObj (spread (spread [] conditions) extra)) JUndefined]
                      @ (case set' spec of None \<Rightarrow> [] | Some f \<Rightarrow> [SpecSet]),
           records = [], after = [Respond 200 (JArr [])], thrown = None\<rparr>"
      by (simp add: EntityREST_patchMany_def f e s fin failure_def or_stubObject_events)
  }
  {
    assume c: "\<not> js_truthy found \<or> found = JArr []"
    then show "records (EntityREST_patchMany rt rq spec Entity) = []"
      by (auto simp: EntityREST_patchMany_def f split: sum.splits)
    from c show "\<forall>x. UpdateOne x \<notin> set (batch_calls (EntityREST_patchMany rt rq spec Entity))"
      by (auto simp: EntityREST_patchMany_def f batch_calls_def patchMany_finish_def fst_and_then
          comp_simps or_stubObject_events split: sum.splits option.splits)
  }
qed

theorem patchMany_nothing_found_witness:
  "\<not> js_truthy JNull
   \<and> EntityREST_patchMany example_runtime rename_request no_spec null_store =
       \<lparr>before = [Find (JObj []) JUndefined, Respond 200 JUndefined],
        records = [], after = [], thrown = None\<rparr>
   \<and> EntityREST_patchMany example_runtime rename_request no_spec empty_store =
       \<lparr>before = [Find (JObj []) JUndefined],
        records = [], after = [Respond 200 (JArr [])], thrown = None\<rparr>
   \<and> (\<forall>x. UpdateOne x
          \<notin> set (batch_calls (EntityREST_patchMany example_runtime rename_request no_spec empty_store)))"
proof -
  have q: "query' no_spec = None" "set' no_spec = None"
    by (simp_all add: no_spec_def)
  have sp: "spread (spread [] (JObj [])) (JObj []) = []"
    by (simp add: spread_def)
  have n: "find' null_store (JObj []) JUndefined = Inr JNull"
    by (simp add: null_store_def)
  have e: "find' empty_store (JObj []) JUndefined = Inr (JArr [])"
    by (simp add: empty_store_def)
  from patchMany_nothing_found
         [where rt = example_runtime and rq = rename_request and spec = no_spec
            and Entity = null_store and conditions = "JObj []" and extra = "JObj []"
            and found = JNull and s = "JObj []"]
       patchMany_nothing_found
         [where rt = example_runtime and rq = rename_request and spec = no_spec
            and Entity = empty_store and conditions = "JObj []" and extra = "JObj []"
            and found = "JArr []" and s = "JObj []"]
  show ?thesis
    by (simp add: no_filter q n e sp batch_calls_def)
qed

section \<open>get-many: limit and sort\<close>

lemma export_each_events:
  "ev \<in> set (fst (export_each g xs)) \<Longrightarrow> \<exists>x. ev = ExportOne x"
  by (induction xs) auto

lemma export_all_events:
  "ev \<in> set (fst (export_all Entity v)) \<Longrightarrow> (\<exists>x. ev = ExportOne x) \<or> (\<exists>x. ev = ExportMany x)"
  by (auto simp: export_all_def comp_simps mem_and_then
      split: option.splits jsval.splits dest: export_each_events)

lemma getMany_find:
  assumes "Find f opts \<in> set (fst (EntityREST_getMany rt rq spec Entity))"
  shows "\<exists>sort. getMany_sort (query rq) = Inr sort
     \<and> opts = JObj [(''limit'', getMany_limit (query rq)),
                     (''skip'', getMany_skip (query rq)),
                     (''sort'', sort)]"
  using assms
  by (auto simp: EntityREST_getMany_def mem_and_then comp_simps mem_hooks dest: export_all_events)

lemma opts_get:
  "obj_get [(''limit'', l), (''skip'', k), (''sort'', s)] ''limit'' = l"
  "obj_get [(''limit'', l), (''skip'', k), (''sort'', s)] ''sort'' = s"
  by (simp_all add: obj_get_def)

lemma getMany_limit_cases:
  "getMany_limit q =
     (if js_truthy (obj_get q ''limit'')
      then Math_min (parseInt (obj_get q ''limit'')) (JNum 500)
      else JNum 25)"
proof -
  have "parseInt (JNum 25) = JNum 25" by code_simp
  then show ?thesis
    by (simp add: getMany_limit_def js_or_def)
qed

lemma parseInt_9999: "parseInt (JStr ''9999'') = JNum 9999"
  by code_simp

lemma sort_match_descending:
  "list_all (\<lambda>c. \<not> line_terminator c) fld \<Longrightarrow> sort_match (CHR ''-'' # fld) = Some (''-'', fld)"
  by (simp add: sort_match_def line_terminator_def)

lemma sort_match_ascending:
  "list_all (\<lambda>c. \<not> line_terminator c) fld \<Longrightarrow> fld \<noteq> [] \<Longrightarrow> hd fld \<noteq> CHR ''-'' \<Longrightarrow>
     sort_match fld = Some ([], fld)"
  by (cases fld) (simp_all add: sort_match_def)

lemma getMany_sort_line_feed:
  "getMany_sort [(''sort'', JStr [CHR ''a'', CHR 0x0A, CHR ''b''])] = Inr (JObj [(''_id'', JNum 1)])"
  by code_simp

lemma getMany_unsorted_run:
  "EntityREST_getMany example_runtime (request_of JUndefined [] JUndefined) no_spec store =
     ([Find (JObj [])
         (JObj [(''limit'', JNum 25), (''skip'', JNum 0), (''sort'', JObj [(''_id'', JNum 1)])]),
       Respond 200 (JArr [widget])],
      Inr JUndefined)"
  by code_simp

lemma getMany_descending_run:
  "EntityREST_getMany example_runtime
     (request_of JUndefined [(''limit'', JStr ''9999''), (''sort'', JStr ''-age'')] JUndefined)
     no_spec store =
     ([Find (JObj [])
         (JObj [(''limit'', JNum 500), (''skip'', JNum 0), (''sort'', JObj [(''age'', JNum (- 1))])]),
       Respond 200 (JArr [widget])],
      Inr JUndefined)"
  by code_simp

lemma getMany_ascending_run:
  "EntityREST_getMany example_runtime
     (request_of JUndefined [(''sort'', JStr ''age''), (''offset'', JStr ''10'')] JUndefined)
     no_spec store =
     ([Find (JObj [])
         (JObj [(''limit'', JNum 25), (''skip'', JNum 10), (''sort'', JObj [(''age'', JNum 1)])]),
       Respond 200 (JArr [widget])],
      Inr JUndefined)"
  by code_simp

text \<open>
  The claim as stated fails for \<^verbatim>\<open>?limit=\<close>: the key is present with the empty
  string as value, \<^verbatim>\<open>parseInt('')\<close> is NaN and so is its minimum with 500, but the
  empty string is falsy and the limit passed to \<^verbatim>\<open>find\<close> is 25.
\<close>

theorem getMany_empty_limit_counterexample:
  "obj_get (query (request_of JUndefined [(''limit'', JStr [])] JUndefined)) ''limit'' = JStr []
   \<and> Math_min (parseInt (JStr [])) (JNum 500) = JNaN
   \<and> fst (EntityREST_getMany example_runtime
            (request_of JUndefined [(''limit'', JStr [])] JUndefined) no_spec store) =
       [Find (JObj [])
          (JObj [(''limit'', JNum 25), (''skip'', JNum 0), (''sort'', JObj [(''_id'', JNum 1)])]),
        Respond 200 (JArr [widget])]"
  by code_simp

text \<open>
  C7 (as amended). Whenever get-many calls \<^verbatim>\<open>find\<close>, the limit it passes is
  \<^verbatim>\<open>min(parseInt(query.limit), 500)\<close> when \<^verbatim>\<open>query.limit\<close> is truthy (NaN when
  \<^verbatim>\<open>parseInt\<close> yields NaN), and 25 when it is absent, empty or otherwise falsy. In
  particular \<^verbatim>\<open>limit=9999\<close> gives 500 and no limit gives 25.
\<close>

theorem getMany_limit_passed_to_find:
  "Find f opts \<in> set (fst (EntityREST_getMany rt rq spec Entity)) \<longrightarrow>
     (\<exists>kvs. opts = JObj kvs
        \<and> (\<forall>n. js_truthy (obj_get (query rq) ''limit'')
                 \<and> parseInt (obj_get (query rq) ''limit'') = JNum n \<longrightarrow>
               obj_get kvs ''limit'' = JNum (min n 500))
        \<and> (js_truthy (obj_get (query rq) ''limit'')
              \<and> parseInt (obj_get (query rq) ''limit'') = JNaN \<longrightarrow>
            obj_get kvs ''limit'' = JNaN)
        \<and> (\<not> js_truthy (obj_get (query rq) ''limit'') \<longrightarrow> obj_get kvs ''limit'' = JNum 25)
        \<and> (obj_get (query rq) ''limit'' = JStr ''9999'' \<longrightarrow> obj_get kvs ''limit'' = JNum 500)
        \<and> (obj_get (query rq) ''limit'' = JUndefined \<longrightarrow> obj_get kvs ''limit'' = JNum 25))"
proof
  assume "Find f opts \<in> set (fst (EntityREST_getMany rt rq spec Entity))"
  from getMany_find [OF this] obtain sort where
    o: "opts = JObj [(''limit'', getMany_limit (query rq)),
                     (''skip'', getMany_skip (query rq)),
                     (''sort'', sort)]"
    by blast
  show "\<exists>kvs. opts = JObj kvs
        \<and> (\<forall>n. js_truthy (obj_get (query rq) ''limit'')
                 \<and> parseInt (obj_get (query rq) ''limit'') = JNum n \<longrightarrow>
               obj_get kvs ''limit'' = JNum (min n 500))
        \<and> (js_truthy (obj_get (query rq) ''limit'')
              \<and> parseInt (obj_get (query rq) ''limit'') = JNaN \<longrightarrow>
            obj_get kvs ''limit'' = JNaN)
        \<and> (\<not> js_truthy (obj_get (query rq) ''limit'') \<longrightarrow> obj_get kvs ''limit'' = JNum 25)
        \<and> (obj_get (query rq) ''limit'' = JStr ''9999'' \<longrightarrow> obj_get kvs ''limit'' = JNum 500)
        \<and> (obj_get (query rq) ''limit'' = JUndefined \<longrightarrow> obj_get kvs ''limit'' = JNum 25)"
    unfolding o
    by (rule exI [of _ "[(''limit'', getMany_limit (query rq)), (''skip'', getMany_skip (query rq)),
                    (''sort'', sort)]"])
       (auto simp: opts_get getMany_limit_cases parseInt_9999)
qed

theorem getMany_limit_passed_to_find_witness:
  "Find (JObj [])
     (JObj [(''limit'', JNum 500), (''skip'', JNum 0), (''sort'', JObj [(''age'', JNum (- 1))])])
     \<in> set (fst (EntityREST_getMany example_runtime
                   (request_of JUndefined [(''limit'', JStr ''9999''), (''sort'', JStr ''-age'')]
                      JUndefined)
                   no_spec store))
   \<and> (\<exists>kvs. JObj [(''limit'', JNum 500), (''skip'', JNum 0),
                  (''sort'', JObj [(''age'', JNum (- 1))])] = JObj kvs
          \<and> obj_get kvs ''limit'' = JNum 500)
   \<and> Find (JObj [])
       (JObj [(''limit'', JNum 25), (''skip'', JNum 0), (''sort'', JObj [(''_id'', JNum 1)])])
       \<in> set (fst (EntityREST_getMany example_runtime (request_of JUndefined [] JUndefined)
                     no_spec store))
   \<and> (\<exists>kvs. JObj [(''limit'', JNum 25), (''skip'', JNum 0),
                  (''sort'', JObj [(''_id'', JNum 1)])] = JObj kvs
          \<and> obj_get kvs ''limit'' = JNum 25)"
proof -
  have a: "Find (JObj [])
     (JObj [(''limit'', JNum 500), (''skip'', JNum 0), (''sort'', JObj [(''age'', JNum (- 1))])])
     \<in> set (fst (EntityREST_getMany example_runtime
                   (request_of JUndefined [(''limit'', JStr ''9999''), (''sort'', JStr ''-age'')]
                      JUndefined)
                   no_spec store))"
    by (simp add: getMany_descending_run)
  have b: "Find (JObj [])
       (JObj [(''limit'', JNum 25), (''skip'', JNum 0), (''sort'', JObj [(''_id'', JNum 1)])])
       \<in> set (fst (EntityREST_getMany example_runtime (request_of JUndefined [] JUndefined)
                     no_spec store))"
    by (simp add: getMany_unsorted_run)
  have q: "obj_get (query (request_of JUndefined
              [(''limit'', JStr ''9999''), (''sort'', JStr ''-age'')] JUndefined)) ''limit''
            = JStr ''9999''"
    "obj_get (query (request_of JUndefined [] JUndefined)) ''limit'' = JUndefined"
    by (simp_all add: request_of_def obj_get_def)
  from getMany_limit_passed_to_find [THEN mp, OF a] q(1)
  have 1: "\<exists>kvs. JObj [(''limit'', JNum 500), (''skip'', JNum 0),
                  (''sort'', JObj [(''age'', JNum (- 1))])] = JObj kvs
          \<and> obj_get kvs ''limit'' = JNum 500"
    by auto
  from getMany_limit_passed_to_find [THEN mp, OF b] q(2)
  have 2: "\<exists>kvs. JObj [(''limit'', JNum 25), (''skip'', JNum 0),
                  (''sort'', JObj [(''_id'', JNum 1)])] = JObj kvs
          \<and> obj_get kvs ''limit'' = JNum 25"
    by auto
  from a b 1 2 show ?thesis by blast
qed

text \<open>
  The claim as stated fails for a request with no \<^verbatim>\<open>sort\<close>: the sort passed to
  \<^verbatim>\<open>find\<close> is ascending on the field \<^verbatim>\<open>_id\<close>, not on \<^verbatim>\<open>id\<close>.
\<close>

theorem getMany_default_sort_counterexample:
  "obj_get (query (request_of JUndefined [] JUndefined)) ''sort'' = JUndefined
   \<and> fst (EntityREST_getMany example_runtime (request_of JUndefined [] JUndefined) no_spec store) =
       [Find (JObj [])
          (JObj [(''limit'', JNum 25), (''skip'', JNum 0), (''sort'', JObj [(''_id'', JNum 1)])]),
        Respond 200 (JArr [widget])]
   \<and> JObj [(''_id'', JNum 1)] \<noteq> JObj [(''id'', JNum 1)]"
  by code_simp

text \<open>
  C3 (as amended). Whenever get-many calls \<^verbatim>\<open>find\<close>: if \<^verbatim>\<open>query.sort\<close> is a
  string \<^verbatim>\<open>-f\<close> the sort passed is descending on \<open>f\<close>; if it is a non-empty
  string \<open>f\<close> that does not start with \<^verbatim>\<open>-\<close> the sort is ascending on \<open>f\<close>;
  in both cases \<open>f\<close> holds no line terminator (the pattern does not match a string
  that holds one). If \<^verbatim>\<open>query.sort\<close> is absent the sort is ascending on the field
  named \<^verbatim>\<open>_id\<close>.
\<close>

theorem getMany_sort_passed_to_find:
  "Find f opts \<in> set (fst (EntityREST_getMany rt rq spec Entity)) \<longrightarrow>
     (\<exists>kvs. opts = JObj kvs
        \<and> (\<forall>fld. obj_get (query rq) ''sort'' = JStr (CHR ''-'' # fld)
                   \<and> list_all (\<lambda>c. \<not> line_terminator c) fld \<longrightarrow>
                 obj_get kvs ''sort'' = JObj [(fld, JNum (- 1))])
        \<and> (\<forall>fld. obj_get (query rq) ''sort'' = JStr fld \<and> fld \<noteq> [] \<and> hd fld \<noteq> CHR ''-''
                   \<and> list_all (\<lambda>c. \<not> line_terminator c) fld \<longrightarrow>
                 obj_get kvs ''sort'' = JObj [(fld, JNum 1)])
        \<and> (obj_get (query rq) ''sort'' = JUndefined \<longrightarrow>
              obj_get kvs ''sort'' = JObj [(''_id'', JNum 1)]))"
proof
  assume "Find f opts \<in> set (fst (EntityREST_getMany rt rq spec Entity))"
  from getMany_find [OF this] obtain sort where
    s: "getMany_sort (query rq) = Inr sort"
    and o: "opts = JObj [(''limit'', getMany_limit (query rq)),
                     (''skip'', getMany_skip (query rq)),
                     (''sort'', sort)]"
    by blast
  show "\<exists>kvs. opts = JObj kvs
        \<and> (\<forall>fld. obj_get (query rq) ''sort'' = JStr (CHR ''-'' # fld)
                   \<and> list_all (\<lambda>c. \<not> line_terminator c) fld \<longrightarrow>
                 obj_get kvs ''sort'' = JObj [(fld, JNum (- 1))])
        \<and> (\<forall>fld. obj_get (query rq) ''sort'' = JStr fld \<and> fld \<noteq> [] \<and> hd fld \<noteq> CHR ''-''
                   \<and> list_all (\<lambda>c. \<not> line_terminator c) fld \<longrightarrow>
                 obj_get kvs ''sort'' = JObj [(fld, JNum 1)])
        \<and> (obj_get (query rq) ''sort'' = JUndefined \<longrightarrow>
              obj_get kvs ''sort'' = JObj [(''_id'', JNum 1)])"
    unfolding o
    using s
    by (intro exI [of _ "[(''limit'', getMany_limit (query rq)), (''skip'', getMany_skip (query rq)),
                    (''sort'', sort)]"])
       (auto simp: opts_get getMany_sort_def sort_match_descending sort_match_ascending)
qed

theorem getMany_sort_passed_to_find_witness:
  "Find (JObj [])
     (JObj [(''limit'', JNum 500), (''skip'', JNum 0), (''sort'', JObj [(''age'', JNum (- 1))])])
     \<in> set (fst (EntityREST_getMany example_runtime
                   (request_of JUndefined [(''limit'', JStr ''9999''), (''sort'', JStr ''-age'')]
                      JUndefined)
                   no_spec store))
   \<and> (\<exists>kvs. JObj [(''limit'', JNum 500), (''skip'', JNum 0),
                  (''sort'', JObj [(''age'', JNum (- 1))])] = JObj kvs
          \<and> obj_get kvs ''sort'' = JObj [(''age'', JNum (- 1))])
   \<and> Find (JObj [])
       (JObj [(''limit'', JNum 25), (''skip'', JNum 10), (''sort'', JObj [(''age'', JNum 1)])])
       \<in> set (fst (EntityREST_getMany example_runtime
                     (request_of JUndefined [(''sort'', JStr ''age''), (''offset'', JStr ''10'')]
                        JUndefined)
                     no_spec store))
   \<and> (\<exists>kvs. JObj [(''limit'', JNum 25), (''skip'', JNum 10),
                  (''sort'', JObj [(''age'', JNum 1)])] = JObj kvs
          \<and> obj_get kvs ''sort'' = JObj [(''age'', JNum 1)])
   \<and> Find (JObj [])
       (JObj [(''limit'', JNum 25), (''skip'', JNum 0), (''sort'', JObj [(''_id'', JNum 1)])])
       \<in> set (fst (EntityREST_getMany example_runtime (request_of JUndefined [] JUndefined)
                     no_spec store))
   \<and> (\<exists>kvs. JObj [(''limit'', JNum 25), (''skip'', JNum 0),
                  (''sort'', JObj [(''_id'', JNum 1)])] = JObj kvs
          \<and> obj_get kvs ''sort'' = JObj [(''_id'', JNum 1)])"
proof -
  have a: "Find (JObj [])
     (JObj [(''limit'', JNum 500), (''skip'', JNum 0), (''sort'', JObj [(''age'', JNum (- 1))])])
     \<in> set (fst (EntityREST_getMany example_runtime
                   (request_of JUndefined [(''limit'', JStr ''9999''), (''sort'', JStr ''-age'')]
                      JUndefined)
                   no_spec store))"
    by (simp add: getMany_descending_run)
  have b: "Find (JObj [])
       (JObj [(''limit'', JNum 25), (''skip'', JNum 10), (''sort'', JObj [(''age'', JNum 1)])])
       \<in> set (fst (EntityREST_getMany example_runtime
                     (request_of JUndefined [(''sort'', JStr ''age''), (''offset'', JStr ''10'')]
                        JUndefined)
                     no_spec store))"
    by (simp add: getMany_ascending_run)
  have c: "Find (JObj [])
       (JObj [(''limit'', JNum 25), (''skip'', JNum 0), (''sort'', JObj [(''_id'', JNum 1)])])
       \<in> set (fst (EntityREST_getMany example_runtime (request_of JUndefined [] JUndefined)
                     no_spec store))"
    by (simp add: getMany_unsorted_run)
  have q: "obj_get (query (request_of JUndefined
              [(''limit'', JStr ''9999''), (''sort'', JStr ''-age'')] JUndefined)) ''sort''
            = JStr (CHR ''-'' # ''age'')"
    "obj_get (query (request_of JUndefined
              [(''sort'', JStr ''age''), (''offset'', JStr ''10'')] JUndefined)) ''sort''
            = JStr ''age''"
    "obj_get (query (request_of JUndefined [] JUndefined)) ''sort'' = JUndefined"
    by (simp_all add: request_of_def obj_get_def)
  have t: "list_all (\<lambda>c. \<not> line_terminator c) ''age''" "''age'' \<noteq> []" "hd ''age'' \<noteq> CHR ''-''"
    by (simp_all add: line_terminator_def)
  from getMany_sort_passed_to_find [THEN mp, OF a] q(1) t
  have 1: "\<exists>kvs. JObj [(''limit'', JNum 500), (''skip'', JNum 0),
                  (''sort'', JObj [(''age'', JNum (- 1))])] = JObj kvs
          \<and> obj_get kvs ''sort'' = JObj [(''age'', JNum (- 1))]"
    by blast
  from getMany_sort_passed_to_find [THEN mp, OF b] q(2) t
  have 2: "\<exists>kvs. JObj [(''limit'', JNum 25), (''skip'', JNum 10),
                  (''sort'', JObj [(''age'', JNum 1)])] = JObj kvs
          \<and> obj_get kvs ''sort'' = JObj [(''age'', JNum 1)]"
    by blast
  from getMany_sort_passed_to_find [THEN mp, OF c] q(3)
  have 3: "\<exists>kvs. JObj [(''limit'', JNum 25), (''skip'', JNum 0),
                  (''sort'', JObj [(''_id'', JNum 1)])] = JObj kvs
          \<and> obj_get kvs ''sort'' = JObj [(''_id'', JNum 1)]"
    by blast
  from a b c 1 2 3 show ?thesis by blast
qed

section \<open>The filter translator: what it returns\<close>

lemma not_flag_slash: "\<not> is_flag CHR ''/''"
  by (simp add: is_flag_def)

lemma regexpSyntax_match:
  assumes "list_all (\<lambda>c. \<not> line_terminator c) p" and "list_all is_flag fl"
  shows "regexpSyntax (CHR ''/'' # p @ CHR ''/'' # fl)
           = Some (p, if fl = [] then None else Some (last fl))"
proof -
  have fl: "\<And>x. x \<in> set (rev fl) \<Longrightarrow> is_flag x"
    using assms(2) by (simp add: list_all_iff)
  have "dropWhile is_flag (rev fl @ CHR ''/'' # rev p) = dropWhile is_flag (CHR ''/'' # rev p)"
    by (rule dropWhile_append2) (rule fl)
  then have d: "dropWhile is_flag (rev fl @ CHR ''/'' # rev p) = CHR ''/'' # rev p"
    by (simp add: not_flag_slash)
  have "takeWhile is_flag (rev fl @ CHR ''/'' # rev p)
      = rev fl @ takeWhile is_flag (CHR ''/'' # rev p)"
    by (rule takeWhile_append2) (rule fl)
  then have t: "takeWhile is_flag (rev fl @ CHR ''/'' # rev p) = rev fl"
    by (simp add: not_flag_slash)
  have l: "(case rev fl of [] \<Rightarrow> None | f # fs \<Rightarrow> Some f) = (if fl = [] then None else Some (last fl))"
    by (cases fl rule: rev_cases) simp_all
  from assms(1) have "list_all (\<lambda>c. \<not> line_terminator c) (rev p)"
    by (simp add: list_all_iff)
  then show ?thesis
    by (simp add: regexpSyntax_def d t l)
qed

lemma regexpSyntax_Some:
  assumes "regexpSyntax s = Some (p, f)"
  shows "\<exists>fl. s = CHR ''/'' # p @ CHR ''/'' # fl
           \<and> list_all (\<lambda>c. \<not> line_terminator c) p \<and> list_all is_flag fl"
proof -
  from assms obtain r where s: "s = CHR ''/'' # r"
    by (cases s) (auto simp: regexpSyntax_def split: if_splits)
  from assms s obtain p' where d: "dropWhile is_flag (rev r) = CHR ''/'' # p'"
    and p: "p = rev p'" and lt: "list_all (\<lambda>c. \<not> line_terminator c) p'"
    by (auto simp: regexpSyntax_def split: list.splits if_splits)
  have "rev r = takeWhile is_flag (rev r) @ dropWhile is_flag (rev r)"
    by simp
  then have "rev (rev r) = rev (takeWhile is_flag (rev r) @ CHR ''/'' # p')"
    using d by simp
  then have r: "r = p @ CHR ''/'' # rev (takeWhile is_flag (rev r))"
    using p by simp
  have "list_all is_flag (rev (takeWhile is_flag (rev r)))"
    by (simp add: list_all_iff) (meson set_takeWhileD)
  moreover from lt p have "list_all (\<lambda>c. \<not> line_terminator c) p"
    by (simp add: list_all_iff)
  ultimately show ?thesis
    using s r by blast
qed

lemma condition_step_Inl: "condition_step rt q prop (Inl e) = Inl e"
  by (simp add: condition_step_def)

lemma fold_condition_step_Inl: "fold (condition_step rt q) ks (Inl e) = Inl e"
  by (induction ks) (simp_all add: condition_step_Inl)

lemma condition_step_Inr:
  "condition_step rt q prop (Inr conditions) =
     (if \<not> reserved prop \<and> obj_get q prop \<noteq> JUndefined
      then (case condition_of rt (obj_get q prop) of
              Inl e \<Rightarrow> Inl e
            | Inr v \<Rightarrow> Inr (obj_set prop v conditions))
      else Inr conditions)"
  by (simp add: condition_step_def condition_of_def split: jsval.splits option.splits sum.splits)

lemma fold_conditions:
  "fold (condition_step rt q) ks (Inr acc) = Inr c \<Longrightarrow>
     (\<forall>k. (k \<in> set ks \<and> \<not> reserved k \<and> obj_get q k \<noteq> JUndefined \<longrightarrow>
              condition_of rt (obj_get q k) = Inr (obj_get c k))
         \<and> (\<not> (k \<in> set ks \<and> \<not> reserved k \<and> obj_get q k \<noteq> JUndefined) \<longrightarrow>
              obj_get c k = obj_get acc k))
     \<and> fst ` set c = fst ` set acc \<union> {k \<in> set ks. \<not> reserved k \<and> obj_get q k \<noteq> JUndefined}"
proof (induction ks arbitrary: acc)
  case Nil
  then show ?case by simp
next
  case (Cons a ks)
  show ?case
  proof (cases "\<not> reserved a \<and> obj_get q a \<noteq> JUndefined")
    case False
    then have "condition_step rt q a (Inr acc) = Inr acc"
      by (auto simp: condition_step_Inr)
    with Cons.prems have "fold (condition_step rt q) ks (Inr acc) = Inr c" by simp
    from Cons.IH [OF this] False show ?thesis by auto
  next
    case True
    show ?thesis
    proof (cases "condition_of rt (obj_get q a)")
      case (Inl e)
      with True have "condition_step rt q a (Inr acc) = Inl e"
        by (simp add: condition_step_Inr)
      with Cons.prems show ?thesis
        by (simp add: fold_condition_step_Inl)
    next
      case (Inr v)
      with True have "condition_step rt q a (Inr acc) = Inr (obj_set a v acc)"
        by (simp add: condition_step_Inr)
      with Cons.prems have "fold (condition_step rt q) ks (Inr (obj_set a v acc)) = Inr c" by simp
      from Cons.IH [OF this] Cons.IH [OF this, THEN conjunct1, THEN spec, of a] True Inr
      show ?thesis
        by (auto simp: obj_get_obj_set keys_obj_set)
    qed
  qed
qed

lemma fold_conditions_succeeds:
  "(\<forall>k \<in> set ks. \<not> reserved k \<and> obj_get q k \<noteq> JUndefined \<longrightarrow>
       (\<exists>v. condition_of rt (obj_get q k) = Inr v)) \<Longrightarrow>
     \<exists>c. fold (condition_step rt q) ks (Inr acc) = Inr c"
proof (induction ks arbitrary: acc)
  case Nil
  then show ?case by simp
next
  case (Cons a ks)
  then show ?case
    by (cases "\<not> reserved a \<and> obj_get q a \<noteq> JUndefined") (auto simp: condition_step_Inr)
qed

lemma condition_of_regex:
  assumes "list_all (\<lambda>c. \<not> line_terminator c) p" and "list_all is_flag fl"
    and "condition_of rt (JStr (CHR ''/'' # p @ CHR ''/'' # fl)) = Inr v"
  shows "\<exists>f. v = JObj [(''$in'', JArr [JRegExp p f])] \<and> (length fl \<le> 1 \<longrightarrow> f = fl)"
proof -
  have one: "length fl \<le> 1 \<Longrightarrow> fl \<noteq> [] \<Longrightarrow> [last fl] = fl"
    by (cases fl) simp_all
  from assms(3) show ?thesis
    by (auto simp: condition_of_def regexpSyntax_match [OF assms(1,2)] new_RegExp_def one Let_def
        split: option.splits sum.splits if_splits)
qed

lemma condition_of_plain:
  assumes "s \<noteq> ''undefined''" "s \<noteq> ''true''" "s \<noteq> ''false''"
    and "\<forall>p fl. s = CHR ''/'' # p @ CHR ''/'' # fl \<longrightarrow>
           \<not> (list_all (\<lambda>c. \<not> line_terminator c) p \<and> list_all is_flag fl)"
  shows "condition_of rt (JStr s) = Inr (JStr s)"
proof -
  have "regexpSyntax s = None"
  proof (cases "regexpSyntax s")
    case None
    then show ?thesis .
  next
    case (Some pf)
    then obtain p f where "regexpSyntax s = Some (p, f)" by (cases pf) simp
    from regexpSyntax_Some [OF this] assms(4) show ?thesis by blast
  qed
  with assms(1-3) show ?thesis
    by (simp add: condition_of_def)
qed

lemma condition_of_string_succeeds:
  assumes "\<forall>p f. RegExp_error rt p f = None"
  shows "\<exists>v. condition_of rt (JStr s) = Inr v"
  using assms
  by (auto simp: condition_of_def new_RegExp_def split: option.splits)

lemma defined_is_key: "obj_get q k \<noteq> JUndefined \<Longrightarrow> k \<in> set (obj_keys q)"
  using obj_get_absent [of k q] by (auto simp: obj_keys_def)

lemma filterConditions_two_flags:
  "filterConditions example_runtime [(''name'', JStr ''/abc/gi'')]
     = Inr (JObj [(''name'', JObj [(''$in'', JArr [JRegExp ''abc'' ''i''])])])"
  by code_simp

lemma field_query_run:
  "filterConditions lenient_runtime field_query =
     Inr (JObj [(''gone'', JObj [(''$exists'', JBool False)]),
                (''active'', JBool True),
                (''name'', JObj [(''$in'', JArr [JRegExp ''^a'' ''i''])]),
                (''city'', JStr ''Oslo'')])"
  by code_simp

text \<open>
  The claim as stated fails for \<^verbatim>\<open>?q=&city=Oslo\<close>: the key \<^verbatim>\<open>q\<close> is present
  with the empty string as value, which is falsy, so the result is not the parse of
  \<^verbatim>\<open>query.q\<close> (a syntax error) but the translation of the other keys.
\<close>

theorem filterConditions_empty_q_counterexample:
  "obj_get [(''q'', JStr []), (''city'', JStr ''Oslo'')] ''q'' = JStr []
   \<and> JSON_parse example_runtime (JStr [])
       = Inl \<lparr>name = ''SyntaxError'', message = ''Unexpected token'',
               status = JUndefined, details = JUndefined\<rparr>
   \<and> filterConditions example_runtime [(''q'', JStr []), (''city'', JStr ''Oslo'')]
       = Inr (JObj [(''city'', JStr ''Oslo'')])"
  by code_simp

text \<open>
  C6 (as amended). If \<^verbatim>\<open>query.q\<close> is truthy, \<^verbatim>\<open>filterConditions\<close> returns the
  parse of \<^verbatim>\<open>query.q\<close> (or throws its error) and reads no other key. Otherwise a
  result it returns is an object whose keys are exactly the non-reserved keys (all
  but \<^verbatim>\<open>limit\<close>, \<^verbatim>\<open>offset\<close>, \<^verbatim>\<open>sort\<close>, \<^verbatim>\<open>q\<close>) whose value is defined,
  where the value \<^verbatim>\<open>'undefined'\<close> gives \<^verbatim>\<open>{$exists: false}\<close>, \<^verbatim>\<open>'true'\<close> and
  \<^verbatim>\<open>'false'\<close> give the boolean, a value \<^verbatim>\<open>/p/flags\<close> (no line terminator in
  \<open>p\<close>, flags among g, i, m, u, y) gives \<^verbatim>\<open>{$in: [r]}\<close> for one compiled pattern
  \<open>r\<close> of source \<open>p\<close>, carrying the flags when there is at most one of them, and
  any other string gives the string itself. It does return when every non-reserved
  value is a string or undefined and the engine accepts every pattern.
\<close>

theorem filterConditions_translation:
  "(js_truthy (obj_get q ''q'') \<longrightarrow> filterConditions rt q = JSON_parse rt (obj_get q ''q''))
   \<and> (\<not> js_truthy (obj_get q ''q'') \<and> filterConditions rt q = Inr c \<longrightarrow>
        (\<exists>kvs. c = JObj kvs
           \<and> (\<forall>k. (k \<in> fst ` set kvs) = (\<not> reserved k \<and> obj_get q k \<noteq> JUndefined))
           \<and> (\<forall>k. \<not> reserved k \<longrightarrow>
                 (obj_get q k = JStr ''undefined'' \<longrightarrow>
                    obj_get kvs k = JObj [(''$exists'', JBool False)])
               \<and> (obj_get q k = JStr ''true'' \<longrightarrow> obj_get kvs k = JBool True)
               \<and> (obj_get q k = JStr ''false'' \<longrightarrow> obj_get kvs k = JBool False)
               \<and> (\<forall>p fl. obj_get q k = JStr (CHR ''/'' # p @ CHR ''/'' # fl)
                          \<and> list_all (\<lambda>c. \<not> line_terminator c) p \<and> list_all is_flag fl \<longrightarrow>
                        (\<exists>f. obj_get kvs k = JObj [(''$in'', JArr [JRegExp p f])]
                           \<and> (length fl \<le> 1 \<longrightarrow> f = fl)))
               \<and> (\<forall>s. obj_get q k = JStr s
                        \<and> s \<noteq> ''undefined'' \<and> s \<noteq> ''true'' \<and> s \<noteq> ''false''
                        \<and> (\<forall>p fl. s = CHR ''/'' # p @ CHR ''/'' # fl \<longrightarrow>
                               \<not> (list_all (\<lambda>c. \<not> line_terminator c) p \<and> list_all is_flag fl)) \<longrightarrow>
                      obj_get kvs k = JStr s))))
   \<and> (\<not> js_truthy (obj_get q ''q'')
        \<and> (\<forall>k. \<not> reserved k \<longrightarrow> obj_get q k = JUndefined \<or> (\<exists>s. obj_get q k = JStr s))
        \<and> (\<forall>p f. RegExp_error rt p f = None) \<longrightarrow>
        (\<exists>c. filterConditions rt q = Inr c))"
  (is "?escape \<and> ?translated \<and> ?succeeds")
proof (intro conjI)
  show ?escape
    by (simp add: filterConditions_def)
  show ?translated
  proof
    assume "\<not> js_truthy (obj_get q ''q'') \<and> filterConditions rt q = Inr c"
    then obtain kvs where c: "c = JObj kvs"
      and f: "fold (condition_step rt q) (obj_keys q) (Inr []) = Inr kvs"
      by (auto simp: filterConditions_def split: sum.splits)
    note fc = fold_conditions [OF f]
    have v: "condition_of rt (obj_get q k) = Inr (obj_get kvs k)"
      if "\<not> reserved k" "obj_get q k \<noteq> JUndefined" for k
      using fc that defined_is_key by blast
    have keys: "(k \<in> fst ` set kvs) = (\<not> reserved k \<and> obj_get q k \<noteq> JUndefined)" for k
      using fc defined_is_key [of q k] by auto
    have 1: "obj_get kvs k = JObj [(''$exists'', JBool False)]"
      if "\<not> reserved k" "obj_get q k = JStr ''undefined''" for k
      using v [of k] that by (simp add: condition_of_def)
    have 2: "obj_get kvs k = JBool True" if "\<not> reserved k" "obj_get q k = JStr ''true''" for k
      using v [of k] that by (simp add: condition_of_def)
    have 3: "obj_get kvs k = JBool False" if "\<not> reserved k" "obj_get q k = JStr ''false''" for k
      using v [of k] that by (simp add: condition_of_def)
    have 4: "\<exists>f. obj_get kvs k = JObj [(''$in'', JArr [JRegExp p f])] \<and> (length fl \<le> 1 \<longrightarrow> f = fl)"
      if "\<not> reserved k" "obj_get q k = JStr (CHR ''/'' # p @ CHR ''/'' # fl)"
        "list_all (\<lambda>c. \<not> line_terminator c) p" "list_all is_flag fl" for k p fl
      using v [of k] that condition_of_regex [of p fl rt "obj_get kvs k"] by simp
    have 5: "obj_get kvs k = JStr s"
      if "\<not> reserved k" "obj_get q k = JStr s" "s \<noteq> ''undefined''" "s \<noteq> ''true''" "s \<noteq> ''false''"
        "\<forall>p fl. s = CHR ''/'' # p @ CHR ''/'' # fl \<longrightarrow>
               \<not> (list_all (\<lambda>c. \<not> line_terminator c) p \<and> list_all is_flag fl)" for k s
      using v [of k] that condition_of_plain [of s rt] by simp
    show "\<exists>kvs. c = JObj kvs
           \<and> (\<forall>k. (k \<in> fst ` set kvs) = (\<not> reserved k \<and> obj_get q k \<noteq> JUndefined))
           \<and> (\<forall>k. \<not> reserved k \<longrightarrow>
                 (obj_get q k = JStr ''undefined'' \<longrightarrow>
                    obj_get kvs k = JObj [(''$exists'', JBool False)])
               \<and> (obj_get q k = JStr ''true'' \<longrightarrow> obj_get kvs k = JBool True)
               \<and> (obj_get q k = JStr ''false'' \<longrightarrow> obj_get kvs k = JBool False)
               \<and> (\<forall>p fl. obj_get q k = JStr (CHR ''/'' # p @ CHR ''/'' # fl)
                          \<and> list_all (\<lambda>c. \<not> line_terminator c) p \<and> list_all is_flag fl \<longrightarrow>
                        (\<exists>f. obj_get kvs k = JObj [(''$in'', JArr [JRegExp p f])]
                           \<and> (length fl \<le> 1 \<longrightarrow> f = fl)))
               \<and> (\<forall>s. obj_get q k = JStr s
                        \<and> s \<noteq> ''undefined'' \<and> s \<noteq> ''true'' \<and> s \<noteq> ''false''
                        \<and> (\<forall>p fl. s = CHR ''/'' # p @ CHR ''/'' # fl \<longrightarrow>
                               \<not> (list_all (\<lambda>c. \<not> line_terminator c) p \<and> list_all is_flag fl)) \<longrightarrow>
                      obj_get kvs k = JStr s))"
    proof (intro exI [of _ kvs] conjI allI impI)
      show "c = JObj kvs" by (rule c)
    next
      fix k
      show "(k \<in> fst ` set kvs) = (\<not> reserved k \<and> obj_get q k \<noteq> JUndefined)" by (rule keys)
    next
      fix k
      assume "\<not> reserved k" "obj_get q k = JStr ''undefined''"
      then show "obj_get kvs k = JObj [(''$exists'', JBool False)]" by (rule 1)
    next
      fix k
      assume "\<not> reserved k" "obj_get q k = JStr ''true''"
      then show "obj_get kvs k = JBool True" by (rule 2)
    next
      fix k
      assume "\<not> reserved k" "obj_get q k = JStr ''false''"
      then show "obj_get kvs k = JBool False" by (rule 3)
    next
      fix k p fl
      assume "\<not> reserved k"
        "obj_get q k = JStr (CHR ''/'' # p @ CHR ''/'' # fl)
           \<and> list_all (\<lambda>c. \<not> line_terminator c) p \<and> list_all is_flag fl"
      then show "\<exists>f. obj_get kvs k = JObj [(''$in'', JArr [JRegExp p f])]
                           \<and> (length fl \<le> 1 \<longrightarrow> f = fl)"
        using 4 [of k p fl] by simp
    next
      fix k s
      assume "\<not> reserved k"
        "obj_get q k = JStr s
           \<and> s \<noteq> ''undefined'' \<and> s \<noteq> ''true'' \<and> s \<noteq> ''false''
           \<and> (\<forall>p fl. s = CHR ''/'' # p @ CHR ''/'' # fl \<longrightarrow>
                  \<not> (list_all (\<lambda>c. \<not> line_terminator c) p \<and> list_all is_flag fl))"
      then show "obj_get kvs k = JStr s"
        using 5 [of k s] by simp
    qed
  qed
  show ?succeeds
  proof
    assume h: "\<not> js_truthy (obj_get q ''q'')
        \<and> (\<forall>k. \<not> reserved k \<longrightarrow> obj_get q k = JUndefined \<or> (\<exists>s. obj_get q k = JStr s))
        \<and> (\<forall>p f. RegExp_error rt p f = None)"
    have "\<exists>v. condition_of rt (obj_get q k) = Inr v"
      if "\<not> reserved k" "obj_get q k \<noteq> JUndefined" for k
    proof -
      from h that obtain s where "obj_get q k = JStr s" by blast
      with h condition_of_string_succeeds [of rt s] show ?thesis by simp
    qed
    then have "\<forall>k \<in> set (obj_keys q). \<not> reserved k \<and> obj_get q k \<noteq> JUndefined \<longrightarrow>
       (\<exists>v. condition_of rt (obj_get q k) = Inr v)"
      by blast
    from fold_conditions_succeeds [OF this, of "[]"] h show "\<exists>c. filterConditions rt q = Inr c"
      by (auto simp: filterConditions_def)
  qed
qed

theorem filterConditions_translation_witness:
  "filterConditions lenient_runtime escape_query = JSON_parse lenient_runtime (JStr ''{}'')
   \<and> (\<exists>c. filterConditions lenient_runtime field_query = Inr c)
   \<and> (\<exists>kvs. JObj [(''gone'', JObj [(''$exists'', JBool False)]),
                  (''active'', JBool True),
                  (''name'', JObj [(''$in'', JArr [JRegExp ''^a'' ''i''])]),
                  (''city'', JStr ''Oslo'')] = JObj kvs
          \<and> ''limit'' \<notin> fst ` set kvs
          \<and> ''skipped'' \<notin> fst ` set kvs
          \<and> obj_get kvs ''gone'' = JObj [(''$exists'', JBool False)]
          \<and> obj_get kvs ''active'' = JBool True
          \<and> obj_get kvs ''name'' = JObj [(''$in'', JArr [JRegExp ''^a'' ''i''])]
          \<and> obj_get kvs ''city'' = JStr ''Oslo'')"
proof -
  note t = filterConditions_translation
    [where rt = lenient_runtime and q = escape_query]
  have e: "obj_get escape_query ''q'' = JStr ''{}''"
    by (simp add: escape_query_def obj_get_def)
  have a: "filterConditions lenient_runtime escape_query = JSON_parse lenient_runtime (JStr ''{}'')"
    using t e by simp
  note u = filterConditions_translation
    [where rt = lenient_runtime and q = field_query
       and c = "JObj [(''gone'', JObj [(''$exists'', JBool False)]),
                  (''active'', JBool True),
                  (''name'', JObj [(''$in'', JArr [JRegExp ''^a'' ''i''])]),
                  (''city'', JStr ''Oslo'')]"]
  have g: "obj_get field_query ''q'' = JUndefined"
    "obj_get field_query ''limit'' = JStr ''5''"
    "obj_get field_query ''skipped'' = JUndefined"
    "obj_get field_query ''gone'' = JStr ''undefined''"
    "obj_get field_query ''active'' = JStr ''true''"
    "obj_get field_query ''name'' = JStr (CHR ''/'' # ''^a'' @ CHR ''/'' # ''i'')"
    "obj_get field_query ''city'' = JStr ''Oslo''"
    by (simp_all add: field_query_def obj_get_def)
  have strings: "\<forall>k. \<not> reserved k \<longrightarrow>
      obj_get field_query k = JUndefined \<or> (\<exists>s. obj_get field_query k = JStr s)"
    by (simp add: field_query_def obj_get_def)
  have valid: "\<forall>p f. RegExp_error lenient_runtime p f = None"
    by (simp add: lenient_runtime_def)
  have r: "\<not> reserved ''gone''" "\<not> reserved ''active''" "\<not> reserved ''name''"
    "\<not> reserved ''city''" "reserved ''limit''" "\<not> reserved ''skipped''"
    by (simp_all add: reserved_def)
  have pat: "list_all (\<lambda>c. \<not> line_terminator c) ''^a''" "list_all is_flag ''i''"
    "length ''i'' \<le> 1"
    by (simp_all add: line_terminator_def is_flag_def)
  have plain: "\<forall>p fl. ''Oslo'' = CHR ''/'' # p @ CHR ''/'' # fl \<longrightarrow>
      \<not> (list_all (\<lambda>c. \<not> line_terminator c) p \<and> list_all is_flag fl)"
    by simp
  from u g(1) strings valid have b: "\<exists>c. filterConditions lenient_runtime field_query = Inr c"
    by simp
  from u g(1) field_query_run obtain kvs where
    k: "JObj [(''gone'', JObj [(''$exists'', JBool False)]),
                  (''active'', JBool True),
                  (''name'', JObj [(''$in'', JArr [JRegExp ''^a'' ''i''])]),
                  (''city'', JStr ''Oslo'')] = JObj kvs"
    and keys: "\<forall>k. (k \<in> fst ` set kvs) = (\<not> reserved k \<and> obj_get field_query k \<noteq> JUndefined)"
    and vals: "\<forall>k. \<not> reserved k \<longrightarrow>
                 (obj_get field_query k = JStr ''undefined'' \<longrightarrow>
                    obj_get kvs k = JObj [(''$exists'', JBool False)])
               \<and> (obj_get field_query k = JStr ''true'' \<longrightarrow> obj_get kvs k = JBool True)
               \<and> (obj_get field_query k = JStr ''false'' \<longrightarrow> obj_get kvs k = JBool False)
               \<and> (\<forall>p fl. obj_get field_query k = JStr (CHR ''/'' # p @ CHR ''/'' # fl)
                          \<and> list_all (\<lambda>c. \<not> line_terminator c) p \<and> list_all is_flag fl \<longrightarrow>
                        (\<exists>f. obj_get kvs k = JObj [(''$in'', JArr [JRegExp p f])]
                           \<and> (length fl \<le> 1 \<longrightarrow> f = fl)))
               \<and> (\<forall>s. obj_get field_query k = JStr s
                        \<and> s \<noteq> ''undefined'' \<and> s \<noteq> ''true'' \<and> s \<noteq> ''false''
                        \<and> (\<forall>p fl. s = CHR ''/'' # p @ CHR ''/'' # fl \<longrightarrow>
                               \<not> (list_all (\<lambda>c. \<not> line_terminator c) p \<and> list_all is_flag fl)) \<longrightarrow>
                      obj_get kvs k = JStr s)"
    by auto
  from keys r g have k1: "''limit'' \<notin> fst ` set kvs" "''skipped'' \<notin> fst ` set kvs"
    by simp_all
  from vals [rule_format, of "''gone''"] r g have k2: "obj_get kvs ''gone'' = JObj [(''$exists'', JBool False)]"
    by simp
  from vals [rule_format, of "''active''"] r g have k3: "obj_get kvs ''active'' = JBool True"
    by simp
  from vals [THEN spec, of "''name''"] r g(6) pat
  have k4: "obj_get kvs ''name'' = JObj [(''$in'', JArr [JRegExp ''^a'' ''i''])]"
    by blast
  from vals [THEN spec, of "''city''"] r g(7) plain
  have k5: "obj_get kvs ''city'' = JStr ''Oslo''"
    by simp
  from a b k k1 k2 k3 k4 k5 show ?thesis by blast
qed

section \<open>The middleware: failed checks\<close>

text \<open>
  The claim as stated fails for an error thrown by \<^verbatim>\<open>authenticate\<close> with the status
  0: it carries a status, but the status is falsy, and the error forwarded is a new
  one with status 401.
\<close>

theorem express_falsy_status_counterexample:
  "status zero_status = JNum 0
   \<and> EntityREST_express EntityREST_getOne (failing_auth zero_status) store bare_req
       = [Authenticate,
          Next (Some \<lparr>name = ''Error'', message = ''Token expired'', status = JNum 401,
                       details = JObj [(''realm'', JStr ''api'')]\<rparr>)]"
  by code_simp

text \<open>
  C8 (as amended). When \<^verbatim>\<open>spec.authenticate\<close> is present and throws, the
  middleware calls neither \<^verbatim>\<open>validate\<close> nor the endpoint function and forwards one
  error to \<^verbatim>\<open>next\<close>: the thrown error itself when its status is truthy, and
  otherwise (no status, or a falsy one) an error with status 401 and the thrown
  error's message and details. When \<^verbatim>\<open>authenticate\<close> is absent or returns and
  \<^verbatim>\<open>spec.validate\<close> is present and throws, the same holds with status 400.
\<close>

theorem express_check_failures:
  "(authenticate spec = Some f \<and> f (make_request r) args = Inl e \<longrightarrow>
      (\<exists>forwarded. EntityREST_express endpointFunction spec args r
                      = [Authenticate, Next (Some forwarded)]
         \<and> (js_truthy (status e) \<longrightarrow> forwarded = e)
         \<and> (\<not> js_truthy (status e) \<longrightarrow>
               status forwarded = JNum 401 \<and> message forwarded = message e
               \<and> details forwarded = details e)))
   \<and> ((authenticate spec = None \<or> (\<exists>f v. authenticate spec = Some f \<and> f (make_request r) args = Inr v))
        \<and> validate spec = Some g \<and> g (make_request r) args = Inl e \<longrightarrow>
      (\<exists>forwarded. EntityREST_express endpointFunction spec args r
                      = (case authenticate spec of None \<Rightarrow> [] | Some f \<Rightarrow> [Authenticate])
                          @ [Validate, Next (Some forwarded)]
         \<and> (js_truthy (status e) \<longrightarrow> forwarded = e)
         \<and> (\<not> js_truthy (status e) \<longrightarrow>
               status forwarded = JNum 400 \<and> message forwarded = message e
               \<and> details forwarded = details e)))"
  by (auto simp: EntityREST_express_def rethrow_def)

theorem express_check_failures_witness:
  "(\<exists>forwarded.
       EntityREST_express EntityREST_getOne (failing_auth unauthenticated) store bare_req
         = [Authenticate, Next (Some forwarded)]
       \<and> status forwarded = JNum 401 \<and> message forwarded = ''Token expired''
       \<and> details forwarded = JObj [(''realm'', JStr ''api'')])
   \<and> EntityREST_express EntityREST_getOne (failing_auth forbidden) store bare_req
       = [Authenticate, Next (Some forbidden)]
   \<and> (\<exists>forwarded.
       EntityREST_express EntityREST_getOne (failing_validation unauthenticated) store bare_req
         = [Authenticate, Validate, Next (Some forwarded)]
       \<and> status forwarded = JNum 400 \<and> message forwarded = ''Token expired''
       \<and> details forwarded = JObj [(''realm'', JStr ''api'')])
   \<and> EntityREST_express EntityREST_getOne (failing_validation forbidden) store bare_req
       = [Authenticate, Validate, Next (Some forbidden)]"
proof -
  have a: "authenticate (failing_auth e) = Some (\<lambda>rq args. Inl e)" for e
    by (simp add: failing_auth_def)
  have v: "authenticate (failing_validation e) = Some (\<lambda>rq args. Inr JUndefined)"
    "validate (failing_validation e) = Some (\<lambda>rq args. Inl e)" for e
    by (simp_all add: failing_validation_def)
  have s: "\<not> js_truthy (status unauthenticated)" "js_truthy (status forbidden)"
    "message unauthenticated = ''Token expired''"
    "details unauthenticated = JObj [(''realm'', JStr ''api'')]"
    by (simp_all add: unauthenticated_def forbidden_def)
  note t = express_check_failures [where endpointFunction = EntityREST_getOne and args = store
      and r = bare_req]
  from t [where spec = "failing_auth unauthenticated" and e = unauthenticated
            and f = "\<lambda>rq args. Inl unauthenticated"] a s
  have 1: "\<exists>forwarded.
       EntityREST_express EntityREST_getOne (failing_auth unauthenticated) store bare_req
         = [Authenticate, Next (Some forwarded)]
       \<and> status forwarded = JNum 401 \<and> message forwarded = ''Token expired''
       \<and> details forwarded = JObj [(''realm'', JStr ''api'')]"
    by simp
  from t [where spec = "failing_auth forbidden" and e = forbidden
            and f = "\<lambda>rq args. Inl forbidden"] a s
  have 2: "EntityREST_express EntityREST_getOne (failing_auth forbidden) store bare_req
       = [Authenticate, Next (Some forbidden)]"
    by simp
  from t [where spec = "failing_validation unauthenticated" and e = unauthenticated
            and g = "\<lambda>rq args. Inl unauthenticated"] v s
  have 3: "\<exists>forwarded.
       EntityREST_express EntityREST_getOne (failing_validation unauthenticated) store bare_req
         = [Authenticate, Validate, Next (Some forwarded)]
       \<and> status forwarded = JNum 400 \<and> message forwarded = ''Token expired''
       \<and> details forwarded = JObj [(''realm'', JStr ''api'')]"
    by simp
  from t [where spec = "failing_validation forbidden" and e = forbidden
            and g = "\<lambda>rq args. Inl forbidden"] v s
  have 4: "EntityREST_express EntityREST_getOne (failing_validation forbidden) store bare_req
       = [Authenticate, Validate, Next (Some forbidden)]"
    by simp
  from 1 2 3 4 show ?thesis by blast
qed

end
